(* ===== verification/Prelude.thy ===== *)
theory Prelude
  imports Main "HOL-Library.AList" "HOL-Library.Multiset"
begin

text \<open>
  Shared vocabulary of the development of \<^verbatim>\<open>src/projeto_renomear_arquivos.py\<close>:
  the names of the model's basic types, the platform the script runs on, the collection
  of definitions unfolded when a concrete run is evaluated, and generic lemmas on lists,
  association lists and multisets that the component theories share.
\<close>

named_theorems modelo_defs "definitions of the model unfolded to evaluate a concrete run"

declare upto.simps [modelo_defs]

type_synonym nome = string
  \<comment> \<open>a file name inside the target folder (an entry of \<open>os.listdir\<close>)\<close>

type_synonym caminho = string
  \<comment> \<open>a path as the script builds it with \<open>os.path.join\<close>\<close>

datatype plataforma = Windows | Posix
  \<comment> \<open>\<open>os.path\<close> is \<open>ntpath\<close> on Windows and \<open>posixpath\<close> elsewhere; \<open>os.rename\<close>
      refuses an existing target on Windows and replaces it on POSIX\<close>

text \<open>The values of an association list, as a multiset.\<close>

definition valores :: "('k \<times> 'v) list \<Rightarrow> 'v multiset" where
  "valores al = mset (map snd al)"

subsection \<open>Lists\<close>

lemma fold_filter_remove:
  "fold (\<lambda>c s. filter (\<lambda>x. x \<noteq> c) s) cs s = filter (\<lambda>x. x \<notin> set cs) s"
  by (induction cs arbitrary: s) (auto simp: filter_filter conj_commute)

lemma dropWhile_all_hd:
  "dropWhile P xs = y # ys \<Longrightarrow> \<not> P y"
  by (induction xs) (auto split: if_splits)

subsection \<open>Association lists\<close>

text \<open>
  The values of an association list as a multiset: an update of a fresh key adds
  one value, an update of a present key replaces one.
\<close>

lemma valores_Nil [simp]: "valores [] = {#}"
  by (simp add: valores_def)

lemma valores_Cons [simp]: "valores (p # al) = add_mset (snd p) (valores al)"
  by (simp add: valores_def)

lemma map_of_in_valores: "map_of al k = Some w \<Longrightarrow> w \<in># valores al"
  by (induction al) (auto simp: valores_def split: if_splits)

lemma add_mset_diff_single: "w \<in># M \<Longrightarrow> add_mset b (M - {#w#}) = add_mset b M - {#w#}"
  by simp

lemma valores_update_fresh:
  "k \<notin> fst ` set al \<Longrightarrow> valores (AList.update k v al) = add_mset v (valores al)"
  by (induction al) auto

lemma valores_update_present:
  "map_of al k = Some w \<Longrightarrow> valores (AList.update k v al) = add_mset v (valores al - {#w#})"
proof (induction al)
  case Nil
  then show ?case by simp
next
  case (Cons p al)
  show ?case
  proof (cases "fst p = k")
    case True
    with Cons.prems show ?thesis by (cases p) simp
  next
    case False
    with Cons have IH: "valores (AList.update k v al) = add_mset v (valores al - {#w#})"
      and w: "w \<in># valores al"
      by (auto simp: map_of_in_valores split: prod.splits if_splits)
    from False have "AList.update k v (p # al) = p # AList.update k v al"
      by (cases p) simp
    with IH w show ?thesis by (simp add: add_mset_commute)
  qed
qed

lemma update_mesmo: "map_of al k = Some v \<Longrightarrow> AList.update k v al = al"
  by (induction al) auto

lemma delete_fresh: "k \<notin> fst ` set al \<Longrightarrow> AList.delete k al = al"
  by (induction al) auto

lemma valores_delete:
  "distinct (map fst al) \<Longrightarrow> map_of al k = Some w \<Longrightarrow>
   valores (AList.delete k al) = valores al - {#w#}"
proof (induction al)
  case Nil
  then show ?case by simp
next
  case (Cons p al)
  obtain k' v' where p: "p = (k', v')" by (cases p)
  show ?case
  proof (cases "k' = k")
    case True
    with Cons.prems p have "k \<notin> fst ` set al" and "v' = w" by auto
    with True p show ?thesis by (simp add: delete_fresh)
  next
    case False
    with Cons.prems p have "distinct (map fst al)" and w: "map_of al k = Some w" by auto
    with Cons.IH have IH: "valores (AList.delete k al) = valores al - {#w#}" by simp
    from w have "w \<in># valores al" by (rule map_of_in_valores)
    with IH False p show ?thesis by simp
  qed
qed

end
