(* ===== verification/PyStr.thy ===== *)
theory PyStr
  imports Prelude
begin

text \<open>
  The Python string and path built-ins the script calls, modelled on the characters of
  Latin-1 (Isabelle's \<^typ>\<open>char\<close>): \<open>str.isspace\<close>, \<open>str.strip()\<close>,
  \<open>str.split()\<close> with no separator, \<open>str.join\<close>, \<open>str.replace\<close>, \<open>str()\<close> of an
  integer, \<open>os.path.splitext\<close> and \<open>os.path.join\<close>. Each is written after CPython's
  algorithm, not after the script's use of it, and the lemmas below state what the
  script relies on: \<open>strip\<close> leaves no outer whitespace, \<open>split\<close> gives non-empty
  words with no whitespace, \<open>' '.join(s.split())\<close> leaves single spaces only,
  \<open>replace(c, '')\<close> is a filter, and \<open>splitext\<close> cuts a name in two.
\<close>

subsection \<open>Whitespace\<close>

text \<open>
  The characters below 256 for which CPython's \<open>str.isspace\<close> holds: tab, line feed,
  vertical tab, form feed, carriage return, the four information separators
  \<open>0x1C\<close>--\<open>0x1F\<close>, space, NEL \<open>0x85\<close> and no-break space \<open>0xA0\<close>.
\<close>

definition espacos_py :: "char list" where
  "espacos_py = [CHR 0x09, CHR 0x0A, CHR 0x0B, CHR 0x0C, CHR 0x0D,
                 CHR 0x1C, CHR 0x1D, CHR 0x1E, CHR 0x1F, CHR 0x20, CHR 0x85, CHR 0xA0]"

definition py_isspace :: "char \<Rightarrow> bool" where
  "py_isspace c \<longleftrightarrow> c \<in> set espacos_py"

subsection \<open>\<open>str.strip()\<close>\<close>

definition py_lstrip :: "string \<Rightarrow> string" where
  "py_lstrip s = dropWhile py_isspace s"

definition py_rstrip :: "string \<Rightarrow> string" where
  "py_rstrip s = rev (dropWhile py_isspace (rev s))"

definition py_strip :: "string \<Rightarrow> string" where
  "py_strip s = py_rstrip (py_lstrip s)"

subsection \<open>\<open>str.split()\<close> with no separator\<close>

text \<open>
  CPython skips a run of whitespace, takes the maximal run of other characters as a
  word, and repeats until the string is used up; so no word is empty and leading or
  trailing whitespace gives no word. The recursion is not structural: its measure is
  the length of the rest of the string.
\<close>

function py_split :: "string \<Rightarrow> string list" where
  "py_split s =
     (let t = dropWhile py_isspace s
      in if t = [] then []
         else takeWhile (\<lambda>c. \<not> py_isspace c) t # py_split (dropWhile (\<lambda>c. \<not> py_isspace c) t))"
  by pat_completeness auto
termination
proof (relation "measure length")
  fix s t
  assume t: "t = dropWhile py_isspace s" and ne: "t \<noteq> []"
  then obtain y ys where yt: "t = y # ys" by (cases t) blast+
  with t have "\<not> py_isspace y" by (metis dropWhile_all_hd)
  then have "length (dropWhile (\<lambda>c. \<not> py_isspace c) t) \<le> length ys"
    using yt by (simp add: length_dropWhile_le)
  moreover have "length t \<le> length s"
    using t by (simp add: length_dropWhile_le)
  ultimately show "(dropWhile (\<lambda>c. \<not> py_isspace c) t, s) \<in> measure length"
    using yt by simp
qed simp

subsection \<open>\<open>sep.join(words)\<close>\<close>

fun py_join :: "string \<Rightarrow> string list \<Rightarrow> string" where
  "py_join sep [] = []"
| "py_join sep [w] = w"
| "py_join sep (w # v # ws) = w @ sep @ py_join sep (v # ws)"

subsection \<open>\<open>s.replace(old, new)\<close>\<close>

text \<open>
  Replacement of every non-overlapping occurrence, scanning left to right. An empty
  \<open>old\<close> inserts \<open>new\<close> before every character and at the end, as CPython does.
\<close>

function py_replace_scan :: "string \<Rightarrow> string \<Rightarrow> string \<Rightarrow> string" where
  "py_replace_scan old new s =
     (case s of
        [] \<Rightarrow> []
      | c # cs \<Rightarrow>
          (if old \<noteq> [] \<and> take (length old) s = old
           then new @ py_replace_scan old new (drop (length old) s)
           else c # py_replace_scan old new cs))"
  by pat_completeness auto
termination
  by (relation "measure (\<lambda>(old, new, s). length s)") auto

definition py_replace :: "string \<Rightarrow> string \<Rightarrow> string \<Rightarrow> string" where
  "py_replace s old new =
     (if old = [] then new @ concat (map (\<lambda>c. c # new) s)
      else py_replace_scan old new s)"

subsection \<open>\<open>str(n)\<close> of an integer\<close>

definition algarismos :: string where
  "algarismos = ''0123456789''"

fun digitos :: "nat \<Rightarrow> string" where
  "digitos n =
     (if n < 10 then [algarismos ! n]
      else digitos (n div 10) @ [algarismos ! (n mod 10)])"

definition py_str_int :: "int \<Rightarrow> string" where
  "py_str_int i = (if i < 0 then CHR ''-'' # digitos (nat (- i)) else digitos (nat i))"

subsection \<open>\<open>os.path\<close>: separators, \<open>splitext\<close>, \<open>join\<close>\<close>

text \<open>
  \<open>ntpath\<close> accepts both slashes as separators and writes a backslash; \<open>posixpath\<close>
  knows only the slash.
\<close>

fun eh_sep :: "plataforma \<Rightarrow> char \<Rightarrow> bool" where
  "eh_sep Windows c \<longleftrightarrow> c = CHR 0x5C \<or> c = CHR ''/''"
| "eh_sep Posix c \<longleftrightarrow> c = CHR ''/''"

fun sep_principal :: "plataforma \<Rightarrow> char" where
  "sep_principal Windows = CHR 0x5C"
| "sep_principal Posix = CHR ''/''"

text \<open>
  \<open>genericpath._splitext\<close>: the extension starts at the last dot that follows the last
  separator, unless everything between that separator and the dot is dots (a leading
  dot, as in \<open>.bashrc\<close>, starts no extension). The string is scanned from its end:
  \<open>depois\<close> is what follows the last dot or separator, \<open>resto\<close> the reversed rest
  starting with that dot or separator.
\<close>

definition splitext :: "plataforma \<Rightarrow> string \<Rightarrow> string \<times> string" where
  "splitext pl p =
     (let r = rev p;
          depois = takeWhile (\<lambda>c. c \<noteq> CHR ''.'' \<and> \<not> eh_sep pl c) r;
          resto = dropWhile (\<lambda>c. c \<noteq> CHR ''.'' \<and> \<not> eh_sep pl c) r
      in case resto of
           [] \<Rightarrow> (p, [])
         | c # rbase \<Rightarrow>
             (if eh_sep pl c then (p, [])
              else if list_all (\<lambda>x. x = CHR ''.'') (takeWhile (\<lambda>x. \<not> eh_sep pl x) rbase)
              then (p, [])
              else (rev rbase, c # rev depois)))"

text \<open>
  \<open>os.path.join(a, b)\<close> for a name \<open>b\<close> that does not start with a separator (the
  only names the script joins: entries of \<open>os.listdir\<close> and sanitised names): a
  separator is put between the two unless \<open>a\<close> is empty or already ends with one (or,
  on Windows, with the colon of a bare drive such as \<open>C:\<close>). A POSIX name that
  starts with a slash replaces \<open>a\<close>.
\<close>

definition path_join :: "plataforma \<Rightarrow> caminho \<Rightarrow> nome \<Rightarrow> caminho" where
  "path_join pl a b =
     (if pl = Posix \<and> b \<noteq> [] \<and> hd b = CHR ''/'' then b
      else a @ (if a = [] \<or> eh_sep pl (last a) \<or> (pl = Windows \<and> last a = CHR '':'')
                then [] else [sep_principal pl]) @ b)"

subsection \<open>Predicates on the script's output\<close>

text \<open>No two spaces in a row.\<close>

fun sem_espaco_duplo :: "string \<Rightarrow> bool" where
  "sem_espaco_duplo (a # b # r) \<longleftrightarrow>
     \<not> (a = CHR '' '' \<and> b = CHR '' '') \<and> sem_espaco_duplo (b # r)"
| "sem_espaco_duplo _ \<longleftrightarrow> True"

text \<open>
  The shape \<open>' '.join(s.split())\<close> leaves: the only whitespace is the plain space, no
  two spaces are adjacent, and the string neither starts nor ends with whitespace.
\<close>

definition espacos_normalizados :: "string \<Rightarrow> bool" where
  "espacos_normalizados s \<longleftrightarrow>
     list_all (\<lambda>c. py_isspace c \<longrightarrow> c = CHR '' '') s \<and> sem_espaco_duplo s \<and>
     (s \<noteq> [] \<longrightarrow> \<not> py_isspace (hd s) \<and> \<not> py_isspace (last s))"

declare py_split.simps [simp del] py_replace_scan.simps [simp del] digitos.simps [simp del]

declare py_isspace_def [modelo_defs]
  espacos_py_def [modelo_defs]
  py_lstrip_def [modelo_defs]
  py_rstrip_def [modelo_defs]
  py_strip_def [modelo_defs]
  py_split.simps [modelo_defs]
  splitext_def [modelo_defs]
  path_join_def [modelo_defs]
  algarismos_def [modelo_defs]
  digitos.simps [modelo_defs]
  py_str_int_def [modelo_defs]

section \<open>Lemmas\<close>

subsection \<open>Whitespace and \<open>strip\<close>\<close>

lemma py_isspace_space [simp]: "py_isspace (CHR '' '')"
  by (simp add: py_isspace_def espacos_py_def)

lemma rev_dropWhile_rev:
  "\<exists>u. xs = rev (dropWhile P (rev xs)) @ u \<and> list_all P u"
proof -
  have "rev xs = takeWhile P (rev xs) @ dropWhile P (rev xs)" by simp
  then have "xs = rev (dropWhile P (rev xs)) @ rev (takeWhile P (rev xs))"
    by (metis rev_append rev_rev_ident)
  moreover have "list_all P (rev (takeWhile P (rev xs)))"
    by (auto simp: list_all_iff dest: set_takeWhileD)
  ultimately show ?thesis by blast
qed

lemma py_strip_decomp:
  "\<exists>a b. s = a @ py_strip s @ b \<and> list_all py_isspace a \<and> list_all py_isspace b"
proof -
  have l: "s = takeWhile py_isspace s @ py_lstrip s" by (simp add: py_lstrip_def)
  have a: "list_all py_isspace (takeWhile py_isspace s)"
    by (auto simp: list_all_iff dest: set_takeWhileD)
  obtain u where u: "py_lstrip s = py_strip s @ u" and b: "list_all py_isspace u"
    using rev_dropWhile_rev [of "py_lstrip s" py_isspace]
    by (auto simp: py_strip_def py_rstrip_def)
  from l u have "s = takeWhile py_isspace s @ py_strip s @ u" by simp
  with a b show ?thesis by blast
qed

lemma set_py_strip: "set (py_strip s) \<subseteq> set s"
  using py_strip_decomp [of s] by (metis Un_iff set_append subsetI)

lemma py_strip_ends:
  assumes "py_strip s \<noteq> []"
  shows "\<not> py_isspace (hd (py_strip s)) \<and> \<not> py_isspace (last (py_strip s))"
proof
  obtain u where u: "py_lstrip s = py_strip s @ u"
    using rev_dropWhile_rev [of "py_lstrip s" py_isspace]
    by (auto simp: py_strip_def py_rstrip_def)
  with assms have "hd (py_lstrip s) = hd (py_strip s)" and "py_lstrip s \<noteq> []" by auto
  then show "\<not> py_isspace (hd (py_strip s))"
    by (metis dropWhile_all_hd list.exhaust_sel py_lstrip_def)
  have "dropWhile py_isspace (rev (py_lstrip s)) \<noteq> []"
    using assms by (simp add: py_strip_def py_rstrip_def)
  then have "\<not> py_isspace (hd (dropWhile py_isspace (rev (py_lstrip s))))"
    by (metis dropWhile_all_hd list.exhaust_sel)
  then show "\<not> py_isspace (last (py_strip s))"
    using assms by (simp add: py_strip_def py_rstrip_def last_rev)
qed

lemma dropWhile_hd_id: "xs = [] \<or> \<not> P (hd xs) \<Longrightarrow> dropWhile P xs = xs"
  by (cases xs) auto

lemma py_strip_id:
  assumes "s = [] \<or> \<not> py_isspace (hd s) \<and> \<not> py_isspace (last s)"
  shows "py_strip s = s"
proof -
  from assms have l: "dropWhile py_isspace s = s" by (auto intro: dropWhile_hd_id)
  from assms have "dropWhile py_isspace (rev s) = rev s"
    by (auto intro: dropWhile_hd_id simp: hd_rev)
  with l show ?thesis by (simp add: py_strip_def py_rstrip_def py_lstrip_def)
qed

subsection \<open>\<open>split\<close> and \<open>join\<close>\<close>

lemma py_split_Nil: "dropWhile py_isspace s = [] \<Longrightarrow> py_split s = []"
  by (subst py_split.simps) simp

lemma py_split_Cons:
  "dropWhile py_isspace s = t \<Longrightarrow> t \<noteq> [] \<Longrightarrow>
   py_split s = takeWhile (\<lambda>c. \<not> py_isspace c) t # py_split (dropWhile (\<lambda>c. \<not> py_isspace c) t)"
  by (subst py_split.simps) (simp add: Let_def)

lemma py_split_words:
  "w \<in> set (py_split s) \<Longrightarrow> w \<noteq> [] \<and> list_all (\<lambda>c. \<not> py_isspace c) w"
proof (induction s rule: py_split.induct)
  case (1 s)
  show ?case
  proof (cases "dropWhile py_isspace s")
    case Nil
    with "1.prems" show ?thesis by (simp add: py_split_Nil)
  next
    case (Cons y ys)
    then have ny: "\<not> py_isspace y" by (rule dropWhile_all_hd)
    let ?q = "\<lambda>c. \<not> py_isspace c"
    from Cons "1.prems" have
      "w = takeWhile ?q (y # ys) \<or> w \<in> set (py_split (dropWhile ?q (y # ys)))"
      by (simp add: py_split_Cons)
    then show ?thesis
    proof
      assume w: "w = takeWhile ?q (y # ys)"
      have "list_all ?q (takeWhile ?q (y # ys))"
        by (simp only: list_all_iff) (blast dest: set_takeWhileD)
      with w ny show ?thesis by simp
    next
      assume "w \<in> set (py_split (dropWhile ?q (y # ys)))"
      with "1.IH" [OF refl] Cons show ?thesis by simp
    qed
  qed
qed

lemma filter_dropWhile_neg:
  "filter (\<lambda>c. \<not> P c) (dropWhile P xs) = filter (\<lambda>c. \<not> P c) xs"
  by (induction xs) auto

lemma filter_takeWhile_dropWhile:
  "filter P xs = takeWhile P xs @ filter P (dropWhile P xs)"
  by (induction xs) auto

lemma concat_py_split: "concat (py_split s) = filter (\<lambda>c. \<not> py_isspace c) s"
proof (induction s rule: py_split.induct)
  case (1 s)
  let ?q = "\<lambda>c. \<not> py_isspace c"
  show ?case
  proof (cases "dropWhile py_isspace s")
    case Nil
    then have "filter ?q s = []" by (metis filter.simps(1) filter_dropWhile_neg)
    with Nil show ?thesis by (simp add: py_split_Nil)
  next
    case (Cons y ys)
    then have "filter ?q s = filter ?q (y # ys)" by (metis filter_dropWhile_neg)
    also have "\<dots> = takeWhile ?q (y # ys) @ filter ?q (dropWhile ?q (y # ys))"
      by (rule filter_takeWhile_dropWhile)
    finally show ?thesis
      using "1.IH" [OF refl] Cons by (simp add: py_split_Cons)
  qed
qed

lemma sem_espaco_duplo_Cons:
  "sem_espaco_duplo (a # ys) \<longleftrightarrow>
     sem_espaco_duplo ys \<and> \<not> (ys \<noteq> [] \<and> a = CHR '' '' \<and> hd ys = CHR '' '')"
  by (cases ys) auto

lemma sem_espaco_duplo_append:
  "sem_espaco_duplo (xs @ ys) \<longleftrightarrow>
     sem_espaco_duplo xs \<and> sem_espaco_duplo ys \<and>
     \<not> (xs \<noteq> [] \<and> ys \<noteq> [] \<and> last xs = CHR '' '' \<and> hd ys = CHR '' '')"
  by (induction xs) (auto simp: sem_espaco_duplo_Cons)

lemma sem_espaco_duplo_no_space:
  "list_all (\<lambda>c. \<not> py_isspace c) w \<Longrightarrow> sem_espaco_duplo w"
  by (induction w rule: sem_espaco_duplo.induct) auto

lemma py_join_Cons_hd:
  "w \<noteq> [] \<Longrightarrow> hd (py_join sep (w # ws)) = hd w"
  by (cases ws) auto

lemma py_join_Cons_nonempty: "v \<noteq> [] \<Longrightarrow> py_join sep (v # ws) \<noteq> []"
  by (cases ws) auto

lemma py_join_normalizado:
  "list_all (\<lambda>w. w \<noteq> [] \<and> list_all (\<lambda>c. \<not> py_isspace c) w) ws \<Longrightarrow>
   espacos_normalizados (py_join '' '' ws)"
proof (induction "'' ''" ws rule: py_join.induct)
  case 1
  then show ?case by (simp add: espacos_normalizados_def)
next
  case (2 w)
  then have "sem_espaco_duplo w" by (simp add: sem_espaco_duplo_no_space)
  with 2 show ?case
    by (auto simp: espacos_normalizados_def list_all_iff)
next
  case (3 w v ws)
  let ?J = "py_join '' '' (v # ws)"
  from "3.prems" have w: "w \<noteq> []" "list_all (\<lambda>c. \<not> py_isspace c) w" by auto
  from "3.prems" "3.hyps" have J: "espacos_normalizados ?J" by simp
  from "3.prems" have "?J \<noteq> []" by (simp add: py_join_Cons_nonempty)
  with J have hdJ: "hd ?J \<noteq> CHR '' ''" by (auto simp: espacos_normalizados_def)
  have sw: "sem_espaco_duplo w" using w(2) by (rule sem_espaco_duplo_no_space)
  have "last w \<in> set w" using w(1) by simp
  with w(2) have "last w \<noteq> CHR '' ''" by (auto simp: list_all_iff)
  with sw J hdJ \<open>?J \<noteq> []\<close> have "sem_espaco_duplo (w @ CHR '' '' # ?J)"
    by (simp add: sem_espaco_duplo_append sem_espaco_duplo_Cons espacos_normalizados_def)
  moreover have "\<not> py_isspace (hd (w @ CHR '' '' # ?J))"
    using w by (auto simp: list_all_iff)
  moreover have "\<not> py_isspace (last (w @ CHR '' '' # ?J))"
    using J \<open>?J \<noteq> []\<close> by (simp add: espacos_normalizados_def)
  moreover have "list_all (\<lambda>c. py_isspace c \<longrightarrow> c = CHR '' '') (w @ CHR '' '' # ?J)"
    using w J by (auto simp: espacos_normalizados_def list_all_iff)
  ultimately show ?case by (simp add: espacos_normalizados_def)
qed

lemma py_join_split_normalizado: "espacos_normalizados (py_join '' '' (py_split s))"
  by (rule py_join_normalizado) (auto simp: list_all_iff dest: py_split_words)

lemma py_strip_normalizado: "espacos_normalizados s \<Longrightarrow> py_strip s = s"
  by (rule py_strip_id) (auto simp: espacos_normalizados_def)

lemma set_py_join:
  "set (py_join sep ws) \<subseteq> set sep \<union> \<Union> (set ` set ws)"
  by (induction sep ws rule: py_join.induct) auto

subsection \<open>\<open>replace\<close>\<close>

lemma py_replace_scan_char:
  "py_replace_scan [c] [] s = filter (\<lambda>x. x \<noteq> c) s"
  by (induction s) (simp_all add: py_replace_scan.simps [of "[c]" "[]"])

lemma py_replace_char: "py_replace s [c] [] = filter (\<lambda>x. x \<noteq> c) s"
  by (simp add: py_replace_def py_replace_scan_char)

declare py_replace_char [modelo_defs]

lemma fold_py_replace:
  "fold (\<lambda>c s. py_replace s [c] []) cs s = filter (\<lambda>x. x \<notin> set cs) s"
  by (simp add: py_replace_char fold_filter_remove)

subsection \<open>\<open>str(n)\<close>, \<open>splitext\<close>, \<open>join\<close>\<close>

lemma set_digitos: "set (digitos n) \<subseteq> set algarismos"
proof (induction n rule: digitos.induct)
  case (1 n)
  have len: "length algarismos = 10" by (simp add: algarismos_def)
  have "algarismos ! (n mod 10) \<in> set algarismos" by (rule nth_mem) (simp add: len)
  moreover have "n < 10 \<Longrightarrow> algarismos ! n \<in> set algarismos"
    by (rule nth_mem) (simp add: len)
  ultimately show ?case
    using "1.IH" by (subst digitos.simps) (auto simp: not_less)
qed
lemma digitos_nonempty: "digitos n \<noteq> []"
  by (subst digitos.simps) simp
lemma set_py_str_int: "set (py_str_int i) \<subseteq> insert (CHR ''-'') (set algarismos)"
  using set_digitos by (auto simp: py_str_int_def)

lemma list_all_neq_conj:
  "list_all (\<lambda>c. c \<noteq> a \<and> \<not> Q c) xs \<Longrightarrow> a \<notin> set xs \<and> list_all (\<lambda>c. \<not> Q c) xs"
  by (induction xs) auto

lemma splitext_concat: "fst (splitext pl p) @ snd (splitext pl p) = p"
proof -
  let ?P = "\<lambda>c. c \<noteq> CHR ''.'' \<and> \<not> eh_sep pl c"
  have r: "rev p = takeWhile ?P (rev p) @ dropWhile ?P (rev p)" by simp
  show ?thesis
  proof (cases "dropWhile ?P (rev p)")
    case Nil
    have "splitext pl p = (p, [])"
      by (simp only: splitext_def Let_def Nil list.case)
    then show ?thesis by simp
  next
    case (Cons c rbase)
    have "p = rev (rev p)" by simp
    also have "\<dots> = rev (takeWhile ?P (rev p) @ c # rbase)"
      using r Cons by simp
    finally have "p = rev rbase @ c # rev (takeWhile ?P (rev p))" by simp
    then show ?thesis
      by (simp only: splitext_def Let_def Cons list.case) simp
  qed
qed

lemma splitext_ext:
  "snd (splitext pl p) = [] \<or>
   (\<exists>e. snd (splitext pl p) = CHR ''.'' # e \<and> CHR ''.'' \<notin> set e \<and> list_all (\<lambda>c. \<not> eh_sep pl c) e)"
proof -
  let ?P = "\<lambda>c. c \<noteq> CHR ''.'' \<and> \<not> eh_sep pl c"
  show ?thesis
  proof (cases "dropWhile ?P (rev p)")
    case Nil
    have "splitext pl p = (p, [])"
      by (simp only: splitext_def Let_def Nil list.case)
    then show ?thesis by simp
  next
    case (Cons c rbase)
    then have c: "\<not> ?P c" by (rule dropWhile_all_hd)
    let ?e = "rev (takeWhile ?P (rev p))"
    have e: "list_all ?P ?e"
      by (simp only: list_all_iff set_rev) (blast dest: set_takeWhileD)
    have "snd (splitext pl p) = [] \<or> (snd (splitext pl p) = c # ?e \<and> \<not> eh_sep pl c)"
      by (simp only: splitext_def Let_def Cons list.case) simp
    then show ?thesis
    proof
      assume h: "snd (splitext pl p) = c # ?e \<and> \<not> eh_sep pl c"
      have "c = CHR ''.''" using c h by simp
      moreover from e have "CHR ''.'' \<notin> set ?e \<and> list_all (\<lambda>x. \<not> eh_sep pl x) ?e"
        by (rule list_all_neq_conj)
      ultimately show ?thesis using h by blast
    qed simp
  qed
qed

lemma path_join_inj:
  assumes "CHR ''/'' \<notin> set b1" and "CHR ''/'' \<notin> set b2"
  shows "path_join pl a b1 = path_join pl a b2 \<longleftrightarrow> b1 = b2"
proof -
  have "\<not> (b1 \<noteq> [] \<and> hd b1 = CHR ''/'')" and "\<not> (b2 \<noteq> [] \<and> hd b2 = CHR ''/'')"
    using assms by (auto dest: hd_in_set)
  then show ?thesis by (auto simp: path_join_def)
qed
subsection \<open>Words, suffixes and the non-space characters\<close>

lemma py_split_Cons_space: "py_isspace c \<Longrightarrow> py_split (c # s) = py_split s"
  by (subst (1 2) py_split.simps) simp

lemma py_split_word:
  "w \<noteq> [] \<Longrightarrow> list_all (\<lambda>c. \<not> py_isspace c) w \<Longrightarrow> py_split w = [w]"
proof -
  assume ne: "w \<noteq> []" and ns: "list_all (\<lambda>c. \<not> py_isspace c) w"
  from ne ns have d: "dropWhile py_isspace w = w" by (cases w) auto
  from ns have t: "takeWhile (\<lambda>c. \<not> py_isspace c) w = w" and e: "dropWhile (\<lambda>c. \<not> py_isspace c) w = []"
    by (simp_all add: list_all_iff)
  have "py_split (dropWhile (\<lambda>c. \<not> py_isspace c) w) = []"
    by (simp only: e) (simp add: py_split_Nil)
  with ne d t show ?thesis by (simp add: py_split_Cons)
qed

lemma py_split_py_join:
  "list_all (\<lambda>w. w \<noteq> [] \<and> list_all (\<lambda>c. \<not> py_isspace c) w) ws \<Longrightarrow> py_split (py_join '' '' ws) = ws"
proof (induction "'' ''" ws rule: py_join.induct)
  case 1
  then show ?case by (simp add: py_split_Nil)
next
  case (2 w)
  then show ?case by (simp add: py_split_word)
next
  case (3 w v ws)
  let ?J = "py_join '' '' (v # ws)"
  from "3.prems" have w: "w \<noteq> []" "list_all (\<lambda>c. \<not> py_isspace c) w" by auto
  from w have d: "dropWhile py_isspace (w @ CHR '' '' # ?J) = w @ CHR '' '' # ?J"
    by (cases w) auto
  from w(2) have t: "takeWhile (\<lambda>c. \<not> py_isspace c) (w @ CHR '' '' # ?J) = w"
    and e: "dropWhile (\<lambda>c. \<not> py_isspace c) (w @ CHR '' '' # ?J) = CHR '' '' # ?J"
    by (simp_all add: list_all_iff takeWhile_append2 dropWhile_append2)
  from "3.prems" "3.hyps" have "py_split ?J = v # ws" by simp
  with d t e w show ?case by (simp add: py_split_Cons py_split_Cons_space)
qed

lemma set_concat_py_split: "set (concat (py_split s)) \<subseteq> set s"
  by (simp add: concat_py_split)

lemma py_split_spaces_append: "list_all py_isspace a \<Longrightarrow> py_split (a @ s) = py_split s"
  by (induction a) (simp_all add: py_split_Cons_space)

lemma last_dropWhile: "dropWhile P xs \<noteq> [] \<Longrightarrow> last (dropWhile P xs) = last xs"
  by (induction xs) auto

lemma dropWhile_nonempty: "x \<in> set xs \<Longrightarrow> \<not> P x \<Longrightarrow> dropWhile P xs \<noteq> []"
  by (induction xs) auto

lemma py_split_append_word:
  assumes "a = [] \<or> py_isspace (last a)" and "w \<noteq> []" and "list_all (\<lambda>c. \<not> py_isspace c) w"
  shows "py_split (a @ w) = py_split a @ [w]"
  using assms(1)
proof (induction a rule: py_split.induct)
  case (1 a)
  let ?q = "\<lambda>c. \<not> py_isspace c"
  show ?case
  proof (cases "dropWhile py_isspace a")
    case Nil
    then have "list_all py_isspace a" by (simp add: list_all_iff dropWhile_eq_Nil_conv)
    then have "py_split (a @ w) = py_split w" by (rule py_split_spaces_append)
    with Nil assms(2,3) show ?thesis by (simp add: py_split_word py_split_Nil)
  next
    case (Cons y ys)
    let ?t = "y # ys"
    have ny: "\<not> py_isspace y" using Cons by (rule dropWhile_all_hd)
    have a: "a = takeWhile py_isspace a @ ?t"
      using Cons takeWhile_dropWhile_id [of py_isspace a] by simp
    then have "last a = last ?t" by (metis last_appendR list.distinct(1))
    moreover have "a \<noteq> []" using Cons by auto
    ultimately have lt: "py_isspace (last ?t)" using "1.prems" by simp
    have lin: "last ?t \<in> set ?t" by simp
    have "y \<in> set a" using a by (metis in_set_conv_decomp)
    then have d1: "dropWhile py_isspace (a @ w) = ?t @ w"
      using ny Cons by (simp add: dropWhile_append1)
    have t2: "takeWhile ?q (?t @ w) = takeWhile ?q ?t"
      using takeWhile_append1 [OF lin, of ?q] lt by simp
    have d2: "dropWhile ?q (?t @ w) = dropWhile ?q ?t @ w"
      using dropWhile_append1 [OF lin, of ?q] lt by simp
    let ?r = "dropWhile ?q ?t"
    have rne: "?r \<noteq> []" using lin lt by (intro dropWhile_nonempty) auto
    have lr: "last ?r = last ?t" by (rule last_dropWhile [OF rne])
    have "py_isspace (last ?r)" by (simp only: lr lt)
    then have IH: "py_split (?r @ w) = py_split ?r @ [w]"
      using "1.IH" [OF Cons [symmetric]] by simp
    have "py_split (a @ w) = takeWhile ?q ?t # py_split (?r @ w)"
      using py_split_Cons [OF d1] t2 d2 by simp
    also have "\<dots> = py_split a @ [w]"
      using IH py_split_Cons [OF Cons] by simp
    finally show ?thesis .
  qed
qed

lemma py_join_snoc: "\<exists>pre. py_join sep (ws @ [w]) = pre @ w"
proof (induction ws)
  case Nil
  show ?case by simp
next
  case (Cons x ws)
  then obtain pre where "py_join sep (ws @ [w]) = pre @ w" by blast
  moreover obtain y ys where "ws @ [w] = y # ys" by (cases "ws @ [w]") auto
  ultimately show ?case by (metis append.assoc append_Cons py_join.simps(3))
qed

lemma filter_nonspace_py_join:
  "filter (\<lambda>c. \<not> py_isspace c) (py_join '' '' ws) = concat (map (filter (\<lambda>c. \<not> py_isspace c)) ws)"
  by (induction "'' ''" ws rule: py_join.induct) auto

lemma filter_nonspace_py_strip:
  "filter (\<lambda>c. \<not> py_isspace c) (py_strip s) = filter (\<lambda>c. \<not> py_isspace c) s"
proof -
  obtain a b where s: "s = a @ py_strip s @ b" and "list_all py_isspace a" "list_all py_isspace b"
    using py_strip_decomp by blast
  then have "filter (\<lambda>c. \<not> py_isspace c) a = []" "filter (\<lambda>c. \<not> py_isspace c) b = []"
    by (auto simp: filter_empty_conv list_all_iff)
  then show ?thesis by (subst (2) s) simp
qed

end
