(* ===== verification/Planilha.thy ===== *)
theory Planilha
  imports PyStr
begin

text \<open>
  The table loader, lines 59--100 of \<^verbatim>\<open>renomear_arquivos_por_planilha\<close>: the
  workbook as \<open>openpyxl\<close> hands it to \<open>pandas.read_excel\<close> (sheets of header and
  rows of cells), the \<open>DataFrame\<close> that \<open>read_excel(..., sheet_name, usecols)\<close>
  builds with its per-column type inference, \<open>dropna(subset=[key])\<close>,
  \<open>duplicated().any()\<close>, \<open>drop_duplicates(subset=[key], keep='first')\<close> and
  \<open>set_index(key).to_dict('index')\<close>, which gives the lookup table
  \<open>dados_processos\<close>. The lemmas show that the table has one entry per distinct
  non-missing key, that this entry is the first row with that key, where each value
  of the frame comes from in the sheet, and that a stem is never found among keys
  read from a column of numbers.
\<close>

section \<open>Definitions\<close>

subsection \<open>Cells, sheets and Python values\<close>

text \<open>
  A cell as \<open>openpyxl\<close> reads it: empty (\<open>None\<close>), a string, or a number; \<open>pandas\<close>
  turns an integral float into an \<open>int\<close> on reading, so a numeric cell is an integer.
  Dates, booleans and fractional numbers are not modelled.
\<close>

datatype celula = Vazia | Texto string | Numero int

record aba =
  cabecalho :: "string list"
  linhas :: "celula list list"

type_synonym pasta_trabalho = "(string \<times> aba) list"
  \<comment> \<open>the sheets of a workbook, by name\<close>

text \<open>
  The Python object a \<open>DataFrame\<close> cell holds: a \<open>str\<close> or an \<open>int\<close> in an
  \<open>object\<close> column, an \<open>int64\<close>, a \<open>float64\<close> (always integral here) or \<open>NaN\<close>.
\<close>

datatype valor_py = PyStr string | PyInt int | PyFloat int | PyNaN

type_synonym linha_dict = "(string \<times> valor_py) list"
  \<comment> \<open>one row: column name to value, in column order (\<open>to_dict\<close>'s inner dict)\<close>

record quadro =
  colunas :: "string list"
  registros :: "linha_dict list"

datatype erro_leitura =
    AbaNaoEncontrada string      \<comment> \<open>\<open>ValueError: Worksheet named ... not found\<close>\<close>
  | ColunasAusentes "string list" \<comment> \<open>\<open>ValueError: Usecols do not match columns\<close>\<close>

subsection \<open>\<open>read_excel\<close>\<close>

text \<open>
  The strings \<open>read_excel\<close> reads as \<open>NaN\<close> by default (\<open>keep_default_na=True\<close>);
  \<open>openpyxl\<close>'s \<open>None\<close> arrives as the empty string and is one of them.
\<close>

definition na_padrao :: "string list" where
  "na_padrao = [[], ''#N/A'', ''#N/A N/A'', ''#NA'', ''-1.#IND'', ''-1.#QNAN'', ''-NaN'', ''-nan'',
                ''1.#IND'', ''1.#QNAN'', ''<NA>'', ''N/A'', ''NA'', ''NULL'', ''NaN'', ''None'',
                ''n/a'', ''nan'', ''null'']"

fun eh_na :: "celula \<Rightarrow> bool" where
  "eh_na Vazia \<longleftrightarrow> True"
| "eh_na (Texto s) \<longleftrightarrow> s \<in> set na_padrao"
| "eh_na (Numero n) \<longleftrightarrow> False"

text \<open>
  \<open>lib.maybe_convert_numeric\<close> on a string: an optional sign and decimal digits.
  (Other numeric spellings such as \<open>1.5\<close> or \<open>1e3\<close> are outside the model: such a
  cell counts as text here.)
\<close>

definition valor_algarismo :: "char \<Rightarrow> nat" where
  "valor_algarismo c = of_char c - 48"

definition ler_nat :: "string \<Rightarrow> nat option" where
  "ler_nat s =
     (if s \<noteq> [] \<and> list_all (\<lambda>c. c \<in> set algarismos) s
      then Some (foldl (\<lambda>acc c. 10 * acc + valor_algarismo c) 0 s) else None)"

definition ler_int :: "string \<Rightarrow> int option" where
  "ler_int s =
     (case s of
        [] \<Rightarrow> None
      | c # d \<Rightarrow>
          (if c = CHR ''-'' then map_option (\<lambda>n. - int n) (ler_nat d)
           else if c = CHR ''+'' then map_option int (ler_nat d)
           else map_option int (ler_nat s)))"

fun numero_de :: "celula \<Rightarrow> int option" where
  "numero_de (Numero n) = Some n"
| "numero_de (Texto s) = ler_int s"
| "numero_de Vazia = None"

text \<open>
  \<open>_infer_types\<close> of the parser behind \<open>read_excel\<close>, on one column of cells: when
  every cell is missing or numeric the column becomes \<open>int64\<close>, or \<open>float64\<close> if a
  value is missing; otherwise it stays an \<open>object\<close> column of \<open>str\<close>, \<open>int\<close> and
  \<open>NaN\<close>.
\<close>

definition inferir_coluna :: "celula list \<Rightarrow> valor_py list" where
  "inferir_coluna cs =
     (if list_all (\<lambda>c. eh_na c \<or> numero_de c \<noteq> None) cs
      then (if list_ex eh_na cs
            then map (\<lambda>c. case numero_de c of Some n \<Rightarrow> (if eh_na c then PyNaN else PyFloat n)
                                         | None \<Rightarrow> PyNaN) cs
            else map (\<lambda>c. case numero_de c of Some n \<Rightarrow> PyInt n | None \<Rightarrow> PyNaN) cs)
      else map (\<lambda>c. if eh_na c then PyNaN
                     else case c of Texto s \<Rightarrow> PyStr s | Numero n \<Rightarrow> PyInt n | Vazia \<Rightarrow> PyNaN) cs)"

definition celula_em :: "celula list \<Rightarrow> nat \<Rightarrow> celula" where
  "celula_em l i = (if i < length l then l ! i else Vazia)"

text \<open>
  \<open>openpyxl\<close>'s reader in \<open>pandas\<close> drops the trailing rows that have no value at
  all before the frame is built.
\<close>

definition linhas_lidas :: "aba \<Rightarrow> celula list list" where
  "linhas_lidas a = rev (dropWhile (list_all (\<lambda>c. c = Vazia)) (rev (linhas a)))"

definition read_excel :: "pasta_trabalho \<Rightarrow> string \<Rightarrow> string list \<Rightarrow> erro_leitura + quadro" where
  "read_excel wb nome_aba usecols =
     (case map_of wb nome_aba of
        None \<Rightarrow> Inl (AbaNaoEncontrada nome_aba)
      | Some a \<Rightarrow>
          (let faltam = filter (\<lambda>c. c \<notin> set (cabecalho a)) usecols
           in if cabecalho a = [] \<and> linhas_lidas a = [] then Inr \<lparr>colunas = [], registros = []\<rparr>
              else if faltam \<noteq> [] then Inl (ColunasAusentes faltam)
              else
                let idx = filter (\<lambda>i. cabecalho a ! i \<in> set usecols) [0..<length (cabecalho a)];
                    ls = linhas_lidas a;
                    cols = map (\<lambda>i. inferir_coluna (map (\<lambda>l. celula_em l i) ls)) idx;
                    nomes = map (\<lambda>i. cabecalho a ! i) idx
                in Inr \<lparr>colunas = nomes,
                        registros = map (\<lambda>j. zip nomes (map (\<lambda>col. col ! j) cols))
                                        [0..<length ls]\<rparr>))"

subsection \<open>Frame operations\<close>

definition valor_em :: "linha_dict \<Rightarrow> string \<Rightarrow> valor_py" where
  "valor_em r col = (case map_of r col of Some v \<Rightarrow> v | None \<Rightarrow> PyNaN)"

text \<open>
  \<open>dropna(subset=[chave])\<close> raises \<open>KeyError([chave])\<close> when the frame has no such
  column (the empty frame of an empty sheet); the error carries the missing labels.
\<close>

definition dropna :: "string \<Rightarrow> quadro \<Rightarrow> string list + quadro" where
  "dropna chave q =
     (if chave \<notin> set (colunas q) then Inl [chave]
      else Inr (q\<lparr>registros := filter (\<lambda>r. valor_em r chave \<noteq> PyNaN) (registros q)\<rparr>))"

definition tem_duplicatas :: "string \<Rightarrow> quadro \<Rightarrow> bool" where
  "tem_duplicatas chave q \<longleftrightarrow> \<not> distinct (map (\<lambda>r. valor_em r chave) (registros q))"

text \<open>\<open>keep='first'\<close>: a row is kept when its key has not been seen before.\<close>

fun dedup_primeiro :: "('a \<Rightarrow> 'k) \<Rightarrow> 'k list \<Rightarrow> 'a list \<Rightarrow> 'a list" where
  "dedup_primeiro f vistos [] = []"
| "dedup_primeiro f vistos (x # xs) =
     (if f x \<in> set vistos then dedup_primeiro f vistos xs
      else x # dedup_primeiro f (f x # vistos) xs)"

definition drop_duplicates :: "string \<Rightarrow> quadro \<Rightarrow> quadro" where
  "drop_duplicates chave q =
     q\<lparr>registros := dedup_primeiro (\<lambda>r. valor_em r chave) [] (registros q)\<rparr>"

type_synonym tabela = "(valor_py \<times> linha_dict) list"
  \<comment> \<open>\<open>dados_processos\<close>: key to the row's other columns\<close>

definition to_dict_index :: "string \<Rightarrow> quadro \<Rightarrow> tabela" where
  "to_dict_index chave q =
     map (\<lambda>r. (valor_em r chave, filter (\<lambda>p. fst p \<noteq> chave) r)) (registros q)"

text \<open>
  Lines 83--99 after the frame is read: drop rows with no key (stop with the warning
  of line 85 when none is left), remove duplicate keys keeping the first row (or copy
  the frame when there are none), and build the dictionary. \<open>Inl\<close> is the
  \<open>KeyError\<close> of \<open>dropna\<close>, \<open>Inr None\<close> the early \<open>return\<close> of line 86.
\<close>

definition montar_tabela :: "string \<Rightarrow> quadro \<Rightarrow> string list + tabela option" where
  "montar_tabela chave df =
     (case dropna chave df of
        Inl ks \<Rightarrow> Inl ks
      | Inr df1 \<Rightarrow>
          (if registros df1 = [] then Inr None
           else let df2 = (if tem_duplicatas chave df1 then drop_duplicates chave df1 else df1)
                in Inr (Some (to_dict_index chave df2))))"

text \<open>Line 129: the stripped stem, a Python \<open>str\<close>, looked up among the keys.\<close>

definition buscar :: "tabela \<Rightarrow> string \<Rightarrow> linha_dict option" where
  "buscar t numero = map_of t (PyStr numero)"

declare read_excel_def [modelo_defs]
  linhas_lidas_def [modelo_defs]
  celula_em_def [modelo_defs]
  inferir_coluna_def [modelo_defs]
  ler_int_def [modelo_defs]
  ler_nat_def [modelo_defs]
  valor_algarismo_def [modelo_defs]
  na_padrao_def [modelo_defs]
  valor_em_def [modelo_defs]
  dropna_def [modelo_defs]
  tem_duplicatas_def [modelo_defs]
  drop_duplicates_def [modelo_defs]
  to_dict_index_def [modelo_defs]
  montar_tabela_def [modelo_defs]
  buscar_def [modelo_defs]

section \<open>Lemmas\<close>

subsection \<open>\<open>read_excel\<close>\<close>

lemma map_nth_filter_upt:
  "map (\<lambda>i. h ! i) (filter (\<lambda>i. P (h ! i)) [0..<length h]) = filter P h"
proof (induction h rule: rev_induct)
  case Nil
  show ?case by simp
next
  case (snoc x h)
  have "filter (\<lambda>i. P ((h @ [x]) ! i)) [0..<length h] = filter (\<lambda>i. P (h ! i)) [0..<length h]"
    by (rule filter_cong) (auto simp: nth_append)
  moreover have "map (\<lambda>i. (h @ [x]) ! i) (filter (\<lambda>i. P (h ! i)) [0..<length h]) =
                 map (\<lambda>i. h ! i) (filter (\<lambda>i. P (h ! i)) [0..<length h])"
    by (rule map_cong) (auto simp: nth_append)
  ultimately show ?case using snoc by simp
qed

lemma read_excel_Inr:
  assumes "read_excel wb n us = Inr q" and "colunas q \<noteq> []"
  obtains a where "map_of wb n = Some a" and "list_all (\<lambda>c. c \<in> set (cabecalho a)) us"
    and "colunas q = filter (\<lambda>c. c \<in> set us) (cabecalho a)"
    and "\<forall>r \<in> set (registros q). map fst r = colunas q"
proof -
  from assms obtain a where a: "map_of wb n = Some a"
    by (auto simp: read_excel_def split: option.splits)
  with assms have ne: "\<not> (cabecalho a = [] \<and> linhas_lidas a = [])"
    by (auto simp: read_excel_def Let_def split: if_splits)
  with a assms have all: "filter (\<lambda>c. c \<notin> set (cabecalho a)) us = []"
    by (auto simp: read_excel_def Let_def split: if_splits)
  define idx where "idx = filter (\<lambda>i. cabecalho a ! i \<in> set us) [0..<length (cabecalho a)]"
  define cols where "cols = map (\<lambda>i. inferir_coluna (map (\<lambda>l. celula_em l i) (linhas_lidas a))) idx"
  define nomes where "nomes = map (\<lambda>i. cabecalho a ! i) idx"
  have q: "q = \<lparr>colunas = nomes,
               registros = map (\<lambda>j. zip nomes (map (\<lambda>col. col ! j) cols)) [0..<length (linhas_lidas a)]\<rparr>"
    using a ne all assms(1) unfolding idx_def cols_def nomes_def
    by (cases "cabecalho a = []") (simp_all add: read_excel_def Let_def)
  have nomes: "nomes = filter (\<lambda>c. c \<in> set us) (cabecalho a)"
    unfolding nomes_def idx_def by (rule map_nth_filter_upt)
  have "length (map (\<lambda>col. col ! j) cols) = length nomes" for j
    by (simp add: cols_def nomes_def)
  then have "\<forall>r \<in> set (registros q). map fst r = colunas q"
    by (auto simp: q)
  moreover from all have "list_all (\<lambda>c. c \<in> set (cabecalho a)) us"
    by (simp add: list_all_iff filter_empty_conv)
  ultimately show ?thesis using a that nomes q by simp
qed

lemma read_excel_colunas:
  "read_excel wb n us = Inr q \<Longrightarrow> colunas q \<noteq> [] \<Longrightarrow> set (colunas q) = set us"
  by (erule read_excel_Inr) (auto simp: list_all_iff)

text \<open>A frame without columns comes only from an empty sheet, and has no rows.\<close>

lemma read_excel_sem_colunas:
  assumes "read_excel wb n us = Inr q" and "us \<noteq> []" and "colunas q = []"
  shows "registros q = []"
proof -
  from assms(1) obtain a where a: "map_of wb n = Some a"
    by (auto simp: read_excel_def split: option.splits)
  show ?thesis
  proof (cases "cabecalho a = [] \<and> linhas_lidas a = []")
    case True
    with a assms(1) have "q = \<lparr>colunas = [], registros = []\<rparr>" by (simp add: read_excel_def)
    then show ?thesis by simp
  next
    case False
    with a assms(1) have all: "filter (\<lambda>c. c \<notin> set (cabecalho a)) us = []"
      and c: "colunas q = map (\<lambda>i. cabecalho a ! i) (filter (\<lambda>i. cabecalho a ! i \<in> set us) [0..<length (cabecalho a)])"
      by (auto simp: read_excel_def Let_def split: if_splits)
    have "filter (\<lambda>c. c \<in> set us) (cabecalho a) = colunas q"
      unfolding c by (rule map_nth_filter_upt [symmetric])
    then have "filter (\<lambda>c. c \<in> set us) (cabecalho a) = []"
      using assms(3) by simp
    with all assms(2) have False
      by (cases us) (auto simp: filter_empty_conv)
    then show ?thesis ..
  qed
qed

lemma read_excel_linha:
  "read_excel wb n us = Inr q \<Longrightarrow> r \<in> set (registros q) \<Longrightarrow> col \<in> set us \<Longrightarrow>
   map_of r col \<noteq> None"
proof -
  assume q: "read_excel wb n us = Inr q" and r: "r \<in> set (registros q)" and c: "col \<in> set us"
  from q r c have ne: "colunas q \<noteq> []"
    using read_excel_sem_colunas by fastforce
  from q ne have "set (colunas q) = set us" by (rule read_excel_colunas)
  moreover from q r ne have "map fst r = colunas q" by (auto elim: read_excel_Inr)
  ultimately have "col \<in> fst ` set r" using c by (metis set_map)
  then show ?thesis by (simp add: map_of_eq_None_iff)
qed

subsection \<open>Keys: deduplication and lookup\<close>

lemma dedup_primeiro_keys:
  "f ` set (dedup_primeiro f vs xs) = f ` set xs - set vs"
  by (induction f vs xs rule: dedup_primeiro.induct) auto

lemma dedup_primeiro_distinct:
  "distinct (map f (dedup_primeiro f vs xs))"
  by (induction f vs xs rule: dedup_primeiro.induct) (auto simp: dedup_primeiro_keys)

lemma dedup_primeiro_find:
  "k \<notin> set vs \<Longrightarrow> find (\<lambda>x. f x = k) (dedup_primeiro f vs xs) = find (\<lambda>x. f x = k) xs"
  by (induction f vs xs rule: dedup_primeiro.induct) auto

lemma dedup_primeiro_id:
  "distinct (map f xs) \<Longrightarrow> set (map f xs) \<inter> set vs = {} \<Longrightarrow> dedup_primeiro f vs xs = xs"
  by (induction f vs xs rule: dedup_primeiro.induct) auto

lemma map_of_map_find:
  "map_of (map (\<lambda>r. (g r, h r)) xs) k = map_option h (find (\<lambda>r. g r = k) xs)"
  by (induction xs) auto

lemma drop_duplicates_id:
  "\<not> tem_duplicatas chave q \<Longrightarrow> drop_duplicates chave q = q"
  by (simp add: tem_duplicatas_def drop_duplicates_def dedup_primeiro_id)

lemma montar_tabela_alt:
  "montar_tabela chave df =
     (if chave \<notin> set (colunas df) then Inl [chave]
      else let rs = filter (\<lambda>r. valor_em r chave \<noteq> PyNaN) (registros df)
           in if rs = [] then Inr None
              else Inr (Some (map (\<lambda>r. (valor_em r chave, filter (\<lambda>p. fst p \<noteq> chave) r))
                                  (dedup_primeiro (\<lambda>r. valor_em r chave) [] rs))))"
  by (auto simp: montar_tabela_def dropna_def Let_def drop_duplicates_def to_dict_index_def
                 tem_duplicatas_def dedup_primeiro_id)

lemma montar_tabela_distinct:
  "montar_tabela chave df = Inr (Some t) \<Longrightarrow> distinct (map fst t)"
  by (auto simp: montar_tabela_alt Let_def comp_def dedup_primeiro_distinct split: if_splits)

lemma find_filter_conj: "find P (filter Q xs) = find (\<lambda>x. Q x \<and> P x) xs"
  by (induction xs) auto

text \<open>
  C6. First row wins. In the table built from a frame, a key that is not \<open>NaN\<close> maps
  to the first row of the frame with that key (without the key column), and \<open>NaN\<close>
  maps to nothing: rows dropped by \<open>dropna\<close> and later duplicates are invisible.
\<close>

lemma montar_tabela_lookup:
  assumes "montar_tabela chave df = Inr (Some t)"
  shows "map_of t k = (if k = PyNaN then None
                       else map_option (\<lambda>r. filter (\<lambda>p. fst p \<noteq> chave) r)
                              (find (\<lambda>r. valor_em r chave = k) (registros df)))"
proof -
  let ?v = "\<lambda>r. valor_em r chave"
  let ?rs = "filter (\<lambda>r. ?v r \<noteq> PyNaN) (registros df)"
  from assms have t: "t = map (\<lambda>r. (?v r, filter (\<lambda>p. fst p \<noteq> chave) r)) (dedup_primeiro ?v [] ?rs)"
    by (auto simp: montar_tabela_alt Let_def split: if_splits)
  have "map_of t k = map_option (\<lambda>r. filter (\<lambda>p. fst p \<noteq> chave) r) (find (\<lambda>r. ?v r = k) ?rs)"
    by (simp add: t map_of_map_find dedup_primeiro_find)
  also have "\<dots> = (if k = PyNaN then None
                    else map_option (\<lambda>r. filter (\<lambda>p. fst p \<noteq> chave) r)
                           (find (\<lambda>r. ?v r = k) (registros df)))"
    by (auto simp: find_filter_conj find_None_iff intro: arg_cong [where f = "map_option _"] find_cong)
  finally show ?thesis .
qed

subsection \<open>Where a value of the frame comes from\<close>

lemma length_inferir_coluna [simp]: "length (inferir_coluna cs) = length cs"
  by (simp add: inferir_coluna_def)

text \<open>
  A column whose cells are all missing or numeric is read as \<open>int64\<close> or \<open>float64\<close>:
  none of its values is a \<open>str\<close>.
\<close>

lemma inferir_coluna_numerica:
  assumes "list_all (\<lambda>c. eh_na c \<or> numero_de c \<noteq> None) cs"
  shows "PyStr s \<notin> set (inferir_coluna cs)"
  using assms by (auto simp: inferir_coluna_def split: option.splits if_splits)

lemma linhas_lidas_subset: "set (linhas_lidas a) \<subseteq> set (linhas a)"
  by (auto simp: linhas_lidas_def dest: set_dropWhileD)

text \<open>
  Every value of a frame \<open>read_excel\<close> returns is the inferred value of a cell read
  from a column of the sheet with that column's name.
\<close>

lemma read_excel_valor:
  assumes "read_excel wb n us = Inr q" and "map_of wb n = Some a" and "r \<in> set (registros q)"
    and "map_of r c = Some v"
  shows "\<exists>i < length (cabecalho a). cabecalho a ! i = c \<and>
           v \<in> set (inferir_coluna (map (\<lambda>l. celula_em l i) (linhas_lidas a)))"
proof -
  define idx where "idx = filter (\<lambda>i. cabecalho a ! i \<in> set us) [0..<length (cabecalho a)]"
  define cols where "cols = map (\<lambda>i. inferir_coluna (map (\<lambda>l. celula_em l i) (linhas_lidas a))) idx"
  define nomes where "nomes = map (\<lambda>i. cabecalho a ! i) idx"
  have ne: "\<not> (cabecalho a = [] \<and> linhas_lidas a = [])"
    using assms by (auto simp: read_excel_def)
  with assms(1,2) have q: "registros q = map (\<lambda>j. zip nomes (map (\<lambda>col. col ! j) cols)) [0..<length (linhas_lidas a)]"
    unfolding idx_def cols_def nomes_def by (auto simp: read_excel_def Let_def split: if_splits)
  from assms(3) obtain j where j: "j < length (linhas_lidas a)" and r: "r = zip nomes (map (\<lambda>col. col ! j) cols)"
    by (auto simp: q)
  from map_of_SomeD [OF assms(4)] obtain k where k: "k < length idx" and c: "nomes ! k = c"
    and v: "cols ! k ! j = v"
    by (auto simp: r set_zip cols_def nomes_def)
  have "idx ! k \<in> set idx" using k by (rule nth_mem)
  then have i: "idx ! k < length (cabecalho a)" by (simp add: idx_def)
  have "v \<in> set (inferir_coluna (map (\<lambda>l. celula_em l (idx ! k)) (linhas_lidas a)))"
    using j k v by (auto simp: cols_def)
  with i c k show ?thesis by (auto simp: nomes_def)
qed

text \<open>
  When every cell under a column named \<open>c\<close> is missing or numeric, no row of the frame
  has a \<open>str\<close> under \<open>c\<close>.
\<close>

lemma read_excel_chave_numerica:
  assumes "read_excel wb n us = Inr q" and "map_of wb n = Some a"
    and "list_all (\<lambda>l. list_all (\<lambda>i. cabecalho a ! i = c \<longrightarrow> eh_na (celula_em l i) \<or> numero_de (celula_em l i) \<noteq> None)
                        [0..<length (cabecalho a)]) (linhas a)"
    and "r \<in> set (registros q)"
  shows "valor_em r c \<noteq> PyStr s"
proof (cases "map_of r c")
  case (Some v)
  from read_excel_valor [OF assms(1,2,4) Some] obtain i where i: "i < length (cabecalho a)"
    and c: "cabecalho a ! i = c" and v: "v \<in> set (inferir_coluna (map (\<lambda>l. celula_em l i) (linhas_lidas a)))"
    by blast
  have "list_all (\<lambda>x. eh_na x \<or> numero_de x \<noteq> None) (map (\<lambda>l. celula_em l i) (linhas_lidas a))"
    using assms(3) linhas_lidas_subset i c by (fastforce simp: list_all_iff)
  from inferir_coluna_numerica [OF this, of s] v Some show ?thesis by (auto simp: valor_em_def)
qed (simp add: valor_em_def)

subsection \<open>Properties of the lookup table\<close>

lemma dedup_primeiro_subset: "set (dedup_primeiro f vs xs) \<subseteq> set xs"
  by (induction f vs xs rule: dedup_primeiro.induct) auto

lemma montar_tabela_entradas:
  assumes "montar_tabela chave df = Inr (Some t)"
  shows "chave \<in> set (colunas df)" and "set (map fst t) = (\<lambda>r. valor_em r chave) ` set (registros df) - {PyNaN}"
    and "\<forall>e \<in> set t. \<exists>r \<in> set (registros df). snd e = filter (\<lambda>p. fst p \<noteq> chave) r"
proof -
  let ?v = "\<lambda>r. valor_em r chave"
  let ?rs = "filter (\<lambda>r. ?v r \<noteq> PyNaN) (registros df)"
  from assms show "chave \<in> set (colunas df)"
    by (auto simp: montar_tabela_alt split: if_splits)
  from assms have t: "t = map (\<lambda>r. (?v r, filter (\<lambda>p. fst p \<noteq> chave) r)) (dedup_primeiro ?v [] ?rs)"
    by (auto simp: montar_tabela_alt Let_def split: if_splits)
  have "set (map fst t) = ?v ` set (dedup_primeiro ?v [] ?rs)" by (simp add: t image_image)
  also have "\<dots> = ?v ` set ?rs" by (simp add: dedup_primeiro_keys)
  also have "\<dots> = ?v ` set (registros df) - {PyNaN}" by auto
  finally show "set (map fst t) = ?v ` set (registros df) - {PyNaN}" .
  show "\<forall>e \<in> set t. \<exists>r \<in> set (registros df). snd e = filter (\<lambda>p. fst p \<noteq> chave) r"
    using dedup_primeiro_subset [of ?v "[]" ?rs] by (auto simp: t)
qed

text \<open>A stem is found only when some row has it, as a \<open>str\<close>, under the key column.\<close>

lemma buscar_sem_str:
  assumes "montar_tabela chave df = Inr (Some t)" and "\<forall>r \<in> set (registros df). valor_em r chave \<noteq> PyStr s"
  shows "buscar t s = None"
  using montar_tabela_entradas(2) [OF assms(1)] assms(2)
  by (auto simp: buscar_def map_of_eq_None_iff)

text \<open>
  C10. One entry per key. The table has no key twice, and its keys are exactly the
  values of the key column that are not \<open>NaN\<close>.
\<close>

theorem tabela_uma_entrada_por_chave:
  assumes "montar_tabela chave df = Inr (Some t)"
  shows "distinct (map fst t) \<and> set (map fst t) = (\<lambda>r. valor_em r chave) ` set (registros df) - {PyNaN}"
  using montar_tabela_distinct [OF assms] montar_tabela_entradas(2) [OF assms] by simp

theorem montar_tabela_lookup_witness:
  "montar_tabela ''k'' \<lparr>colunas = [''k'', ''v''],
      registros = [[(''k'', PyStr ''1''), (''v'', PyStr ''a'')], [(''k'', PyNaN), (''v'', PyStr ''c'')],
                   [(''k'', PyStr ''1''), (''v'', PyStr ''b'')]]\<rparr> =
     Inr (Some [(PyStr ''1'', [(''v'', PyStr ''a'')])]) \<and>
   map_of [(PyStr ''1'', [(''v'', PyStr ''a'')])] (PyStr ''1'') = Some [(''v'', PyStr ''a'')]"
  using montar_tabela_lookup [of "''k''" "\<lparr>colunas = [''k'', ''v''],
      registros = [[(''k'', PyStr ''1''), (''v'', PyStr ''a'')], [(''k'', PyNaN), (''v'', PyStr ''c'')],
                   [(''k'', PyStr ''1''), (''v'', PyStr ''b'')]]\<rparr>" "[(PyStr ''1'', [(''v'', PyStr ''a'')])]"
      "PyStr ''1''"]
  by (simp add: modelo_defs)

theorem tabela_uma_entrada_por_chave_witness:
  "montar_tabela ''k'' \<lparr>colunas = [''k'', ''v''],
      registros = [[(''k'', PyStr ''1''), (''v'', PyStr ''a'')], [(''k'', PyNaN), (''v'', PyStr ''c'')],
                   [(''k'', PyStr ''1''), (''v'', PyStr ''b'')]]\<rparr> =
     Inr (Some [(PyStr ''1'', [(''v'', PyStr ''a'')])]) \<and>
   distinct [PyStr ''1''] \<and> set [PyStr ''1''] = {PyStr ''1'', PyNaN, PyStr ''1''} - {PyNaN}"
  using tabela_uma_entrada_por_chave [of "''k''" "\<lparr>colunas = [''k'', ''v''],
      registros = [[(''k'', PyStr ''1''), (''v'', PyStr ''a'')], [(''k'', PyNaN), (''v'', PyStr ''c'')],
                   [(''k'', PyStr ''1''), (''v'', PyStr ''b'')]]\<rparr>" "[(PyStr ''1'', [(''v'', PyStr ''a'')])]"]
  by (simp add: modelo_defs)

end
