(* ===== verification/Nome.thy ===== *)
theory Nome
  imports Planilha
begin

text \<open>
  The filename synthesizer, lines 126--149 of \<^verbatim>\<open>renomear_arquivos_por_planilha\<close>,
  and the script's parameters (lines 10--23 and 28--38). A row of the lookup table
  gives three fields, each \<open>str(dados.get(col, default)).strip()\<close>; they are
  composed into \<open>"{numero} - {advogado} - {cliente} X {parte}{extensao}"\<close>, every
  character of \<open>\/|:*?"<>\<close> is removed with \<open>str.replace\<close>, and whitespace runs are
  collapsed with \<open>' '.join(s.split()).strip()\<close>. The lemmas show that the result has
  no forbidden character and normalised spaces, that an extension without whitespace
  or forbidden characters ends the new name, that for a table read by
  \<open>read_excel\<close> a field is always the cell's text (a missing cell gives \<open>nan\<close>) and
  never the placeholder, and that a file whose name is already the synthesised one is
  never matched.
\<close>

section \<open>Definitions\<close>

subsection \<open>Parameters\<close>

text \<open>The parameters of \<open>renomear_arquivos_por_planilha\<close> (lines 28--38).\<close>

record parametros =
  caminho_planilha :: string
  nome_aba_planilha :: string
  coluna_processo_planilha :: string
  coluna_cliente_planilha :: string
  coluna_parte_adversa_planilha :: string
  coluna_advogado_planilha :: string
  pasta_arquivos :: string
  max_tentativas :: int
  atraso_entre_tentativas :: int

text \<open>
  The configuration constants of lines 10--23 (\<open>\<acute>\<close> letters as their Latin-1 code
  points: \<open>0xFA\<close> is \<open>u\<close> with acute accent, \<open>0xE1\<close> is \<open>a\<close> with acute accent).
  The folder is the one the user types at line 249.
\<close>

definition CAMINHO_PARA_MINHA_PLANILHA :: string where
  "CAMINHO_PARA_MINHA_PLANILHA =
     ''y:'' @ [CHR 0x5C] @ ''2.Planilhas Principais'' @ [CHR 0x5C] @ ''PLANILHA GERAL 3.xlsx''"

definition NOME_DA_ABA_PLANILHA :: string where
  "NOME_DA_ABA_PLANILHA = ''Processo''"

definition COLUNA_NUMERO_PROCESSO :: string where
  "COLUNA_NUMERO_PROCESSO = ''N'' @ [CHR 0xFA] @ ''mero do processo''"

definition COLUNA_NOME_CLIENTE :: string where
  "COLUNA_NOME_CLIENTE = ''Cliente principal''"

definition COLUNA_PARTE_ADVERSA :: string where
  "COLUNA_PARTE_ADVERSA = ''Contr'' @ [CHR 0xE1] @ ''rio principal''"

definition COLUNA_NOME_ADVOGADO :: string where
  "COLUNA_NOME_ADVOGADO = ''ADVOGADO''"

definition NUM_TENTATIVAS :: int where
  "NUM_TENTATIVAS = 3"

definition ATRASO_SEGUNDOS :: int where
  "ATRASO_SEGUNDOS = 1"

definition parametros_do_script :: "string \<Rightarrow> parametros" where
  "parametros_do_script pasta =
     \<lparr>caminho_planilha = CAMINHO_PARA_MINHA_PLANILHA,
      nome_aba_planilha = NOME_DA_ABA_PLANILHA,
      coluna_processo_planilha = COLUNA_NUMERO_PROCESSO,
      coluna_cliente_planilha = COLUNA_NOME_CLIENTE,
      coluna_parte_adversa_planilha = COLUNA_PARTE_ADVERSA,
      coluna_advogado_planilha = COLUNA_NOME_ADVOGADO,
      pasta_arquivos = pasta,
      max_tentativas = NUM_TENTATIVAS,
      atraso_entre_tentativas = ATRASO_SEGUNDOS\<rparr>"

definition colunas_necessarias :: "parametros \<Rightarrow> string list" where
  "colunas_necessarias p =
     [coluna_processo_planilha p, coluna_cliente_planilha p,
      coluna_parte_adversa_planilha p, coluna_advogado_planilha p]"

subsection \<open>Fields of a row\<close>

text \<open>\<open>str()\<close> of a value of the frame: \<open>str(12345.0)\<close> is \<open>12345.0\<close>, \<open>str(nan)\<close> is \<open>nan\<close>.\<close>

fun py_str :: "valor_py \<Rightarrow> string" where
  "py_str (PyStr s) = s"
| "py_str (PyInt n) = py_str_int n"
| "py_str (PyFloat n) = py_str_int n @ ''.0''"
| "py_str PyNaN = ''nan''"

text \<open>\<open>dados.get(col, default)\<close>: the default is a \<open>str\<close>.\<close>

definition dict_get :: "linha_dict \<Rightarrow> string \<Rightarrow> string \<Rightarrow> valor_py" where
  "dict_get dados col padrao = (case map_of dados col of Some v \<Rightarrow> v | None \<Rightarrow> PyStr padrao)"

definition campo :: "linha_dict \<Rightarrow> string \<Rightarrow> string \<Rightarrow> string" where
  "campo dados col padrao = py_strip (py_str (dict_get dados col padrao))"

subsection \<open>The new name\<close>

text \<open>Line 142: \<open>r'\/|:*?"<>'\<close>, nine characters.\<close>

definition caracteres_invalidos :: string where
  "caracteres_invalidos =
     [CHR 0x5C, CHR ''/'', CHR ''|'', CHR '':'', CHR ''*'', CHR ''?'', CHR 0x22, CHR ''<'', CHR ''>'']"

text \<open>Lines 143--147: one \<open>replace\<close> per forbidden character, then the space collapse.\<close>

definition limpar_nome :: "string \<Rightarrow> string" where
  "limpar_nome s =
     (let s1 = fold (\<lambda>ch acc. py_replace acc [ch] []) caracteres_invalidos s
      in py_strip (py_join '' '' (py_split s1)))"

text \<open>Lines 133--138: the three fields and the f-string.\<close>

definition nome_bruto :: "parametros \<Rightarrow> string \<Rightarrow> linha_dict \<Rightarrow> string \<Rightarrow> string" where
  "nome_bruto p numero dados extensao =
     (let nome_advogado = campo dados (coluna_advogado_planilha p) ''ADVOGADO_NAO_INFO'';
          nome_cliente = campo dados (coluna_cliente_planilha p) ''CLIENTE_NAO_INFO'';
          parte_adversa = campo dados (coluna_parte_adversa_planilha p) ''ADVERSO_NAO_INFO''
      in numero @ '' - '' @ nome_advogado @ '' - '' @ nome_cliente @ '' X '' @ parte_adversa @ extensao)"

definition novo_nome_arquivo :: "parametros \<Rightarrow> string \<Rightarrow> linha_dict \<Rightarrow> string \<Rightarrow> string" where
  "novo_nome_arquivo p numero dados extensao = limpar_nome (nome_bruto p numero dados extensao)"

declare CAMINHO_PARA_MINHA_PLANILHA_def [modelo_defs]
  NOME_DA_ABA_PLANILHA_def [modelo_defs]
  COLUNA_NUMERO_PROCESSO_def [modelo_defs]
  COLUNA_NOME_CLIENTE_def [modelo_defs]
  COLUNA_PARTE_ADVERSA_def [modelo_defs]
  COLUNA_NOME_ADVOGADO_def [modelo_defs]
  NUM_TENTATIVAS_def [modelo_defs]
  ATRASO_SEGUNDOS_def [modelo_defs]
  parametros_do_script_def [modelo_defs]
  colunas_necessarias_def [modelo_defs]
  dict_get_def [modelo_defs]
  campo_def [modelo_defs]
  caracteres_invalidos_def [modelo_defs]
  limpar_nome_def [modelo_defs]
  nome_bruto_def [modelo_defs]
  novo_nome_arquivo_def [modelo_defs]

section \<open>Lemmas\<close>

lemma limpar_nome_alt:
  "limpar_nome s = py_join '' '' (py_split (filter (\<lambda>c. c \<notin> set caracteres_invalidos) s))"
  by (simp add: limpar_nome_def fold_py_replace py_strip_normalizado py_join_split_normalizado)

lemma set_limpar_nome:
  "set (limpar_nome s) \<subseteq> insert (CHR '' '') (set s - set caracteres_invalidos)"
proof -
  let ?f = "filter (\<lambda>c. c \<notin> set caracteres_invalidos) s"
  have "set (limpar_nome s) \<subseteq> set '' '' \<union> \<Union> (set ` set (py_split ?f))"
    unfolding limpar_nome_alt by (rule set_py_join)
  also have "\<Union> (set ` set (py_split ?f)) \<subseteq> set ?f"
    using set_concat_py_split [of ?f] by simp
  finally show ?thesis by auto
qed

lemma limpar_nome_sem_invalidos: "set (limpar_nome s) \<inter> set caracteres_invalidos = {}"
  using set_limpar_nome [of s] by (auto simp: caracteres_invalidos_def)

lemma limpar_nome_normalizado: "espacos_normalizados (limpar_nome s)"
  by (simp add: limpar_nome_alt py_join_split_normalizado)

lemma filter_nonspace_limpar_nome:
  "filter (\<lambda>c. \<not> py_isspace c) (limpar_nome s) =
   filter (\<lambda>c. \<not> py_isspace c \<and> c \<notin> set caracteres_invalidos) s"
proof -
  let ?F = "filter (\<lambda>c. c \<notin> set caracteres_invalidos) s"
  have "map (filter (\<lambda>c. \<not> py_isspace c)) (py_split ?F) = py_split ?F"
    by (rule map_idI) (auto simp: filter_id_conv list_all_iff dest: py_split_words)
  then have "filter (\<lambda>c. \<not> py_isspace c) (limpar_nome s) = concat (py_split ?F)"
    by (simp add: limpar_nome_alt filter_nonspace_py_join)
  also have "\<dots> = filter (\<lambda>c. \<not> py_isspace c \<and> c \<notin> set caracteres_invalidos) s"
    by (simp add: concat_py_split filter_filter conj_commute)
  finally show ?thesis .
qed

text \<open>
  C14. The extension is kept when it is clean: if it has no whitespace and none of the
  forbidden characters, the new name ends with it.
\<close>

lemma novo_nome_extensao:
  assumes ext: "list_all (\<lambda>c. \<not> py_isspace c \<and> c \<notin> set caracteres_invalidos) ext"
  shows "\<exists>pre. novo_nome_arquivo p numero d ext = pre @ ext"
proof (cases "ext = []")
  case True
  then show ?thesis by simp
next
  case False
  let ?q = "\<lambda>c. \<not> py_isspace c" and ?v = "\<lambda>c. c \<notin> set caracteres_invalidos"
  obtain X where raw: "nome_bruto p numero d ext = X @ ext"
    by (simp add: nome_bruto_def Let_def)
  have fe: "filter ?v ext = ext" using ext by (auto simp: filter_id_conv list_all_iff)
  let ?Y = "filter ?v X"
  define a where "a = rev (dropWhile ?q (rev ?Y))"
  define b where "b = rev (takeWhile ?q (rev ?Y))"
  have Y: "?Y = a @ b" unfolding a_def b_def by (metis rev_append rev_rev_ident takeWhile_dropWhile_id)
  have a: "a = [] \<or> py_isspace (last a)"
  proof (cases "dropWhile ?q (rev ?Y)")
    case Nil
    then show ?thesis by (simp add: a_def)
  next
    case (Cons z zs)
    then have "\<not> ?q z" by (rule dropWhile_all_hd)
    with Cons show ?thesis by (simp add: a_def)
  qed
  have b: "list_all ?q b" unfolding b_def by (auto simp: list_all_iff dest: set_takeWhileD)
  have w: "b @ ext \<noteq> []" "list_all ?q (b @ ext)" using False b ext by (auto simp: list_all_iff)
  have "filter ?v (nome_bruto p numero d ext) = a @ (b @ ext)" using raw fe Y by simp
  then have "py_split (filter ?v (nome_bruto p numero d ext)) = py_split a @ [b @ ext]"
    using py_split_append_word [OF a w] by simp
  then have "novo_nome_arquivo p numero d ext = py_join '' '' (py_split a @ [b @ ext])"
    by (simp add: novo_nome_arquivo_def limpar_nome_alt)
  then show ?thesis using py_join_snoc [of "'' ''" "py_split a" "b @ ext"] by auto
qed

lemma length_filter_nome_bruto:
  "length (filter (\<lambda>c. \<not> py_isspace c \<and> c \<notin> set caracteres_invalidos) (nome_bruto p numero d ext)) \<ge>
   length (filter (\<lambda>c. \<not> py_isspace c \<and> c \<notin> set caracteres_invalidos) numero) + 3 +
   length (filter (\<lambda>c. \<not> py_isspace c \<and> c \<notin> set caracteres_invalidos) ext)"
  by (simp add: nome_bruto_def Let_def py_isspace_def espacos_py_def caracteres_invalidos_def)

theorem nome_ja_correto_nunca_casa:
  assumes "splitext pl nome = (base, ext)"
  shows "nome \<noteq> novo_nome_arquivo p (py_strip base) d ext"
proof
  let ?q = "\<lambda>c. \<not> py_isspace c" and ?g = "\<lambda>c. \<not> py_isspace c \<and> c \<notin> set caracteres_invalidos"
  assume eq: "nome = novo_nome_arquivo p (py_strip base) d ext"
  have nome: "nome = base @ ext" using splitext_concat [of pl nome] assms by simp
  from eq have "set nome \<inter> set caracteres_invalidos = {}"
    by (simp add: novo_nome_arquivo_def limpar_nome_sem_invalidos)
  then have inv: "set base \<inter> set caracteres_invalidos = {}" "set ext \<inter> set caracteres_invalidos = {}"
    using nome by auto
  have gb: "filter ?g (py_strip base) = filter ?q (py_strip base)"
    using inv(1) set_py_strip [of base] by (intro filter_cong) auto
  have ge: "filter ?g ext = filter ?q ext"
    using inv(2) by (intro filter_cong) auto
  have "length (filter ?q nome) = length (filter ?q (py_strip base)) + length (filter ?q ext)"
    using nome filter_nonspace_py_strip [of base] by simp
  moreover have "length (filter ?q nome) = length (filter ?g (nome_bruto p (py_strip base) d ext))"
    using eq by (simp add: novo_nome_arquivo_def filter_nonspace_limpar_nome)
  ultimately show False
    using length_filter_nome_bruto [where p = p and numero = "py_strip base" and d = d and ext = ext] gb ge by simp
qed


lemma map_of_filter_outra: "col \<noteq> chave \<Longrightarrow> map_of (filter (\<lambda>p. fst p \<noteq> chave) r) col = map_of r col"
  by (induction r) auto

text \<open>
  C5. The synthesised name is clean: it contains none of the nine characters
  \<open>\ / | : * ? " < >\<close>, its only whitespace is the plain space, no two spaces are
  adjacent, and it neither starts nor ends with whitespace.
\<close>

theorem novo_nome_arquivo_limpo:
  "set (novo_nome_arquivo p numero dados ext) \<inter>
     {CHR 0x5C, CHR ''/'', CHR ''|'', CHR '':'', CHR ''*'', CHR ''?'', CHR 0x22, CHR ''<'', CHR ''>''} = {} \<and>
   espacos_normalizados (novo_nome_arquivo p numero dados ext)"
  using limpar_nome_sem_invalidos [of "nome_bruto p numero dados ext"]
        limpar_nome_normalizado [of "nome_bruto p numero dados ext"]
  by (simp add: novo_nome_arquivo_def caracteres_invalidos_def)

theorem novo_nome_arquivo_limpo_witness:
  "set (novo_nome_arquivo (parametros_do_script ''d'') '' 1'' [(COLUNA_NOME_ADVOGADO, PyStr ''A:  B'')] ''.pdf'') \<inter>
     {CHR 0x5C, CHR ''/'', CHR ''|'', CHR '':'', CHR ''*'', CHR ''?'', CHR 0x22, CHR ''<'', CHR ''>''} = {} \<and>
   espacos_normalizados (novo_nome_arquivo (parametros_do_script ''d'') '' 1'' [(COLUNA_NOME_ADVOGADO, PyStr ''A:  B'')] ''.pdf'') \<and>
   novo_nome_arquivo (parametros_do_script ''d'') '' 1'' [(COLUNA_NOME_ADVOGADO, PyStr ''A:  B'')] ''.pdf'' =
     ''1 - A B - CLIENTE_NAO_INFO X ADVERSO_NAO_INFO.pdf''"
  using novo_nome_arquivo_limpo [of "parametros_do_script ''d''" "'' 1''" "[(COLUNA_NOME_ADVOGADO, PyStr ''A:  B'')]" "''.pdf''"]
  by (simp add: modelo_defs)

theorem novo_nome_extensao_witness:
  "list_all (\<lambda>c. \<not> py_isspace c \<and> c \<notin> set caracteres_invalidos) ''.pdf'' \<and>
   (\<exists>pre. novo_nome_arquivo (parametros_do_script ''d'') ''7'' [] ''.pdf'' = pre @ ''.pdf'')"
  using novo_nome_extensao [of "''.pdf''" "parametros_do_script ''d''" "''7''" "[]"]
  by (simp add: modelo_defs)

text \<open>
  C13. The placeholders of lines 133--135 are never used for a table read by
  \<open>read_excel\<close>: every row of the table has every requested column other than the key,
  so \<open>dados.get\<close> always finds a value (possibly \<open>NaN\<close>).
\<close>

theorem campo_nunca_padrao:
  assumes "read_excel wb aba us = Inr df" and "montar_tabela chave df = Inr (Some t)"
    and "(k, dados) \<in> set t" and "col \<in> set us" and "col \<noteq> chave"
  shows "\<exists>v. map_of dados col = Some v \<and> campo dados col padrao = py_strip (py_str v)"
proof -
  from montar_tabela_entradas(3) [OF assms(2)] assms(3) obtain r where
    r: "r \<in> set (registros df)" and dados: "dados = filter (\<lambda>p. fst p \<noteq> chave) r"
    by fastforce
  from read_excel_linha [OF assms(1) r assms(4)] obtain v where "map_of r col = Some v" by blast
  with dados assms(5) have "map_of dados col = Some v" by (simp add: map_of_filter_outra)
  then show ?thesis by (simp add: campo_def dict_get_def)
qed

theorem campo_nunca_padrao_witness:
  "read_excel [(''S'', \<lparr>cabecalho = [''k'', ''v''], linhas = [[Texto ''A'', Vazia]]\<rparr>)] ''S'' [''k'', ''v''] =
     Inr \<lparr>colunas = [''k'', ''v''], registros = [[(''k'', PyStr ''A''), (''v'', PyNaN)]]\<rparr> \<and>
   montar_tabela ''k'' \<lparr>colunas = [''k'', ''v''], registros = [[(''k'', PyStr ''A''), (''v'', PyNaN)]]\<rparr> =
     Inr (Some [(PyStr ''A'', [(''v'', PyNaN)])]) \<and>
   (\<exists>v. map_of [(''v'', PyNaN)] ''v'' = Some v \<and> campo [(''v'', PyNaN)] ''v'' ''X'' = py_strip (py_str v)) \<and>
   campo [(''v'', PyNaN)] ''v'' ''X'' = ''nan''"
  using campo_nunca_padrao [of "[(''S'', \<lparr>cabecalho = [''k'', ''v''], linhas = [[Texto ''A'', Vazia]]\<rparr>)]"
          "''S''" "[''k'', ''v'']" "\<lparr>colunas = [''k'', ''v''], registros = [[(''k'', PyStr ''A''), (''v'', PyNaN)]]\<rparr>"
          "''k''" "[(PyStr ''A'', [(''v'', PyNaN)])]" "PyStr ''A''" "[(''v'', PyNaN)]" "''v''" "''X''"]
  by (simp add: modelo_defs)

end
