(* ===== verification/Arquivos.thy ===== *)
theory Arquivos
  imports PyStr
begin

text \<open>
  The target folder and the operating-system calls the script makes on it:
  \<open>os.listdir\<close> with the \<open>os.path.isfile\<close> filter (line 109) and \<open>os.rename\<close>
  (line 159). The folder is an association list from entry names to entries, in the
  order \<open>os.listdir\<close> returns them; a regular file carries an identity standing for
  its contents. \<open>os.rename\<close> fails when another process holds the file (the
  environment decides, by the flag \<open>bloqueado\<close>), when the source is missing, and
  when the target exists: Windows raises \<open>FileExistsError\<close>, POSIX replaces a target
  file and refuses a target directory. The lemmas show that a rename keeps the names
  distinct, moves exactly one entry, and on Windows never loses a file.
\<close>

section \<open>Definitions\<close>

datatype entrada = Arquivo nat | Pasta
  \<comment> \<open>a regular file (with the identity of its contents) or a subdirectory\<close>

type_synonym diretorio = "(nome \<times> entrada) list"

datatype erro_os =
    PermissionError     \<comment> \<open>the file is in use by another process\<close>
  | FileNotFoundError
  | FileExistsError
  | IsADirectoryError
  | NotADirectoryError

definition listdir :: "diretorio \<Rightarrow> nome list" where
  "listdir d = map fst d"

definition isfile :: "diretorio \<Rightarrow> nome \<Rightarrow> bool" where
  "isfile d n \<longleftrightarrow> (case map_of d n of Some (Arquivo _) \<Rightarrow> True | _ \<Rightarrow> False)"

text \<open>Line 109: the regular files of the folder, in \<open>os.listdir\<close> order.\<close>

definition arquivos_na_pasta :: "diretorio \<Rightarrow> nome list" where
  "arquivos_na_pasta d = filter (isfile d) (listdir d)"

text \<open>\<open>os.rename(src, dst)\<close> inside one folder.\<close>

definition os_rename :: "plataforma \<Rightarrow> bool \<Rightarrow> diretorio \<Rightarrow> nome \<Rightarrow> nome \<Rightarrow> erro_os + diretorio" where
  "os_rename pl bloqueado d src dst =
     (if bloqueado then Inl PermissionError
      else case map_of d src of
        None \<Rightarrow> Inl FileNotFoundError
      | Some e \<Rightarrow>
          (if src = dst then Inr d
           else case map_of d dst of
             None \<Rightarrow> Inr (AList.update dst e (AList.delete src d))
           | Some e' \<Rightarrow>
               (case pl of
                  Windows \<Rightarrow> Inl FileExistsError
                | Posix \<Rightarrow>
                    (case (e, e') of
                       (_, Pasta) \<Rightarrow> Inl IsADirectoryError
                     | (Pasta, Arquivo _) \<Rightarrow> Inl NotADirectoryError
                     | (Arquivo _, Arquivo _) \<Rightarrow> Inr (AList.update dst e (AList.delete src d))))))"

text \<open>
  Well-formedness of a folder: no name twice, and no name contains the slash (neither
  Windows nor POSIX allows it in an entry name).
\<close>

definition pasta_ok :: "diretorio \<Rightarrow> bool" where
  "pasta_ok d \<longleftrightarrow> distinct (map fst d) \<and> list_all (\<lambda>n. CHR ''/'' \<notin> set n) (map fst d)"

declare listdir_def [modelo_defs]
  isfile_def [modelo_defs]
  arquivos_na_pasta_def [modelo_defs]
  os_rename_def [modelo_defs]
  pasta_ok_def [modelo_defs]

section \<open>Lemmas\<close>

lemma os_rename_Inr:
  assumes "os_rename pl b d src dst = Inr d'"
  shows "\<not> b \<and> (\<exists>e. map_of d src = Some e \<and>
           (d' = d \<and> src = dst \<or>
            src \<noteq> dst \<and> d' = AList.update dst e (AList.delete src d) \<and>
            (map_of d dst = None \<or> pl = Posix \<and> (\<exists>c c'. e = Arquivo c \<and> map_of d dst = Some (Arquivo c')))))"
  using assms
  by (auto simp: os_rename_def split: if_splits option.splits plataforma.splits entrada.splits)

lemma fst_set_update_delete:
  "fst ` set (AList.update k v (AList.delete k' al)) \<subseteq> insert k (fst ` set al)"
proof -
  have "fst ` set (AList.delete k' al) \<subseteq> fst ` set al"
    by (auto simp: AList.delete_eq)
  then show ?thesis by (auto simp: dom_update)
qed

lemma os_rename_pasta_ok:
  assumes "pasta_ok d" and "CHR ''/'' \<notin> set dst" and "os_rename pl b d src dst = Inr d'"
  shows "pasta_ok d'"
proof -
  from assms(3) have "d' = d \<or> (\<exists>e. d' = AList.update dst e (AList.delete src d))"
    by (auto dest!: os_rename_Inr)
  then show ?thesis
  proof
    assume "\<exists>e. d' = AList.update dst e (AList.delete src d)"
    then obtain e where d': "d' = AList.update dst e (AList.delete src d)" by blast
    from assms(1) have "distinct (map fst d')"
      by (simp add: d' pasta_ok_def distinct_update distinct_delete)
    moreover have "fst ` set d' \<subseteq> insert dst (fst ` set d)"
      unfolding d' by (rule fst_set_update_delete)
    with assms(1,2) have "list_all (\<lambda>n. CHR ''/'' \<notin> set n) (map fst d')"
      by (fastforce simp: pasta_ok_def list_all_iff)
    ultimately show ?thesis by (simp add: pasta_ok_def)
  qed (simp add: assms(1))
qed

lemma os_rename_map_of:
  assumes "os_rename pl b d src dst = Inr d'" and "src \<noteq> dst"
  shows "map_of d' = (map_of d)(src := None, dst := map_of d src)"
proof -
  from assms obtain e where e: "map_of d src = Some e"
    and d': "d' = AList.update dst e (AList.delete src d)"
    by (auto dest!: os_rename_Inr)
  with assms(2) show ?thesis
    by (auto simp: update_conv' delete_conv' fun_upd_twist)
qed

text \<open>On Windows a successful rename moves one entry: the multiset of entries is kept.\<close>

lemma os_rename_Windows_valores:
  assumes "pasta_ok d" and "os_rename Windows b d src dst = Inr d'"
  shows "valores d' = valores d"
proof (cases "src = dst")
  case True
  with assms show ?thesis by (auto dest!: os_rename_Inr)
next
  case False
  from assms False obtain e where e: "map_of d src = Some e" and none: "map_of d dst = None"
    and d': "d' = AList.update dst e (AList.delete src d)"
    by (auto dest!: os_rename_Inr)
  from none False have "dst \<notin> fst ` set (AList.delete src d)"
    by (auto simp: delete_conv' map_of_eq_None_iff [symmetric] simp del: map_of_eq_None_iff)
  then have "valores d' = add_mset e (valores (AList.delete src d))"
    by (simp add: d' valores_update_fresh)
  also have "\<dots> = valores d"
    using assms(1) e by (simp add: pasta_ok_def valores_delete map_of_in_valores)
  finally show ?thesis .
qed

text \<open>
  On POSIX a rename onto an existing file replaces it: the target's contents leave the
  folder and the moved file takes its name.
\<close>

lemma os_rename_Posix_sobrescreve:
  assumes "pasta_ok d" and "map_of d src = Some (Arquivo c)" and "map_of d dst = Some (Arquivo c')"
    and "src \<noteq> dst"
  shows "os_rename Posix False d src dst = Inr (AList.update dst (Arquivo c) (AList.delete src d))"
    and "valores (AList.update dst (Arquivo c) (AList.delete src d)) = valores d - {#Arquivo c'#}"
proof -
  show "os_rename Posix False d src dst = Inr (AList.update dst (Arquivo c) (AList.delete src d))"
    using assms(2-4) by (simp add: os_rename_def)
  have dst: "map_of (AList.delete src d) dst = Some (Arquivo c')"
    using assms(3,4) by (simp add: delete_conv')
  have "valores (AList.update dst (Arquivo c) (AList.delete src d)) =
        add_mset (Arquivo c) (valores (AList.delete src d) - {#Arquivo c'#})"
    by (rule valores_update_present [OF dst])
  also have "\<dots> = add_mset (Arquivo c) (valores d - {#Arquivo c#}) - {#Arquivo c'#}"
    using assms(1,2) dst map_of_in_valores [OF dst]
    by (simp add: pasta_ok_def valores_delete add_mset_diff_single)
  also have "\<dots> = valores d - {#Arquivo c'#}"
    using map_of_in_valores [OF assms(2)] by simp
  finally show "valores (AList.update dst (Arquivo c) (AList.delete src d)) = valores d - {#Arquivo c'#}" .
qed

end
