(* ===== verification/Renomeacao.thy ===== *)
theory Renomeacao
  imports Nome Arquivos
begin

text \<open>
  The rename executor, lines 116--175 of \<^verbatim>\<open>renomear_arquivos_por_planilha\<close>: the
  counters, the retry loop around \<open>os.rename\<close> (lines 156--172) and the loop over
  the folder's files (lines 122--175). The state is a record of the folder, the three
  counters, the number of \<open>os.rename\<close> calls made so far (which indexes the
  environment's answer: \<open>falha k\<close> says whether the \<open>k\<close>-th call finds the file held
  by another process), the seconds slept and the console lines printed. An exception
  raised inside the loop (\<open>time.sleep\<close> of a negative delay raises \<open>ValueError\<close>)
  ends the loop and carries the state reached so far, since renames already done stay
  done.
\<close>

section \<open>Definitions\<close>

text \<open>The exceptions that reach the handlers of lines 183--202.\<close>

datatype excecao =
    ExcFileNotFound string
  | ExcNotADirectory string
  | ExcKeyError string
  | ExcValueError string
  | ExcEmptyData string   \<comment> \<open>\<open>pd.errors.EmptyDataError\<close>, a subclass of \<open>ValueError\<close>\<close>
  | ExcOutra string

text \<open>The console lines of the loop, one constructor per \<open>print\<close> of lines 152--174.\<close>

datatype evento =
    Renomeado nome nome      \<comment> \<open>line 160\<close>
  | AvisoTentativa nome int  \<comment> \<open>line 166, with the attempt number\<close>
  | ErroFinal nome           \<comment> \<open>line 169\<close>
  | Ignorando nome           \<comment> \<open>line 152\<close>
  | NaoNaPlanilha nome       \<comment> \<open>line 174\<close>

record estado =
  pasta :: diretorio
  renomeados :: nat            \<comment> \<open>\<open>arquivos_renomeados_com_sucesso\<close>\<close>
  nao_encontrados :: nat       \<comment> \<open>\<open>arquivos_nao_encontrados_na_planilha\<close>\<close>
  erros :: nat                 \<comment> \<open>\<open>arquivos_com_erro_renomeacao\<close>\<close>
  chamadas :: nat              \<comment> \<open>\<open>os.rename\<close> calls made\<close>
  espera :: int                \<comment> \<open>seconds passed to \<open>time.sleep\<close>\<close>
  saida :: "evento list"

type_synonym ambiente = "nat \<Rightarrow> bool"
  \<comment> \<open>\<open>falha k\<close>: the \<open>k\<close>-th \<open>os.rename\<close> call finds the file in use\<close>

text \<open>Lines 117--119: the counters start at zero.\<close>

definition estado_inicial :: "diretorio \<Rightarrow> estado" where
  "estado_inicial d =
     \<lparr>pasta = d, renomeados = 0, nao_encontrados = 0, erros = 0, chamadas = 0, espera = 0,
      saida = []\<rparr>"

text \<open>
  Lines 157--170, one iteration per element of \<open>range(1, max_tentativas + 1)\<close>:
  the result says whether the file was renamed (the flag \<open>renomeado\<close>).
\<close>

fun tentar :: "plataforma \<Rightarrow> ambiente \<Rightarrow> int \<Rightarrow> int \<Rightarrow> nome \<Rightarrow> nome \<Rightarrow> int list \<Rightarrow> estado \<Rightarrow>
               (excecao \<times> estado) + (bool \<times> estado)" where
  "tentar pl falha max_t atraso antigo novo [] st = Inr (False, st)"
| "tentar pl falha max_t atraso antigo novo (t # ts) st =
     (let st1 = st\<lparr>chamadas := Suc (chamadas st)\<rparr>
      in case os_rename pl (falha (chamadas st)) (pasta st) antigo novo of
           Inr d' \<Rightarrow>
             Inr (True, st1\<lparr>pasta := d', renomeados := Suc (renomeados st),
                            saida := saida st @ [Renomeado antigo novo]\<rparr>)
         | Inl _ \<Rightarrow>
             (if t < max_t
              then (let st2 = st1\<lparr>saida := saida st @ [AvisoTentativa antigo t]\<rparr>
                    in if atraso < 0
                       then Inl (ExcValueError ''sleep length must be non-negative'', st2)
                       else tentar pl falha max_t atraso antigo novo ts
                              (st2\<lparr>espera := espera st + atraso\<rparr>))
              else tentar pl falha max_t atraso antigo novo ts
                     (st1\<lparr>erros := Suc (erros st), saida := saida st @ [ErroFinal antigo]\<rparr>)))"

text \<open>
  One iteration of the loop of line 122. \<open>os.rename\<close> is called on the two paths
  \<open>os.path.join(pasta, nome)\<close>; both name entries of the same folder, so the model
  renames the entry \<open>nome_arquivo_antigo\<close> to \<open>novo_nome_arquivo\<close>.
\<close>

definition processar_arquivo :: "parametros \<Rightarrow> plataforma \<Rightarrow> ambiente \<Rightarrow> tabela \<Rightarrow> nome \<Rightarrow> estado \<Rightarrow>
                                 (excecao \<times> estado) + estado" where
  "processar_arquivo p pl falha dados_processos nome_arquivo_antigo st =
     (let caminho_arquivo_antigo = path_join pl (pasta_arquivos p) nome_arquivo_antigo
      in case splitext pl nome_arquivo_antigo of
        (nome_base, extensao) \<Rightarrow>
          (let numero_processo_arquivo = py_strip nome_base
           in case buscar dados_processos numero_processo_arquivo of
                None \<Rightarrow>
                  Inr (st\<lparr>nao_encontrados := Suc (nao_encontrados st),
                          saida := saida st @ [NaoNaPlanilha nome_arquivo_antigo]\<rparr>)
              | Some dados \<Rightarrow>
                  (let novo = novo_nome_arquivo p numero_processo_arquivo dados extensao;
                       caminho_arquivo_novo = path_join pl (pasta_arquivos p) novo
                   in if caminho_arquivo_antigo = caminho_arquivo_novo
                      then Inr (st\<lparr>renomeados := Suc (renomeados st),
                                   saida := saida st @ [Ignorando nome_arquivo_antigo]\<rparr>)
                      else
                        (case tentar pl falha (max_tentativas p) (atraso_entre_tentativas p)
                                nome_arquivo_antigo novo [1..max_tentativas p] st of
                           Inl x \<Rightarrow> Inl x
                         | Inr (renomeado, st') \<Rightarrow>
                             Inr (if \<not> renomeado \<and> \<not> caminho_arquivo_antigo = caminho_arquivo_novo
                                  then st'\<lparr>erros := Suc (erros st')\<rparr> else st')))))"

text \<open>Lines 122--175: the loop over the snapshot \<open>arquivos_na_pasta\<close>.\<close>

fun processar_todos :: "parametros \<Rightarrow> plataforma \<Rightarrow> ambiente \<Rightarrow> tabela \<Rightarrow> nome list \<Rightarrow> estado \<Rightarrow>
                        (excecao \<times> estado) + estado" where
  "processar_todos p pl falha t [] st = Inr st"
| "processar_todos p pl falha t (n # ns) st =
     (case processar_arquivo p pl falha t n st of
        Inl x \<Rightarrow> Inl x
      | Inr st' \<Rightarrow> processar_todos p pl falha t ns st')"

text \<open>
  Observations on a state used by the lemmas: the sum of the three counters the
  summary of lines 179--181 prints, and the number of final-failure lines
  (line 169) in a piece of console output.
\<close>

definition contadores :: "estado \<Rightarrow> nat" where
  "contadores st = renomeados st + nao_encontrados st + erros st"

fun eh_erro_final :: "evento \<Rightarrow> bool" where
  "eh_erro_final (ErroFinal _) \<longleftrightarrow> True"
| "eh_erro_final _ \<longleftrightarrow> False"

definition falhas_finais :: "evento list \<Rightarrow> nat" where
  "falhas_finais evs = length (filter eh_erro_final evs)"

text \<open>The state a loop step ends in, whether it returned or raised.\<close>

fun estado_de :: "(excecao \<times> estado) + estado \<Rightarrow> estado" where
  "estado_de (Inl (_, st)) = st"
| "estado_de (Inr st) = st"

fun estado_tentativa :: "(excecao \<times> estado) + (bool \<times> estado) \<Rightarrow> estado" where
  "estado_tentativa (Inl (_, st)) = st"
| "estado_tentativa (Inr (_, st)) = st"

declare estado_inicial_def [modelo_defs]
  contadores_def [modelo_defs]
  falhas_finais_def [modelo_defs]

lemmas processar_arquivo_avaliado [modelo_defs] = processar_arquivo_def [unfolded Let_def]

section \<open>Lemmas\<close>

subsection \<open>The retry loop\<close>

lemma os_rename_bloqueado: "os_rename pl True d a n = Inl PermissionError"
  by (simp add: os_rename_def)

lemma tentar_esgota_lista:
  assumes "0 \<le> atraso" and "ts \<noteq> []" and "list_all (\<lambda>t. t < m) (butlast ts)" and "\<not> last ts < m"
    and "\<forall>k < length ts. falha (chamadas st + k)"
  shows "tentar pl falha m atraso a n ts st =
         Inr (False, st\<lparr>chamadas := chamadas st + length ts, erros := Suc (erros st),
                        espera := espera st + int (length ts - 1) * atraso,
                        saida := saida st @ map (AvisoTentativa a) (butlast ts) @ [ErroFinal a]\<rparr>)"
  using assms(2-5)
proof (induction ts arbitrary: st)
  case Nil
  then show ?case by simp
next
  case (Cons t ts)
  from Cons.prems(4) have f0: "falha (chamadas st)" by (metis add_0_right length_greater_0_conv list.distinct(1))
  show ?case
  proof (cases "ts = []")
    case True
    with Cons.prems f0 show ?thesis by (simp add: os_rename_bloqueado)
  next
    case False
    with Cons.prems(2) have t: "t < m" and bl: "list_all (\<lambda>t. t < m) (butlast ts)" by simp_all
    let ?st = "st\<lparr>chamadas := Suc (chamadas st), saida := saida st @ [AvisoTentativa a t],
                  espera := espera st + atraso\<rparr>"
    from Cons.prems(4) have "\<forall>k < length ts. falha (chamadas ?st + k)" by auto
    with False bl Cons.prems(3) have IH:
      "tentar pl falha m atraso a n ts ?st =
       Inr (False, ?st\<lparr>chamadas := chamadas ?st + length ts, erros := Suc (erros ?st),
                       espera := espera ?st + int (length ts - 1) * atraso,
                       saida := saida ?st @ map (AvisoTentativa a) (butlast ts) @ [ErroFinal a]\<rparr>)"
      using Cons.IH by simp
    have e: "espera st + atraso + int (length ts - 1) * atraso = espera st + int (length ts) * atraso"
      using False by (cases ts) (auto simp: algebra_simps)
    from f0 t assms(1) IH False e show ?thesis by (simp add: os_rename_bloqueado)
  qed
qed

lemma tentar_sucesso_lista:
  assumes "os_rename pl False (pasta st) a n = Inr d'" and "j < length ts"
    and "list_all (\<lambda>t. t < m) (take j ts)" and "0 \<le> atraso"
    and "\<forall>k < j. falha (chamadas st + k)" and "\<not> falha (chamadas st + j)"
  shows "tentar pl falha m atraso a n ts st =
         Inr (True, st\<lparr>pasta := d', renomeados := Suc (renomeados st), chamadas := chamadas st + Suc j,
                       espera := espera st + int j * atraso,
                       saida := saida st @ map (AvisoTentativa a) (take j ts) @ [Renomeado a n]\<rparr>)"
  using assms(1-3,5,6)
proof (induction ts arbitrary: st j)
  case Nil
  then show ?case by simp
next
  case (Cons t ts)
  show ?case
  proof (cases j)
    case 0
    with Cons.prems show ?thesis by simp
  next
    case (Suc j')
    from Cons.prems(4) Suc have f0: "falha (chamadas st)" by auto
    from Cons.prems(3) Suc have t: "t < m" and tk: "list_all (\<lambda>t. t < m) (take j' ts)" by simp_all
    let ?st = "st\<lparr>chamadas := Suc (chamadas st), saida := saida st @ [AvisoTentativa a t],
                  espera := espera st + atraso\<rparr>"
    have IH: "tentar pl falha m atraso a n ts ?st =
       Inr (True, ?st\<lparr>pasta := d', renomeados := Suc (renomeados ?st), chamadas := chamadas ?st + Suc j',
                      espera := espera ?st + int j' * atraso,
                      saida := saida ?st @ map (AvisoTentativa a) (take j' ts) @ [Renomeado a n]\<rparr>)"
      using Cons.prems Suc tk by (intro Cons.IH) auto
    from f0 t assms(4) IH Suc show ?thesis by (simp add: os_rename_bloqueado algebra_simps)
  qed
qed

lemma tentar_Inr_conta:
  "tentar pl falha m atraso a n ts st = Inr (r, st') \<Longrightarrow>
   \<exists>new. saida st' = saida st @ new \<and> Ignorando a \<notin> set new \<and>
         contadores st' = contadores st + (if r then 1 else 0) + falhas_finais new"
proof (induction ts arbitrary: st)
  case Nil
  then show ?case by (auto intro: exI [of _ "[]"] simp: falhas_finais_def)
next
  case (Cons t ts)
  show ?case
  proof (cases "os_rename pl (falha (chamadas st)) (pasta st) a n")
    case (Inr d')
    with Cons.prems show ?thesis
      by (auto simp: contadores_def falhas_finais_def)
  next
    case (Inl e)
    show ?thesis
    proof (cases "t < m")
      case True
      let ?st = "st\<lparr>chamadas := Suc (chamadas st), saida := saida st @ [AvisoTentativa a t],
                    espera := espera st + atraso\<rparr>"
      from Cons.prems Inl True have "\<not> atraso < 0" and rec: "tentar pl falha m atraso a n ts ?st = Inr (r, st')"
        by (auto simp: Let_def split: if_splits)
      from Cons.IH [OF rec] obtain new where "saida st' = saida ?st @ new" "Ignorando a \<notin> set new"
        "contadores st' = contadores ?st + (if r then 1 else 0) + falhas_finais new" by blast
      then show ?thesis
        by (intro exI [of _ "AvisoTentativa a t # new"]) (simp add: contadores_def falhas_finais_def)
    next
      case False
      let ?st = "st\<lparr>chamadas := Suc (chamadas st), erros := Suc (erros st), saida := saida st @ [ErroFinal a]\<rparr>"
      from Cons.prems Inl False have rec: "tentar pl falha m atraso a n ts ?st = Inr (r, st')"
        by simp
      from Cons.IH [OF rec] obtain new where "saida st' = saida ?st @ new" "Ignorando a \<notin> set new"
        "contadores st' = contadores ?st + (if r then 1 else 0) + falhas_finais new" by blast
      then show ?thesis
        by (intro exI [of _ "ErroFinal a # new"]) (simp add: contadores_def falhas_finais_def)
    qed
  qed
qed

subsection \<open>One file, all files\<close>

lemma barra_invalida: "CHR ''/'' \<in> set caracteres_invalidos"
  by (simp add: caracteres_invalidos_def)

lemma caminhos_distintos:
  assumes "CHR ''/'' \<notin> set nome" and "splitext pl nome = (base, ext)"
  shows "path_join pl dir nome \<noteq> path_join pl dir (novo_nome_arquivo p (py_strip base) d ext)"
proof -
  have "CHR ''/'' \<notin> set (novo_nome_arquivo p (py_strip base) d ext)"
    using limpar_nome_sem_invalidos barra_invalida by (auto simp: novo_nome_arquivo_def)
  with assms(1) have "path_join pl dir nome = path_join pl dir (novo_nome_arquivo p (py_strip base) d ext) \<longleftrightarrow>
                      nome = novo_nome_arquivo p (py_strip base) d ext"
    by (rule path_join_inj)
  with nome_ja_correto_nunca_casa [OF assms(2)] show ?thesis by simp
qed

lemma processar_arquivo_casado:
  assumes "CHR ''/'' \<notin> set nome" and "splitext pl nome = (base, ext)" and "buscar t (py_strip base) = Some d"
  shows "processar_arquivo p pl falha t nome st =
    (case tentar pl falha (max_tentativas p) (atraso_entre_tentativas p) nome
            (novo_nome_arquivo p (py_strip base) d ext) [1..max_tentativas p] st of
       Inl x \<Rightarrow> Inl x
     | Inr (r, st') \<Rightarrow> Inr (if r then st' else st'\<lparr>erros := Suc (erros st')\<rparr>))"
  using caminhos_distintos [OF assms(1,2), of "pasta_arquivos p" p d] assms(2,3)
  by (simp add: processar_arquivo_def Let_def split: sum.split prod.split)

lemma processar_arquivo_sem_chave:
  assumes "splitext pl nome = (base, ext)" and "buscar t (py_strip base) = None"
  shows "processar_arquivo p pl falha t nome st =
         Inr (st\<lparr>nao_encontrados := Suc (nao_encontrados st), saida := saida st @ [NaoNaPlanilha nome]\<rparr>)"
  using assms by (simp add: processar_arquivo_def Let_def)

lemma processar_arquivo_conta:
  assumes "CHR ''/'' \<notin> set nome" and "processar_arquivo p pl falha t nome st = Inr st'"
  shows "\<exists>new. saida st' = saida st @ new \<and> Ignorando nome \<notin> set new \<and>
               contadores st' = Suc (contadores st) + falhas_finais new"
proof -
  obtain base ext where se: "splitext pl nome = (base, ext)" by (cases "splitext pl nome")
  show ?thesis
  proof (cases "buscar t (py_strip base)")
    case None
    with assms(2) se show ?thesis
      by (auto simp: processar_arquivo_sem_chave contadores_def falhas_finais_def)
  next
    case (Some d)
    let ?novo = "novo_nome_arquivo p (py_strip base) d ext"
    from assms(2) processar_arquivo_casado [OF assms(1) se Some, of p falha st]
    obtain r st'' where rt: "tentar pl falha (max_tentativas p) (atraso_entre_tentativas p) nome ?novo
                               [1..max_tentativas p] st = Inr (r, st'')"
      and st': "st' = (if r then st'' else st''\<lparr>erros := Suc (erros st'')\<rparr>)"
      by (auto split: sum.splits)
    from tentar_Inr_conta [OF rt] obtain new where "saida st'' = saida st @ new" "Ignorando nome \<notin> set new"
      "contadores st'' = contadores st + (if r then 1 else 0) + falhas_finais new" by blast
    with st' show ?thesis by (intro exI [of _ new]) (auto simp: contadores_def)
  qed
qed

lemma processar_todos_conta:
  "list_all (\<lambda>n. CHR ''/'' \<notin> set n) ns \<Longrightarrow> processar_todos p pl falha t ns st = Inr st' \<Longrightarrow>
   \<exists>new. saida st' = saida st @ new \<and> contadores st' = contadores st + length ns + falhas_finais new"
proof (induction ns arbitrary: st)
  case Nil
  then show ?case by (auto simp: falhas_finais_def)
next
  case (Cons n ns)
  from Cons.prems obtain st1 where p1: "processar_arquivo p pl falha t n st = Inr st1"
    and rest: "processar_todos p pl falha t ns st1 = Inr st'"
    by (auto split: sum.splits)
  from Cons.prems(1) have "CHR ''/'' \<notin> set n" by simp
  from processar_arquivo_conta [OF this p1] obtain new1 where
    "saida st1 = saida st @ new1" "contadores st1 = Suc (contadores st) + falhas_finais new1" by blast
  moreover from Cons.IH [OF _ rest] Cons.prems(1) obtain new2 where
    "saida st' = saida st1 @ new2" "contadores st' = contadores st1 + length ns + falhas_finais new2" by auto
  ultimately show ?case
    by (intro exI [of _ "new1 @ new2"]) (simp add: falhas_finais_def)
qed

text \<open>A table none of whose keys is a stem leaves every file alone and counts it as not found.\<close>

lemma processar_todos_sem_chave:
  assumes "\<forall>s. buscar t s = None"
  shows "processar_todos p pl falha t ns st =
         Inr (st\<lparr>nao_encontrados := nao_encontrados st + length ns, saida := saida st @ map NaoNaPlanilha ns\<rparr>)"
proof (induction ns arbitrary: st)
  case (Cons n ns)
  obtain base ext where "splitext pl n = (base, ext)" by (cases "splitext pl n")
  from processar_arquivo_sem_chave [OF this] assms Cons.IH show ?case by simp
qed simp

subsection \<open>What a step does to the folder\<close>

lemma os_rename_livre: "os_rename pl b d a n = Inr d' \<Longrightarrow> os_rename pl False d a n = Inr d'"
  using os_rename_Inr [of pl b d a n d'] by auto

lemma tentar_efeito:
  "tentar pl falha m atraso a n ts st = r \<Longrightarrow>
   (case r of
      Inl (_, st') \<Rightarrow> pasta st' = pasta st \<and> chamadas st' \<le> chamadas st + length ts
    | Inr (b, st') \<Rightarrow> chamadas st' \<le> chamadas st + length ts \<and>
        (if b then os_rename pl False (pasta st) a n = Inr (pasta st') else pasta st' = pasta st))"
proof (induction ts arbitrary: st)
  case Nil
  then show ?case by auto
next
  case (Cons t ts)
  show ?case
  proof (cases "os_rename pl (falha (chamadas st)) (pasta st) a n")
    case (Inr d')
    with Cons.prems show ?thesis by (auto intro: os_rename_livre)
  next
    case (Inl e)
    let ?st1 = "st\<lparr>chamadas := Suc (chamadas st)\<rparr>"
    let ?stA = "?st1\<lparr>saida := saida st @ [AvisoTentativa a t], espera := espera st + atraso\<rparr>"
    let ?stE = "?st1\<lparr>erros := Suc (erros st), saida := saida st @ [ErroFinal a]\<rparr>"
    consider "t < m" "atraso < 0" | "t < m" "\<not> atraso < 0" | "\<not> t < m" by blast
    then show ?thesis
    proof cases
      case 1
      with Cons.prems Inl show ?thesis by auto
    next
      case 2
      with Cons.prems Inl have "tentar pl falha m atraso a n ts ?stA = r" by simp
      from Cons.IH [OF this] show ?thesis by (auto split: sum.splits)
    next
      case 3
      with Cons.prems Inl have "tentar pl falha m atraso a n ts ?stE = r" by simp
      from Cons.IH [OF this] show ?thesis by (auto split: sum.splits)
    qed
  qed
qed

lemma novo_nome_sem_barra: "CHR ''/'' \<notin> set (novo_nome_arquivo p n d e)"
  using limpar_nome_sem_invalidos barra_invalida by (auto simp: novo_nome_arquivo_def)

text \<open>
  One file: at most \<open>max_tentativas\<close> calls, and the folder is either unchanged or
  renamed once, from this file, whose stem is a key, to a name without a slash.
\<close>

lemma processar_arquivo_efeito:
  assumes "processar_arquivo p pl falha t nome st = r"
  shows "chamadas (estado_de r) \<le> chamadas st + nat (max_tentativas p) \<and>
         (pasta (estado_de r) = pasta st \<or>
          buscar t (py_strip (fst (splitext pl nome))) \<noteq> None \<and>
          (\<exists>dst. CHR ''/'' \<notin> set dst \<and> os_rename pl False (pasta st) nome dst = Inr (pasta (estado_de r))))"
proof -
  obtain base ext where se: "splitext pl nome = (base, ext)" by (cases "splitext pl nome")
  show ?thesis
  proof (cases "buscar t (py_strip base)")
    case None
    with assms se show ?thesis by (auto simp: processar_arquivo_sem_chave)
  next
    case (Some d)
    let ?novo = "novo_nome_arquivo p (py_strip base) d ext"
    let ?tr = "tentar pl falha (max_tentativas p) (atraso_entre_tentativas p) nome ?novo [1..max_tentativas p] st"
    have pa: "path_join pl (pasta_arquivos p) nome \<noteq> path_join pl (pasta_arquivos p) ?novo \<Longrightarrow>
          processar_arquivo p pl falha t nome st =
          (case ?tr of Inl x \<Rightarrow> Inl x
           | Inr (renomeado, st') \<Rightarrow>
               Inr (if \<not> renomeado \<and> path_join pl (pasta_arquivos p) nome \<noteq> path_join pl (pasta_arquivos p) ?novo
                    then st'\<lparr>erros := Suc (erros st')\<rparr> else st'))"
      using se Some by (simp add: processar_arquivo_def Let_def split: sum.split prod.split)
    have chave: "buscar t (py_strip (fst (splitext pl nome))) \<noteq> None" using se Some by simp
    show ?thesis
    proof (cases "path_join pl (pasta_arquivos p) nome = path_join pl (pasta_arquivos p) ?novo")
      case True
      with assms [symmetric] se Some show ?thesis by (simp add: processar_arquivo_def Let_def)
    next
      case False
      note pa = pa [OF False]
      show ?thesis
    proof (cases ?tr)
      case (Inl x)
      then obtain e st' where tr: "?tr = Inl (e, st')" by (cases x) auto
      from tentar_efeito [OF tr] have "pasta st' = pasta st \<and> chamadas st' \<le> chamadas st + nat (max_tentativas p)"
        by simp
      moreover from pa tr assms have "r = Inl (e, st')" by simp
      ultimately show ?thesis by simp
    next
      case (Inr y)
      then obtain b st' where tr: "?tr = Inr (b, st')" by (cases y) auto
      from tentar_efeito [OF tr] have c: "chamadas st' \<le> chamadas st + nat (max_tentativas p)"
        and e: "if b then os_rename pl False (pasta st) nome ?novo = Inr (pasta st') else pasta st' = pasta st"
        by simp_all
      from pa tr assms have "pasta (estado_de r) = pasta st' \<and> chamadas (estado_de r) = chamadas st'"
        by auto
      with c e chave novo_nome_sem_barra [of p "py_strip base" d ext] show ?thesis
        by (cases b) auto
    qed
    qed
  qed
qed

lemma tentar_Inl:
  "tentar pl falha m atraso a n ts st = Inl (e, st') \<Longrightarrow> e = ExcValueError ''sleep length must be non-negative''"
  by (induction ts arbitrary: st) (auto simp: Let_def split: sum.splits if_splits)

lemma tentar_saida:
  "\<exists>new. saida (estado_tentativa (tentar pl falha m atraso a n ts st)) = saida st @ new \<and>
         (\<forall>x. Ignorando x \<notin> set new)"
proof (induction ts arbitrary: st)
  case Nil
  show ?case by simp
next
  case (Cons t ts)
  let ?st1 = "st\<lparr>chamadas := Suc (chamadas st)\<rparr>"
  let ?stA = "?st1\<lparr>saida := saida st @ [AvisoTentativa a t], espera := espera st + atraso\<rparr>"
  let ?stE = "?st1\<lparr>erros := Suc (erros st), saida := saida st @ [ErroFinal a]\<rparr>"
  consider (ok) d' where "os_rename pl (falha (chamadas st)) (pasta st) a n = Inr d'"
    | (neg) e where "os_rename pl (falha (chamadas st)) (pasta st) a n = Inl e" "t < m" "atraso < 0"
    | (av) e where "os_rename pl (falha (chamadas st)) (pasta st) a n = Inl e" "t < m" "\<not> atraso < 0"
    | (fim) e where "os_rename pl (falha (chamadas st)) (pasta st) a n = Inl e" "\<not> t < m"
    by (cases "os_rename pl (falha (chamadas st)) (pasta st) a n") auto
  then show ?case
  proof cases
    case ok
    then show ?thesis by (intro exI [of _ "[Renomeado a n]"]) simp
  next
    case neg
    then show ?thesis by (intro exI [of _ "[AvisoTentativa a t]"]) simp
  next
    case av
    obtain new where "saida (estado_tentativa (tentar pl falha m atraso a n ts ?stA)) = saida ?stA @ new"
      "\<forall>x. Ignorando x \<notin> set new" using Cons.IH by blast
    with av show ?thesis by (intro exI [of _ "AvisoTentativa a t # new"]) simp
  next
    case fim
    obtain new where "saida (estado_tentativa (tentar pl falha m atraso a n ts ?stE)) = saida ?stE @ new"
      "\<forall>x. Ignorando x \<notin> set new" using Cons.IH by blast
    with fim show ?thesis by (intro exI [of _ "ErroFinal a # new"]) simp
  qed
qed

lemma processar_arquivo_Inl:
  assumes "processar_arquivo p pl falha t nome st = Inl (e, st')"
  shows "e = ExcValueError ''sleep length must be non-negative''"
  using assms tentar_Inl
  by (auto simp: processar_arquivo_def Let_def split: prod.splits option.splits if_splits sum.splits)

lemma processar_arquivo_saida:
  assumes "CHR ''/'' \<notin> set nome"
  shows "\<exists>new. saida (estado_de (processar_arquivo p pl falha t nome st)) = saida st @ new \<and>
               (\<forall>x. Ignorando x \<notin> set new)"
proof -
  obtain base ext where se: "splitext pl nome = (base, ext)" by (cases "splitext pl nome")
  show ?thesis
  proof (cases "buscar t (py_strip base)")
    case None
    with se show ?thesis
      by (intro exI [of _ "[NaoNaPlanilha nome]"]) (simp add: processar_arquivo_sem_chave)
  next
    case (Some d)
    let ?tr = "tentar pl falha (max_tentativas p) (atraso_entre_tentativas p) nome
                 (novo_nome_arquivo p (py_strip base) d ext) [1..max_tentativas p] st"
    have "saida (estado_de (processar_arquivo p pl falha t nome st)) = saida (estado_tentativa ?tr)"
      by (simp add: processar_arquivo_casado [OF assms se Some] split: sum.split prod.split)
    with tentar_saida [of pl falha "max_tentativas p" "atraso_entre_tentativas p" nome
                          "novo_nome_arquivo p (py_strip base) d ext" "[1..max_tentativas p]" st]
    show ?thesis by simp
  qed
qed

text \<open>
  Invariants of the loop over the files: a property of the state that every file's
  step keeps holds when the loop returns or raises; an exception comes from one step.
\<close>

lemma processar_todos_invariante:
  assumes "I st" and "\<And>n st0. I st0 \<Longrightarrow> n \<in> set ns \<Longrightarrow> I (estado_de (processar_arquivo p pl falha t n st0))"
  shows "I (estado_de (processar_todos p pl falha t ns st))"
  using assms
proof (induction ns arbitrary: st)
  case Nil
  then show ?case by simp
next
  case (Cons n ns)
  have i1: "I (estado_de (processar_arquivo p pl falha t n st))" using Cons.prems by simp
  show ?case
  proof (cases "processar_arquivo p pl falha t n st")
    case (Inl x)
    with i1 show ?thesis by simp
  next
    case (Inr st1)
    have "I (estado_de (processar_todos p pl falha t ns st1))"
      using Cons.IH [of st1] i1 Inr Cons.prems(2) by simp
    with Inr show ?thesis by simp
  qed
qed

lemma processar_todos_Inl:
  "processar_todos p pl falha t ns st = Inl x \<Longrightarrow>
   \<exists>n \<in> set ns. \<exists>st0. processar_arquivo p pl falha t n st0 = Inl x"
  by (induction ns arbitrary: st) (fastforce split: sum.splits)+

text \<open>
  The loop over the files keeps every property of the folder that a rename of one of
  its files with a key, to a name without a slash, keeps.
\<close>

lemma processar_todos_preserva:
  assumes "Q (pasta st)"
    and "\<And>d src dst d'. Q d \<Longrightarrow> src \<in> set ns \<Longrightarrow> buscar t (py_strip (fst (splitext pl src))) \<noteq> None \<Longrightarrow>
           CHR ''/'' \<notin> set dst \<Longrightarrow> os_rename pl False d src dst = Inr d' \<Longrightarrow> Q d'"
  shows "Q (pasta (estado_de (processar_todos p pl falha t ns st)))"
proof (rule processar_todos_invariante [where I = "\<lambda>st. Q (pasta st)", OF assms(1)])
  fix n and st0 :: estado
  assume q: "Q (pasta st0)" and n: "n \<in> set ns"
  let ?r1 = "processar_arquivo p pl falha t n st0"
  have "pasta (estado_de ?r1) = pasta st0 \<or>
        buscar t (py_strip (fst (splitext pl n))) \<noteq> None \<and>
        (\<exists>dst. CHR ''/'' \<notin> set dst \<and> os_rename pl False (pasta st0) n dst = Inr (pasta (estado_de ?r1)))"
    using processar_arquivo_efeito [of p pl falha t n st0 ?r1] by simp
  then show "Q (pasta (estado_de ?r1))"
  proof
    assume "pasta (estado_de ?r1) = pasta st0"
    with q show ?thesis by simp
  next
    assume "buscar t (py_strip (fst (splitext pl n))) \<noteq> None \<and>
            (\<exists>dst. CHR ''/'' \<notin> set dst \<and> os_rename pl False (pasta st0) n dst = Inr (pasta (estado_de ?r1)))"
    then obtain dst where "buscar t (py_strip (fst (splitext pl n))) \<noteq> None" "CHR ''/'' \<notin> set dst"
      "os_rename pl False (pasta st0) n dst = Inr (pasta (estado_de ?r1))" by blast
    with q n show ?thesis
      using assms(2) [of "pasta st0" n dst "pasta (estado_de ?r1)"] by simp
  qed
qed


subsection \<open>The retry loop over \<open>range(1, max_tentativas + 1)\<close>\<close>

lemma upto_divide:
  assumes "int j < m"
  shows "[1..m] = [1..int j] @ [int j + 1..m]" and "length [1..int j] = j"
  using assms by (simp_all add: upto_split1 [of 1 "int j + 1" m])

lemma take_upto: "int j < m \<Longrightarrow> take j [1..m] = [1..int j]"
  using upto_divide [of j m] by simp

lemma tentar_esgota_upto:
  assumes "1 \<le> m" and "0 \<le> atraso" and "\<forall>k < nat m. falha (chamadas st + k)"
  shows "tentar pl falha m atraso a n [1..m] st =
         Inr (False, st\<lparr>chamadas := chamadas st + nat m, erros := Suc (erros st),
                        espera := espera st + (m - 1) * atraso,
                        saida := saida st @ map (AvisoTentativa a) [1..m - 1] @ [ErroFinal a]\<rparr>)"
proof -
  have u: "[1..m] = [1..m - 1] @ [m]" using assms(1) by (simp add: upto_rec2)
  then have ne: "[1..m] \<noteq> []" and bl: "butlast [1..m] = [1..m - 1]" and l: "\<not> last [1..m] < m"
    by (metis snoc_eq_iff_butlast, metis butlast_snoc, subst u, simp)
  have lt: "list_all (\<lambda>t. t < m) (butlast [1..m])" by (simp add: bl list_all_iff)
  have f: "\<forall>k < length [1..m]. falha (chamadas st + k)" using assms(3) by simp
  have "int (length [1..m] - 1) = m - 1" using assms(1) by simp
  with tentar_esgota_lista [OF assms(2) ne lt l f, of pl a n] bl assms(1) show ?thesis by simp
qed

lemma tentar_sucesso_upto:
  assumes "os_rename pl False (pasta st) a n = Inr d'" and "int j < m" and "0 \<le> atraso"
    and "\<forall>k < j. falha (chamadas st + k)" and "\<not> falha (chamadas st + j)"
  shows "tentar pl falha m atraso a n [1..m] st =
         Inr (True, st\<lparr>pasta := d', renomeados := Suc (renomeados st), chamadas := chamadas st + Suc j,
                       espera := espera st + int j * atraso,
                       saida := saida st @ map (AvisoTentativa a) [1..int j] @ [Renomeado a n]\<rparr>)"
proof -
  have j: "j < length [1..m]" using assms(2) by simp
  have "list_all (\<lambda>t. t < m) (take j [1..m])"
    using assms(2) by (simp add: take_upto list_all_iff)
  from tentar_sucesso_lista [OF assms(1) j this assms(3-5)] show ?thesis
    using take_upto [OF assms(2)] by simp
qed

text \<open>
  C1. Retry bound. A file with a key whose every \<open>os.rename\<close> attempt fails is tried
  exactly \<open>max_tentativas\<close> times: as many calls, a warning and a pause of
  \<open>atraso_entre_tentativas\<close> seconds after each attempt but the last, one final error
  line, and the folder unchanged. The error counter grows by two, once at line 170
  and again at line 172.
\<close>

theorem processar_arquivo_falha_total:
  assumes "CHR ''/'' \<notin> set nome" and "splitext pl nome = (base, ext)" and "buscar t (py_strip base) = Some d"
    and "1 \<le> max_tentativas p" and "0 \<le> atraso_entre_tentativas p"
    and "\<forall>k < nat (max_tentativas p). falha (chamadas st + k)"
  shows "processar_arquivo p pl falha t nome st =
         Inr (st\<lparr>chamadas := chamadas st + nat (max_tentativas p), erros := erros st + 2,
                 espera := espera st + (max_tentativas p - 1) * atraso_entre_tentativas p,
                 saida := saida st @ map (AvisoTentativa nome) [1..max_tentativas p - 1] @ [ErroFinal nome]\<rparr>)"
  using processar_arquivo_casado [OF assms(1-3)] tentar_esgota_upto [OF assms(4-6)] by simp


theorem processar_arquivo_falha_total_witness:
  "processar_arquivo (parametros_do_script ''d'') Windows (\<lambda>_. True) [(PyStr ''12345'', [])] ''12345.pdf''
     (estado_inicial [(''12345.pdf'', Arquivo 1)]) =
   Inr ((estado_inicial [(''12345.pdf'', Arquivo 1)])\<lparr>chamadas := 3, erros := 2, espera := 2,
          saida := [AvisoTentativa ''12345.pdf'' 1, AvisoTentativa ''12345.pdf'' 2, ErroFinal ''12345.pdf'']\<rparr>)"
  using processar_arquivo_falha_total [where nome = "''12345.pdf''" and pl = Windows and base = "''12345''"
          and ext = "''.pdf''" and t = "[(PyStr ''12345'', [])]" and d = "[]" and p = "parametros_do_script ''d''"
          and falha = "\<lambda>_. True" and st = "estado_inicial [(''12345.pdf'', Arquivo 1)]"]
  by (simp add: modelo_defs)

text \<open>
  C7. The first success ends the retries. When the first \<open>j\<close> attempts fail and the
  next one succeeds (with \<open>j < max_tentativas\<close>), the file is renamed by attempt
  \<open>j + 1\<close>: \<open>j + 1\<close> calls, \<open>j\<close> warnings and pauses, one line \<open>Renomeado\<close>, the success
  counter up by one and the error counter unchanged.
\<close>

theorem processar_arquivo_sucesso:
  assumes "CHR ''/'' \<notin> set nome" and "splitext pl nome = (base, ext)" and "buscar t (py_strip base) = Some d"
    and "os_rename pl False (pasta st) nome (novo_nome_arquivo p (py_strip base) d ext) = Inr d'"
    and "int j < max_tentativas p" and "0 \<le> atraso_entre_tentativas p"
    and "\<forall>k < j. falha (chamadas st + k)" and "\<not> falha (chamadas st + j)"
  shows "processar_arquivo p pl falha t nome st =
         Inr (st\<lparr>pasta := d', renomeados := Suc (renomeados st), chamadas := chamadas st + Suc j,
                 espera := espera st + int j * atraso_entre_tentativas p,
                 saida := saida st @ map (AvisoTentativa nome) [1..int j] @
                          [Renomeado nome (novo_nome_arquivo p (py_strip base) d ext)]\<rparr>)"
  using processar_arquivo_casado [OF assms(1-3)] tentar_sucesso_upto [OF assms(4-8)] by simp

theorem processar_arquivo_sucesso_witness:
  "processar_arquivo (parametros_do_script ''d'') Windows (\<lambda>k. k = 0) [(PyStr ''7'', [])] ''7.pdf''
     (estado_inicial [(''7.pdf'', Arquivo 1)]) =
   Inr ((estado_inicial [(''7.pdf'', Arquivo 1)])\<lparr>
          pasta := [(''7 - ADVOGADO_NAO_INFO - CLIENTE_NAO_INFO X ADVERSO_NAO_INFO.pdf'', Arquivo 1)],
          renomeados := 1, chamadas := 2, espera := 1,
          saida := [AvisoTentativa ''7.pdf'' 1,
                    Renomeado ''7.pdf'' ''7 - ADVOGADO_NAO_INFO - CLIENTE_NAO_INFO X ADVERSO_NAO_INFO.pdf'']\<rparr>)"
  using processar_arquivo_sucesso [where nome = "''7.pdf''" and pl = Windows and base = "''7''"
          and ext = "''.pdf''" and t = "[(PyStr ''7'', [])]" and d = "[]" and p = "parametros_do_script ''d''"
          and falha = "\<lambda>k. k = 0" and st = "estado_inicial [(''7.pdf'', Arquivo 1)]" and j = 1
          and d' = "[(''7 - ADVOGADO_NAO_INFO - CLIENTE_NAO_INFO X ADVERSO_NAO_INFO.pdf'', Arquivo 1)]"]
  by (simp add: modelo_defs)

text \<open>
  C9. Overwrite on POSIX. When the name a file is given already belongs to another
  file of the folder, the first successful \<open>os.rename\<close> on POSIX replaces that file:
  the rename is counted as a success, and the replaced file's contents are gone from
  the folder.
\<close>

theorem posix_sobrescreve:
  assumes "pasta_ok (pasta st)" and "splitext Posix nome = (base, ext)" and "buscar t (py_strip base) = Some d"
    and "map_of (pasta st) nome = Some (Arquivo c)"
    and "map_of (pasta st) (novo_nome_arquivo p (py_strip base) d ext) = Some (Arquivo c')"
    and "1 \<le> max_tentativas p" and "\<not> falha (chamadas st)"
  shows "\<exists>st'. processar_arquivo p Posix falha t nome st = Inr st' \<and>
               renomeados st' = Suc (renomeados st) \<and> erros st' = erros st \<and>
               map_of (pasta st') (novo_nome_arquivo p (py_strip base) d ext) = Some (Arquivo c) \<and>
               valores (pasta st') = valores (pasta st) - {#Arquivo c'#}"
proof -
  let ?novo = "novo_nome_arquivo p (py_strip base) d ext"
  have barra: "CHR ''/'' \<notin> set nome"
    using assms(1,4) by (auto simp: pasta_ok_def list_all_iff dest!: map_of_SomeD)
  have ne: "nome \<noteq> ?novo" by (rule nome_ja_correto_nunca_casa [OF assms(2)])
  note ren = os_rename_Posix_sobrescreve [OF assms(1,4,5) ne]
  have "[1..max_tentativas p] = 1 # [2..max_tentativas p]"
    using assms(6) by (simp add: upto_rec1)
  then have "tentar Posix falha (max_tentativas p) (atraso_entre_tentativas p) nome ?novo [1..max_tentativas p] st =
             Inr (True, st\<lparr>chamadas := Suc (chamadas st), pasta := AList.update ?novo (Arquivo c) (AList.delete nome (pasta st)),
                           renomeados := Suc (renomeados st), saida := saida st @ [Renomeado nome ?novo]\<rparr>)"
    using assms(7) ren(1) by simp
  with processar_arquivo_casado [OF barra assms(2,3)] ren(2) show ?thesis
    by (simp add: update_conv')
qed

theorem posix_sobrescreve_witness:
  "pasta_ok [(''7.pdf'', Arquivo 1), (''7 - ADVOGADO_NAO_INFO - CLIENTE_NAO_INFO X ADVERSO_NAO_INFO.pdf'', Arquivo 2)] \<and>
   (\<exists>st'. processar_arquivo (parametros_do_script ''d'') Posix (\<lambda>_. False) [(PyStr ''7'', [])] ''7.pdf''
            (estado_inicial [(''7.pdf'', Arquivo 1), (''7 - ADVOGADO_NAO_INFO - CLIENTE_NAO_INFO X ADVERSO_NAO_INFO.pdf'', Arquivo 2)]) = Inr st' \<and>
          renomeados st' = 1 \<and> erros st' = 0 \<and>
          map_of (pasta st') ''7 - ADVOGADO_NAO_INFO - CLIENTE_NAO_INFO X ADVERSO_NAO_INFO.pdf'' = Some (Arquivo 1) \<and>
          valores (pasta st') = {#Arquivo 1, Arquivo 2#} - {#Arquivo 2#})"
  using posix_sobrescreve [where nome = "''7.pdf''" and base = "''7''" and ext = "''.pdf''"
          and t = "[(PyStr ''7'', [])]" and d = "[]" and p = "parametros_do_script ''d''" and falha = "\<lambda>_. False"
          and st = "estado_inicial [(''7.pdf'', Arquivo 1), (''7 - ADVOGADO_NAO_INFO - CLIENTE_NAO_INFO X ADVERSO_NAO_INFO.pdf'', Arquivo 2)]"
          and c = 1 and c' = 2]
  by (simp add: modelo_defs)

text \<open>
  C12. Bounded work. A run of the loop over the files calls \<open>os.rename\<close> at most
  \<open>max_tentativas\<close> times per file, whether it returns or raises.
\<close>

theorem chamadas_limitadas:
  "chamadas (estado_de (processar_todos p pl falha t ns st)) \<le> chamadas st + length ns * nat (max_tentativas p)"
proof (induction ns arbitrary: st)
  case Nil
  show ?case by simp
next
  case (Cons n ns)
  have c1: "chamadas (estado_de (processar_arquivo p pl falha t n st)) \<le> chamadas st + nat (max_tentativas p)"
    using processar_arquivo_efeito [of p pl falha t n st "processar_arquivo p pl falha t n st"] by simp
  show ?case
  proof (cases "processar_arquivo p pl falha t n st")
    case (Inl x)
    with c1 show ?thesis by (cases x) (simp add: trans_le_add1)
  next
    case (Inr st1)
    with Cons.IH [of st1] c1 show ?thesis by simp
  qed
qed

text \<open>
  C22. No attempt at all. With \<open>max_tentativas \<le> 0\<close> the range of line 157 is
  empty: a file with a key is not renamed, \<open>os.rename\<close> is not called, nothing is
  printed for it, and it is counted once as an error (line 172).
\<close>

theorem processar_arquivo_sem_tentativas:
  assumes "CHR ''/'' \<notin> set nome" and "splitext pl nome = (base, ext)" and "buscar t (py_strip base) = Some d"
    and "max_tentativas p \<le> 0"
  shows "processar_arquivo p pl falha t nome st = Inr (st\<lparr>erros := Suc (erros st)\<rparr>)"
  using processar_arquivo_casado [OF assms(1-3)] assms(4) by (simp add: upto_empty)

theorem processar_arquivo_sem_tentativas_witness:
  "processar_arquivo ((parametros_do_script ''d'')\<lparr>max_tentativas := 0\<rparr>) Posix (\<lambda>_. False)
     [(PyStr ''12345'', [])] ''12345.pdf'' (estado_inicial [(''12345.pdf'', Arquivo 1)]) =
   Inr ((estado_inicial [(''12345.pdf'', Arquivo 1)])\<lparr>erros := 1\<rparr>)"
  using processar_arquivo_sem_tentativas [where nome = "''12345.pdf''" and pl = Posix and base = "''12345''"
          and ext = "''.pdf''" and t = "[(PyStr ''12345'', [])]" and d = "[]"
          and p = "(parametros_do_script ''d'')\<lparr>max_tentativas := 0\<rparr>" and falha = "\<lambda>_. False"
          and st = "estado_inicial [(''12345.pdf'', Arquivo 1)]"]
  by (simp add: modelo_defs)

text \<open>
  C21. A negative delay stops the whole run. After a first failed attempt, with at
  least two attempts allowed, \<open>time.sleep\<close> of a negative delay raises \<open>ValueError\<close>
  (line 167); it leaves the retry loop and the file loop, with the call and the warning
  already made.
\<close>

theorem processar_arquivo_atraso_negativo:
  assumes "CHR ''/'' \<notin> set nome" and "splitext pl nome = (base, ext)" and "buscar t (py_strip base) = Some d"
    and "2 \<le> max_tentativas p" and "atraso_entre_tentativas p < 0" and "falha (chamadas st)"
  shows "processar_arquivo p pl falha t nome st =
         Inl (ExcValueError ''sleep length must be non-negative'',
              st\<lparr>chamadas := Suc (chamadas st), saida := saida st @ [AvisoTentativa nome 1]\<rparr>)"
proof -
  have "[1..max_tentativas p] = 1 # [2..max_tentativas p]" using assms(4) by (simp add: upto_rec1)
  with processar_arquivo_casado [OF assms(1-3)] assms(4-6) show ?thesis
    by (simp add: os_rename_bloqueado)
qed

theorem processar_arquivo_atraso_negativo_witness:
  "processar_arquivo ((parametros_do_script ''d'')\<lparr>atraso_entre_tentativas := -1\<rparr>) Windows (\<lambda>_. True)
     [(PyStr ''12345'', [])] ''12345.pdf'' (estado_inicial [(''12345.pdf'', Arquivo 1)]) =
   Inl (ExcValueError ''sleep length must be non-negative'',
        (estado_inicial [(''12345.pdf'', Arquivo 1)])\<lparr>chamadas := 1, saida := [AvisoTentativa ''12345.pdf'' 1]\<rparr>)"
  using processar_arquivo_atraso_negativo [where nome = "''12345.pdf''" and pl = Windows and base = "''12345''"
          and ext = "''.pdf''" and t = "[(PyStr ''12345'', [])]" and d = "[]"
          and p = "(parametros_do_script ''d'')\<lparr>atraso_entre_tentativas := -1\<rparr>" and falha = "\<lambda>_. True"
          and st = "estado_inicial [(''12345.pdf'', Arquivo 1)]"]
  by (simp add: modelo_defs)

end
