(* ===== verification/Programa.thy ===== *)
theory Programa
  imports Renomeacao "HOL-Library.Sublist"
begin

text \<open>
  The whole of \<^verbatim>\<open>renomear_arquivos_por_planilha\<close> (lines 28--202) and the main
  block (lines 249--269). The file system is an association list from paths to
  objects: a workbook, another regular file, or a directory with its entries. The
  function reads the workbook (lines 69--80), builds the lookup table (lines
  83--100), checks the folder (lines 103--114), runs the rename loop of theory
  \<open>Renomeacao\<close> and prints the summary (lines 177--181). Every
  exception raised on the way is a value of \<^typ>\<open>excecao\<close>, turned by the handlers of
  lines 183--202 into the run's outcome. The main block asks for a folder until the
  user types a directory (lines 249--254), runs the function with the
  configuration of lines 10--23, and waits for a last line (line 269).
\<close>

section \<open>Definitions\<close>

subsection \<open>The file system\<close>

datatype objeto =
    ObjXlsx pasta_trabalho   \<comment> \<open>an Excel workbook, as \<open>openpyxl\<close> reads it\<close>
  | ObjArquivo               \<comment> \<open>a regular file that is not a workbook\<close>
  | ObjPasta diretorio       \<comment> \<open>a directory and its entries\<close>

type_synonym sistema_arquivos = "(caminho \<times> objeto) list"

definition os_path_exists :: "sistema_arquivos \<Rightarrow> caminho \<Rightarrow> bool" where
  "os_path_exists fs c \<longleftrightarrow> map_of fs c \<noteq> None"

definition os_path_isdir :: "sistema_arquivos \<Rightarrow> caminho \<Rightarrow> bool" where
  "os_path_isdir fs c \<longleftrightarrow> (case map_of fs c of Some (ObjPasta _) \<Rightarrow> True | _ \<Rightarrow> False)"

subsection \<open>Python text used in the messages\<close>

text \<open>
  \<open>str.lower\<close> on Latin-1 text: \<open>A\<close>--\<open>Z\<close> and the capitals \<open>0xC0\<close>--\<open>0xDE\<close> but
  \<open>0xD7\<close> (the multiplication sign) move up by \<open>0x20\<close>; every other character stays.
\<close>

definition maiusculas :: string where
  "maiusculas = ''ABCDEFGHIJKLMNOPQRSTUVWXYZ'' @
     [CHR 0xC0, CHR 0xC1, CHR 0xC2, CHR 0xC3, CHR 0xC4, CHR 0xC5, CHR 0xC6, CHR 0xC7,
      CHR 0xC8, CHR 0xC9, CHR 0xCA, CHR 0xCB, CHR 0xCC, CHR 0xCD, CHR 0xCE, CHR 0xCF,
      CHR 0xD0, CHR 0xD1, CHR 0xD2, CHR 0xD3, CHR 0xD4, CHR 0xD5, CHR 0xD6,
      CHR 0xD8, CHR 0xD9, CHR 0xDA, CHR 0xDB, CHR 0xDC, CHR 0xDD, CHR 0xDE]"

definition minusculas :: string where
  "minusculas = ''abcdefghijklmnopqrstuvwxyz'' @
     [CHR 0xE0, CHR 0xE1, CHR 0xE2, CHR 0xE3, CHR 0xE4, CHR 0xE5, CHR 0xE6, CHR 0xE7,
      CHR 0xE8, CHR 0xE9, CHR 0xEA, CHR 0xEB, CHR 0xEC, CHR 0xED, CHR 0xEE, CHR 0xEF,
      CHR 0xF0, CHR 0xF1, CHR 0xF2, CHR 0xF3, CHR 0xF4, CHR 0xF5, CHR 0xF6,
      CHR 0xF8, CHR 0xF9, CHR 0xFA, CHR 0xFB, CHR 0xFC, CHR 0xFD, CHR 0xFE]"

definition py_lower :: "string \<Rightarrow> string" where
  "py_lower s = map (\<lambda>c. case map_of (zip maiusculas minusculas) c of Some d \<Rightarrow> d | None \<Rightarrow> c) s"

text \<open>The operator \<open>sub in s\<close> on two strings: \<open>sub\<close> starts at some position of \<open>s\<close>.\<close>

fun contem :: "string \<Rightarrow> string \<Rightarrow> bool" where
  "contem sub [] \<longleftrightarrow> sub = []"
| "contem sub (c # s) \<longleftrightarrow> take (length sub) (c # s) = sub \<or> contem sub s"

text \<open>
  \<open>repr\<close> of a string without quote, backslash or unprintable character (the column
  names and paths of the messages), and of a list of such strings.
\<close>

definition aspas :: "string \<Rightarrow> string" where
  "aspas s = [CHR 0x27] @ s @ [CHR 0x27]"

definition py_repr_lista :: "string list \<Rightarrow> string" where
  "py_repr_lista xs = ''['' @ py_join '', '' (map aspas xs) @ '']''"

subsection \<open>Reading the workbook\<close>

text \<open>The messages of the exceptions raised on the way (lines 70, 104, 107 and \<open>pandas\<close>).\<close>

definition msg_planilha_ausente :: "caminho \<Rightarrow> string" where
  "msg_planilha_ausente c = ''A planilha '' @ aspas c @ '' n'' @ [CHR 0xE3] @
     ''o foi encontrada. Por favor, verifique o caminho.''"

definition msg_pasta_ausente :: "caminho \<Rightarrow> string" where
  "msg_pasta_ausente c = ''A pasta '' @ aspas c @ '' n'' @ [CHR 0xE3] @
     ''o existe. Por favor, verifique o caminho informado.''"

definition msg_nao_e_pasta :: "caminho \<Rightarrow> string" where
  "msg_nao_e_pasta c = ''O caminho '' @ aspas c @ '' n'' @ [CHR 0xE3] @ ''o '' @ [CHR 0xE9] @
     '' uma pasta v'' @ [CHR 0xE1] @ ''lida. Por favor, verifique.''"

fun msg_leitura :: "erro_leitura \<Rightarrow> string" where
  "msg_leitura (AbaNaoEncontrada n) = ''Worksheet named '' @ aspas n @ '' not found''"
| "msg_leitura (ColunasAusentes cs) =
     ''Usecols do not match columns, columns expected but not found: '' @ py_repr_lista cs"

definition msg_formato :: string where
  "msg_formato = ''Excel file format cannot be determined, you must specify an engine manually.''"

text \<open>
  Opening a directory as a file: \<open>IsADirectoryError\<close> on POSIX, \<open>PermissionError\<close>
  on Windows; neither is a \<open>FileNotFoundError\<close> or a \<open>NotADirectoryError\<close>, so both
  reach the last handler.
\<close>

fun msg_abrir_pasta :: "plataforma \<Rightarrow> caminho \<Rightarrow> string" where
  "msg_abrir_pasta Posix c = ''[Errno 21] Is a directory: '' @ aspas c"
| "msg_abrir_pasta Windows c = ''[Errno 13] Permission denied: '' @ aspas c"

text \<open>Lines 69--79: the existence check, then \<open>pd.read_excel\<close>.\<close>

definition ler_planilha :: "plataforma \<Rightarrow> sistema_arquivos \<Rightarrow> parametros \<Rightarrow> excecao + quadro" where
  "ler_planilha pl fs p =
     (if \<not> os_path_exists fs (caminho_planilha p)
      then Inl (ExcFileNotFound (msg_planilha_ausente (caminho_planilha p)))
      else case the (map_of fs (caminho_planilha p)) of
        ObjXlsx wb \<Rightarrow>
          (case read_excel wb (nome_aba_planilha p) (colunas_necessarias p) of
             Inl e \<Rightarrow> Inl (ExcValueError (msg_leitura e))
           | Inr df \<Rightarrow> Inr df)
      | ObjArquivo \<Rightarrow> Inl (ExcValueError msg_formato)
      | ObjPasta _ \<Rightarrow> Inl (ExcOutra (msg_abrir_pasta pl (caminho_planilha p))))"

subsection \<open>The run and its handlers\<close>

text \<open>How a run ends: the two warnings with \<open>return\<close>, the summary, or one of the handlers.\<close>

datatype desfecho =
    SemLinhasValidas             \<comment> \<open>line 85\<close>
  | SemArquivos                  \<comment> \<open>line 113\<close>
  | Concluido nat nat nat nat    \<comment> \<open>lines 177--181: total, renamed, not found, errors\<close>
  | FatalNaoEncontrado string    \<comment> \<open>line 184\<close>
  | FatalNaoDiretorio string     \<comment> \<open>lines 190--191\<close>
  | FatalColuna string           \<comment> \<open>lines 193--194\<close>
  | FatalLeitura string bool     \<comment> \<open>lines 196--198; the flag is the hint of line 198\<close>
  | FatalInesperado string       \<comment> \<open>line 202\<close>

text \<open>
  Lines 183--202, tried in order; \<open>str(e)\<close> is the message the exception carries.
  \<open>pd.errors.EmptyDataError\<close> is a subclass of \<open>ValueError\<close>, so the handler of
  line 195 catches it: the handler of lines 199--200 is never reached and has no
  outcome of its own.
\<close>

fun tratar :: "excecao \<Rightarrow> desfecho" where
  "tratar (ExcFileNotFound m) = FatalNaoEncontrado m"
| "tratar (ExcNotADirectory m) = FatalNaoDiretorio m"
| "tratar (ExcKeyError m) = FatalColuna m"
| "tratar (ExcValueError m) = FatalLeitura m (contem ''sheet'' (py_lower m))"
| "tratar (ExcEmptyData m) = FatalLeitura m (contem ''sheet'' (py_lower m))"
| "tratar (ExcOutra m) = FatalInesperado m"

record execucao =
  sistema :: sistema_arquivos    \<comment> \<open>the file system when the function returns\<close>
  eventos :: "evento list"       \<comment> \<open>the lines the rename loop printed\<close>
  desfecho :: desfecho

text \<open>The folder after the loop: the entries as the renames left them.\<close>

definition gravar_pasta :: "sistema_arquivos \<Rightarrow> caminho \<Rightarrow> estado \<Rightarrow> sistema_arquivos" where
  "gravar_pasta fs c st = AList.update c (ObjPasta (pasta st)) fs"

definition abortar :: "sistema_arquivos \<Rightarrow> evento list \<Rightarrow> excecao \<Rightarrow> execucao" where
  "abortar fs evs e = \<lparr>sistema = fs, eventos = evs, desfecho = tratar e\<rparr>"

definition renomear_arquivos_por_planilha ::
  "plataforma \<Rightarrow> ambiente \<Rightarrow> sistema_arquivos \<Rightarrow> parametros \<Rightarrow> execucao" where
  "renomear_arquivos_por_planilha pl falha fs p =
     (case ler_planilha pl fs p of
        Inl e \<Rightarrow> abortar fs [] e
      | Inr df \<Rightarrow>
          (case montar_tabela (coluna_processo_planilha p) df of
             Inl ks \<Rightarrow> abortar fs [] (ExcKeyError (py_repr_lista ks))
           | Inr None \<Rightarrow> \<lparr>sistema = fs, eventos = [], desfecho = SemLinhasValidas\<rparr>
           | Inr (Some dados_processos) \<Rightarrow>
               (if \<not> os_path_exists fs (pasta_arquivos p)
                then abortar fs [] (ExcFileNotFound (msg_pasta_ausente (pasta_arquivos p)))
                else case the (map_of fs (pasta_arquivos p)) of
                  ObjPasta d \<Rightarrow>
                    (let arquivos = arquivos_na_pasta d
                     in if arquivos = [] then \<lparr>sistema = fs, eventos = [], desfecho = SemArquivos\<rparr>
                        else case processar_todos p pl falha dados_processos arquivos (estado_inicial d) of
                          Inl (e, st) \<Rightarrow> abortar (gravar_pasta fs (pasta_arquivos p) st) (saida st) e
                        | Inr st \<Rightarrow>
                            \<lparr>sistema = gravar_pasta fs (pasta_arquivos p) st, eventos = saida st,
                             desfecho = Concluido (length arquivos) (renomeados st)
                                          (nao_encontrados st) (erros st)\<rparr>)
                | _ \<Rightarrow> abortar fs [] (ExcNotADirectory (msg_nao_e_pasta (pasta_arquivos p))))))"

subsection \<open>The main block\<close>

text \<open>
  Lines 249--254: the user's lines, read one per \<open>input()\<close>. The result is the folder
  accepted, the number of error messages of line 253 and the lines left; \<open>None\<close> is the
  \<open>EOFError\<close> of an \<open>input()\<close> with no line left, which ends the script.
\<close>

fun pedir_pasta :: "sistema_arquivos \<Rightarrow> string list \<Rightarrow> (caminho \<times> nat \<times> string list) option" where
  "pedir_pasta fs [] = None"
| "pedir_pasta fs (x # xs) =
     (if os_path_isdir fs x then Some (x, 0, xs)
      else map_option (\<lambda>(c, n, r). (c, Suc n, r)) (pedir_pasta fs xs))"

record sessao =
  avisos_caminho :: nat          \<comment> \<open>messages of line 253\<close>
  rodada :: execucao             \<comment> \<open>the call of lines 257--265\<close>
  fechou :: bool                 \<comment> \<open>the \<open>input()\<close> of line 269 found a line\<close>

definition main :: "plataforma \<Rightarrow> ambiente \<Rightarrow> sistema_arquivos \<Rightarrow> string list \<Rightarrow> sessao option" where
  "main pl falha fs entradas =
     (case pedir_pasta fs entradas of
        None \<Rightarrow> None
      | Some (pasta_informada, n, resto) \<Rightarrow>
          Some \<lparr>avisos_caminho = n,
                rodada = renomear_arquivos_por_planilha pl falha fs (parametros_do_script pasta_informada),
                fechou = (resto \<noteq> [])\<rparr>)"

subsection \<open>Well-formed file systems and example inputs\<close>

text \<open>Every folder of the file system is well formed (\<^const>\<open>pasta_ok\<close>).\<close>

definition sistema_ok :: "sistema_arquivos \<Rightarrow> bool" where
  "sistema_ok fs \<longleftrightarrow> list_all (\<lambda>(c, ob). case ob of ObjPasta d \<Rightarrow> pasta_ok d | _ \<Rightarrow> True) fs"

text \<open>
  Inputs used by the examples: a sheet with the script's four columns, and a file
  system with the configured workbook and one folder.
\<close>

definition aba_com :: "celula list list \<Rightarrow> aba" where
  "aba_com ls = \<lparr>cabecalho = [COLUNA_NUMERO_PROCESSO, COLUNA_NOME_CLIENTE, COLUNA_PARTE_ADVERSA,
                               COLUNA_NOME_ADVOGADO], linhas = ls\<rparr>"

definition sistema_com :: "celula list list \<Rightarrow> caminho \<Rightarrow> diretorio \<Rightarrow> sistema_arquivos" where
  "sistema_com ls c d = [(CAMINHO_PARA_MINHA_PLANILHA, ObjXlsx [(NOME_DA_ABA_PLANILHA, aba_com ls)]), (c, ObjPasta d)]"

text \<open>The rows of the spreadsheet example of the specification, with a non-numeric key.\<close>

definition linhas_exemplo :: "celula list list" where
  "linhas_exemplo =
     [[Texto ''12345'', Texto ''Empresa A'', Texto ''Empresa B'', Texto ''Dr. Fulano''],
      [Texto ''A-1'', Texto ''Maria Souza'', Texto ''Carlos Pereira'', Texto ''Dra. Beltrana'']]"

text \<open>The rows of the commented-out test data of lines 224--229.\<close>

definition linhas_teste :: "celula list list" where
  "linhas_teste =
     [[Texto ''12345'', Texto ''Empresa A'', Texto ''Empresa B'', Texto ''Dr. Fulano''],
      [Texto ''67890'', Texto (''Jo'' @ [CHR 0xE3] @ ''o Silva''), Texto ''Maria Oliveira'', Texto ''Dra. Ciclana''],
      [Texto ''11111'', Texto ''Empresa A'', Texto ''Empresa B'', Texto ''Dr. Fulano''],
      [Texto ''22222'', Texto ''Maria Souza'', Texto ''Carlos Pereira'', Texto ''Dra. Beltrana'']]"

definition pasta_teste :: diretorio where
  "pasta_teste = [(''12345.pdf'', Arquivo 1), (''67890.pdf'', Arquivo 2), (''99999.pdf'', Arquivo 3),
                  (''11111.pdf'', Arquivo 4)]"

declare os_path_exists_def [modelo_defs]
  os_path_isdir_def [modelo_defs]
  maiusculas_def [modelo_defs]
  minusculas_def [modelo_defs]
  py_lower_def [modelo_defs]
  aspas_def [modelo_defs]
  py_repr_lista_def [modelo_defs]
  msg_planilha_ausente_def [modelo_defs]
  msg_pasta_ausente_def [modelo_defs]
  msg_nao_e_pasta_def [modelo_defs]
  msg_formato_def [modelo_defs]
  ler_planilha_def [modelo_defs]
  gravar_pasta_def [modelo_defs]
  abortar_def [modelo_defs]
  renomear_arquivos_por_planilha_def [modelo_defs]
  sistema_ok_def [modelo_defs]
  aba_com_def [modelo_defs]
  sistema_com_def [modelo_defs]
  linhas_exemplo_def [modelo_defs]
  linhas_teste_def [modelo_defs]
  pasta_teste_def [modelo_defs]
  main_def [modelo_defs]

section \<open>Lemmas\<close>


lemma prefix_take_iff: "prefix xs ys \<longleftrightarrow> take (length xs) ys = xs"
  unfolding prefix_def by (metis append_take_drop_id append_eq_conv_conj)

text \<open>\<^const>\<open>contem\<close> decides the substring relation of the library.\<close>

lemma contem_sublist: "contem sub s \<longleftrightarrow> sublist sub s"
  by (induction s) (simp_all add: sublist_Cons_right prefix_take_iff)

lemma dica_aba: "contem ''sheet'' (py_lower (msg_leitura (AbaNaoEncontrada n)))"
proof -
  have eq: "py_lower (msg_leitura (AbaNaoEncontrada n)) =
            ''work'' @ ''sheet'' @ ('' named '' @ py_lower (aspas n @ '' not found''))"
    by (simp add: py_lower_def maiusculas_def minusculas_def)
  show ?thesis unfolding eq contem_sublist by (rule sublist_appendI)
qed

lemma os_rename_Windows_outros:
  assumes "os_rename Windows b d src dst = Inr d'" and "n \<noteq> src" and "map_of d n \<noteq> None"
  shows "map_of d' n = map_of d n"
proof (cases "src = dst")
  case True
  with assms(1) show ?thesis by (auto dest: os_rename_Inr)
next
  case False
  from assms(1) False have "map_of d dst = None" by (auto dest: os_rename_Inr)
  with assms(3) have "n \<noteq> dst" by auto
  with os_rename_map_of [OF assms(1) False] assms(2) show ?thesis by simp
qed

lemma tratar_Concluido [simp]: "tratar e \<noteq> Concluido a b c d"
  by (cases e) auto

lemma msg_planilha_pasta: "msg_planilha_ausente a \<noteq> msg_pasta_ausente b"
  by (simp add: msg_planilha_ausente_def msg_pasta_ausente_def aspas_def)

lemma ler_planilha_Inl_casos:
  "ler_planilha pl fs p = Inl e \<Longrightarrow>
   e = ExcFileNotFound (msg_planilha_ausente (caminho_planilha p)) \<or> (\<exists>m. e = ExcValueError m) \<or> (\<exists>m. e = ExcOutra m)"
  by (auto simp: ler_planilha_def split: if_splits objeto.splits sum.splits)

lemma pedir_pasta_Some: "pedir_pasta fs xs = Some (c, n, r) \<Longrightarrow> os_path_isdir fs c"
  by (induction xs arbitrary: n) (auto split: if_splits)

text \<open>
  Every run either stops before the loop, leaving the file system as it was and
  printing no line of the loop, or runs the loop over the folder's files with the
  table read from the sheet, and writes the folder the loop leaves.
\<close>

lemma renomear_resultado:
  "sistema (renomear_arquivos_por_planilha pl falha fs p) = fs \<and>
   eventos (renomear_arquivos_por_planilha pl falha fs p) = [] \<and>
   (\<forall>a b c e. desfecho (renomear_arquivos_por_planilha pl falha fs p) \<noteq> Concluido a b c e) \<or>
   (\<exists>df t d. ler_planilha pl fs p = Inr df \<and> montar_tabela (coluna_processo_planilha p) df = Inr (Some t) \<and>
      map_of fs (pasta_arquivos p) = Some (ObjPasta d) \<and> arquivos_na_pasta d \<noteq> [] \<and>
      (\<exists>r. processar_todos p pl falha t (arquivos_na_pasta d) (estado_inicial d) = r \<and>
         renomear_arquivos_por_planilha pl falha fs p =
          \<lparr>sistema = gravar_pasta fs (pasta_arquivos p) (estado_de r), eventos = saida (estado_de r),
           desfecho = (case r of Inl (e, _) \<Rightarrow> tratar e
                       | Inr st \<Rightarrow> Concluido (length (arquivos_na_pasta d)) (renomeados st)
                                     (nao_encontrados st) (erros st))\<rparr>))"
proof (cases "ler_planilha pl fs p")
  case (Inl e)
  then show ?thesis by (simp add: renomear_arquivos_por_planilha_def abortar_def)
next
  case (Inr df)
  note df = Inr
  show ?thesis
  proof (cases "montar_tabela (coluna_processo_planilha p) df")
    case (Inl ks)
    with df show ?thesis by (simp add: renomear_arquivos_por_planilha_def abortar_def)
  next
    case (Inr tt)
    show ?thesis
    proof (cases tt)
      case None
      with df Inr show ?thesis by (simp add: renomear_arquivos_por_planilha_def)
    next
      case (Some t)
      note tab = df Inr Some
      show ?thesis
      proof (cases "map_of fs (pasta_arquivos p)")
        case None
        with tab show ?thesis
          by (simp add: renomear_arquivos_por_planilha_def abortar_def os_path_exists_def)
      next
        case (Some ob)
        show ?thesis
        proof (cases ob)
          case (ObjPasta d)
          show ?thesis
          proof (cases "arquivos_na_pasta d = []")
            case True
            with tab Some ObjPasta show ?thesis
              by (simp add: renomear_arquivos_por_planilha_def os_path_exists_def)
          next
            case False
            let ?r = "processar_todos p pl falha t (arquivos_na_pasta d) (estado_inicial d)"
            have "renomear_arquivos_por_planilha pl falha fs p =
                  \<lparr>sistema = gravar_pasta fs (pasta_arquivos p) (estado_de ?r), eventos = saida (estado_de ?r),
                   desfecho = (case ?r of Inl (e, _) \<Rightarrow> tratar e
                               | Inr st \<Rightarrow> Concluido (length (arquivos_na_pasta d)) (renomeados st)
                                             (nao_encontrados st) (erros st))\<rparr>"
              using tab Some ObjPasta False
              by (cases ?r) (auto simp: renomear_arquivos_por_planilha_def os_path_exists_def abortar_def)
            with tab Some ObjPasta False show ?thesis by blast
          qed
        qed (use tab Some in \<open>simp_all add: renomear_arquivos_por_planilha_def abortar_def os_path_exists_def\<close>)
      qed
    qed
  qed
qed


subsection \<open>Folders along a run\<close>

lemma sistema_ok_pasta:
  assumes "sistema_ok fs" and "map_of fs c = Some (ObjPasta d)"
  shows "pasta_ok d"
proof -
  from map_of_SomeD [OF assms(2)] have "(c, ObjPasta d) \<in> set fs" .
  with assms(1) show ?thesis by (fastforce simp: sistema_ok_def list_all_iff)
qed

lemma map_of_gravar: "map_of (gravar_pasta fs c st) c = Some (ObjPasta (pasta st))"
  by (simp add: gravar_pasta_def update_conv')

lemma arquivos_na_pasta_ok: "pasta_ok d \<Longrightarrow> list_all (\<lambda>n. CHR ''/'' \<notin> set n) (arquivos_na_pasta d)"
  by (auto simp: pasta_ok_def arquivos_na_pasta_def listdir_def list_all_iff)

lemma processar_todos_sem_ignorar:
  assumes "list_all (\<lambda>n. CHR ''/'' \<notin> set n) ns" and "\<forall>x. Ignorando x \<notin> set (saida st)"
  shows "\<forall>x. Ignorando x \<notin> set (saida (estado_de (processar_todos p pl falha t ns st)))"
proof (rule processar_todos_invariante [where I = "\<lambda>st. \<forall>x. Ignorando x \<notin> set (saida st)", OF assms(2)])
  fix n and st0 :: estado
  assume i: "\<forall>x. Ignorando x \<notin> set (saida st0)" and n: "n \<in> set ns"
  from n assms(1) have "CHR ''/'' \<notin> set n" by (simp add: list_all_iff)
  from processar_arquivo_saida [OF this, of p pl falha t st0] i
  show "\<forall>x. Ignorando x \<notin> set (saida (estado_de (processar_arquivo p pl falha t n st0)))" by auto
qed

text \<open>
  C2. Summary of a run. When every folder is well formed and the run reaches the
  summary \<open>Concluido n_total s nf e\<close> of lines 178--181, the three counters add up to the
  number of files plus the number of files that failed on every attempt (the lines
  \<open>ErroFinal\<close> printed): a file that could not be renamed is counted twice.
\<close>

theorem resumo_contagem:
  assumes "sistema_ok fs"
    and "desfecho (renomear_arquivos_por_planilha pl falha fs p) = Concluido n_total s nf e"
  shows "s + nf + e = n_total + falhas_finais (eventos (renomear_arquivos_por_planilha pl falha fs p))"
proof -
  from renomear_resultado [of pl falha fs p] assms(2) obtain df t d r where
    d: "map_of fs (pasta_arquivos p) = Some (ObjPasta d)" and
    r: "processar_todos p pl falha t (arquivos_na_pasta d) (estado_inicial d) = r" and
    ex: "renomear_arquivos_por_planilha pl falha fs p =
          \<lparr>sistema = gravar_pasta fs (pasta_arquivos p) (estado_de r), eventos = saida (estado_de r),
           desfecho = (case r of Inl (e, _) \<Rightarrow> tratar e
                       | Inr st \<Rightarrow> Concluido (length (arquivos_na_pasta d)) (renomeados st)
                                     (nao_encontrados st) (erros st))\<rparr>"
    by auto
  obtain st where st: "r = Inr st"
    using assms(2) ex by (cases r) auto
  from sistema_ok_pasta [OF assms(1) d] have "list_all (\<lambda>n. CHR ''/'' \<notin> set n) (arquivos_na_pasta d)"
    by (rule arquivos_na_pasta_ok)
  from processar_todos_conta [OF this r [unfolded st]] obtain new where
    "saida st = new" "contadores st = length (arquivos_na_pasta d) + falhas_finais new"
    by (auto simp: estado_inicial_def contadores_def)
  with assms(2) ex st show ?thesis by (simp add: contadores_def)
qed

theorem resumo_contagem_witness:
  "sistema_ok (sistema_com linhas_exemplo ''/d'' [(''12345.pdf'', Arquivo 1)]) \<and>
   desfecho (renomear_arquivos_por_planilha Windows (\<lambda>_. True)
               (sistema_com linhas_exemplo ''/d'' [(''12345.pdf'', Arquivo 1)]) (parametros_do_script ''/d'')) =
   Concluido 1 0 0 2 \<and>
   (0::nat) + 0 + 2 = 1 + falhas_finais (eventos (renomear_arquivos_por_planilha Windows (\<lambda>_. True)
               (sistema_com linhas_exemplo ''/d'' [(''12345.pdf'', Arquivo 1)]) (parametros_do_script ''/d'')))"
  using resumo_contagem [of "sistema_com linhas_exemplo ''/d'' [(''12345.pdf'', Arquivo 1)]" Windows "\<lambda>_. True"
                           "parametros_do_script ''/d''" 1 0 0 2]
  by (simp add: modelo_defs)


lemma renomear_pasta_final:
  assumes "Q d" and "map_of fs (pasta_arquivos p) = Some (ObjPasta d)"
    and "\<And>df t st. ler_planilha pl fs p = Inr df \<Longrightarrow> montar_tabela (coluna_processo_planilha p) df = Inr (Some t) \<Longrightarrow>
           Q (pasta st) \<Longrightarrow> Q (pasta (estado_de (processar_todos p pl falha t (arquivos_na_pasta d) st)))"
  shows "\<exists>d'. map_of (sistema (renomear_arquivos_por_planilha pl falha fs p)) (pasta_arquivos p) = Some (ObjPasta d') \<and> Q d'"
  using renomear_resultado [of pl falha fs p]
proof
  assume "sistema (renomear_arquivos_por_planilha pl falha fs p) = fs \<and> eventos (renomear_arquivos_por_planilha pl falha fs p) = [] \<and>
          (\<forall>a b c e. desfecho (renomear_arquivos_por_planilha pl falha fs p) \<noteq> Concluido a b c e)"
  with assms(1,2) show ?thesis by auto
next
  assume "\<exists>df t d'. ler_planilha pl fs p = Inr df \<and> montar_tabela (coluna_processo_planilha p) df = Inr (Some t) \<and>
      map_of fs (pasta_arquivos p) = Some (ObjPasta d') \<and> arquivos_na_pasta d' \<noteq> [] \<and>
      (\<exists>r. processar_todos p pl falha t (arquivos_na_pasta d') (estado_inicial d') = r \<and>
         renomear_arquivos_por_planilha pl falha fs p =
          \<lparr>sistema = gravar_pasta fs (pasta_arquivos p) (estado_de r), eventos = saida (estado_de r),
           desfecho = (case r of Inl (e, _) \<Rightarrow> tratar e
                       | Inr st \<Rightarrow> Concluido (length (arquivos_na_pasta d')) (renomeados st)
                                     (nao_encontrados st) (erros st))\<rparr>)"
  then obtain df t r where df: "ler_planilha pl fs p = Inr df"
    and t: "montar_tabela (coluna_processo_planilha p) df = Inr (Some t)"
    and r: "processar_todos p pl falha t (arquivos_na_pasta d) (estado_inicial d) = r"
    and s: "sistema (renomear_arquivos_por_planilha pl falha fs p) = gravar_pasta fs (pasta_arquivos p) (estado_de r)"
    using assms(2) by auto
  have "Q (pasta (estado_de r))"
    using assms(3) [OF df t, of "estado_inicial d"] assms(1) r by (simp add: estado_inicial_def)
  with s show ?thesis by (simp add: map_of_gravar)
qed

text \<open>
  C3. No file is lost on Windows. Whatever the sheet, the lock failures and the way the
  run ends, the folder a run leaves on Windows holds the same multiset of files as
  before (renamed or not) and is still well formed: \<open>os.rename\<close> refuses an existing
  target there.
\<close>

theorem windows_conserva_arquivos:
  assumes "map_of fs (pasta_arquivos p) = Some (ObjPasta d)" and "pasta_ok d"
  shows "\<exists>d'. map_of (sistema (renomear_arquivos_por_planilha Windows falha fs p)) (pasta_arquivos p) =
               Some (ObjPasta d') \<and> valores d' = valores d \<and> pasta_ok d'"
proof (rule renomear_pasta_final [where Q = "\<lambda>d'. valores d' = valores d \<and> pasta_ok d'", OF _ assms(1)])
  show "valores d = valores d \<and> pasta_ok d" using assms(2) by simp
next
  fix df t and st :: estado
  assume "valores (pasta st) = valores d \<and> pasta_ok (pasta st)"
  then show "valores (pasta (estado_de (processar_todos p Windows falha t (arquivos_na_pasta d) st))) = valores d \<and>
             pasta_ok (pasta (estado_de (processar_todos p Windows falha t (arquivos_na_pasta d) st)))"
    by (rule processar_todos_preserva [where Q = "\<lambda>d'. valores d' = valores d \<and> pasta_ok d'"])
       (auto intro: os_rename_pasta_ok dest: os_rename_Windows_valores)
qed

theorem windows_conserva_arquivos_witness:
  "map_of (sistema_com linhas_exemplo ''/d'' [(''12345.pdf'', Arquivo 1)]) (pasta_arquivos (parametros_do_script ''/d'')) =
     Some (ObjPasta [(''12345.pdf'', Arquivo 1)]) \<and> pasta_ok [(''12345.pdf'', Arquivo 1)] \<and>
   (\<exists>d'. map_of (sistema (renomear_arquivos_por_planilha Windows (\<lambda>_. False)
            (sistema_com linhas_exemplo ''/d'' [(''12345.pdf'', Arquivo 1)]) (parametros_do_script ''/d'')))
            (pasta_arquivos (parametros_do_script ''/d'')) = Some (ObjPasta d') \<and>
          valores d' = {#Arquivo 1#} \<and> pasta_ok d')"
  using windows_conserva_arquivos [of "sistema_com linhas_exemplo ''/d'' [(''12345.pdf'', Arquivo 1)]"
          "parametros_do_script ''/d''" "[(''12345.pdf'', Arquivo 1)]" "\<lambda>_. False"]
  by (simp add: modelo_defs valores_def)

text \<open>
  C4. The branch for a file already named correctly (lines 151--154) is never taken:
  when every folder is well formed, no run prints \<open>IGNORANDO\<close>. The synthesised name
  always contains the separator \<open> - \<close> and so differs from the stem it was made from
  (see \<open>nome_ja_correto_nunca_casa\<close>).
\<close>

theorem nunca_ignora:
  assumes "sistema_ok fs"
  shows "Ignorando n \<notin> set (eventos (renomear_arquivos_por_planilha pl falha fs p))"
  using renomear_resultado [of pl falha fs p]
proof
  assume "\<exists>df t d. ler_planilha pl fs p = Inr df \<and> montar_tabela (coluna_processo_planilha p) df = Inr (Some t) \<and>
      map_of fs (pasta_arquivos p) = Some (ObjPasta d) \<and> arquivos_na_pasta d \<noteq> [] \<and>
      (\<exists>r. processar_todos p pl falha t (arquivos_na_pasta d) (estado_inicial d) = r \<and>
         renomear_arquivos_por_planilha pl falha fs p =
          \<lparr>sistema = gravar_pasta fs (pasta_arquivos p) (estado_de r), eventos = saida (estado_de r),
           desfecho = (case r of Inl (e, _) \<Rightarrow> tratar e
                       | Inr st \<Rightarrow> Concluido (length (arquivos_na_pasta d)) (renomeados st)
                                     (nao_encontrados st) (erros st))\<rparr>)"
  then obtain t d r where d: "map_of fs (pasta_arquivos p) = Some (ObjPasta d)"
    and r: "processar_todos p pl falha t (arquivos_na_pasta d) (estado_inicial d) = r"
    and e: "eventos (renomear_arquivos_por_planilha pl falha fs p) = saida (estado_de r)"
    by auto
  have "list_all (\<lambda>n. CHR ''/'' \<notin> set n) (arquivos_na_pasta d)"
    using sistema_ok_pasta [OF assms d] by (rule arquivos_na_pasta_ok)
  from processar_todos_sem_ignorar [OF this, of "estado_inicial d" p pl falha t] r e show ?thesis
    by (simp add: estado_inicial_def)
qed auto

theorem nunca_ignora_witness:
  "sistema_ok (sistema_com linhas_exemplo ''/d'' [(''12345.pdf'', Arquivo 1)]) \<and>
   Ignorando ''12345.pdf'' \<notin> set (eventos (renomear_arquivos_por_planilha Posix (\<lambda>_. False)
            (sistema_com linhas_exemplo ''/d'' [(''12345.pdf'', Arquivo 1)]) (parametros_do_script ''/d'')))"
  using nunca_ignora [of "sistema_com linhas_exemplo ''/d'' [(''12345.pdf'', Arquivo 1)]" "''12345.pdf''" Posix
                         "\<lambda>_. False" "parametros_do_script ''/d''"]
  by (simp add: modelo_defs)

subsection \<open>The checks before the loop\<close>

text \<open>
  C15. A missing spreadsheet stops the run first (line 70), whatever the folder: the
  \<open>FileNotFoundError\<close> handler reports it, and nothing is renamed.
\<close>

theorem planilha_ausente:
  assumes "\<not> os_path_exists fs (caminho_planilha p)"
  shows "renomear_arquivos_por_planilha pl falha fs p =
         \<lparr>sistema = fs, eventos = [], desfecho = FatalNaoEncontrado (msg_planilha_ausente (caminho_planilha p))\<rparr>"
  using assms by (simp add: renomear_arquivos_por_planilha_def ler_planilha_def abortar_def)

theorem planilha_ausente_witness:
  "\<not> os_path_exists [(''/d'', ObjPasta [])] (caminho_planilha (parametros_do_script ''/d'')) \<and>
   renomear_arquivos_por_planilha Posix (\<lambda>_. False) [(''/d'', ObjPasta [])] (parametros_do_script ''/d'') =
   \<lparr>sistema = [(''/d'', ObjPasta [])], eventos = [],
    desfecho = FatalNaoEncontrado (msg_planilha_ausente CAMINHO_PARA_MINHA_PLANILHA)\<rparr>"
  using planilha_ausente [of "[(''/d'', ObjPasta [])]" "parametros_do_script ''/d''" Posix "\<lambda>_. False"]
  by (simp add: modelo_defs)

text \<open>
  C16. A missing sheet ends in the \<open>ValueError\<close> handler with the hint of line 198:
  \<open>pandas\<close>' message \<open>Worksheet named ... not found\<close> contains \<open>sheet\<close> once lowered,
  whatever the sheet's name.
\<close>

theorem aba_ausente:
  assumes "map_of fs (caminho_planilha p) = Some (ObjXlsx wb)" and "map_of wb (nome_aba_planilha p) = None"
  shows "renomear_arquivos_por_planilha pl falha fs p =
         \<lparr>sistema = fs, eventos = [],
          desfecho = FatalLeitura (msg_leitura (AbaNaoEncontrada (nome_aba_planilha p))) True\<rparr>"
  using assms dica_aba [of "nome_aba_planilha p"]
  by (simp add: renomear_arquivos_por_planilha_def ler_planilha_def os_path_exists_def read_excel_def abortar_def)

theorem aba_ausente_witness:
  "map_of (sistema_com linhas_exemplo ''/d'' []) (caminho_planilha ((parametros_do_script ''/d'')\<lparr>nome_aba_planilha := ''X''\<rparr>)) =
     Some (ObjXlsx [(NOME_DA_ABA_PLANILHA, aba_com linhas_exemplo)]) \<and>
   map_of [(NOME_DA_ABA_PLANILHA, aba_com linhas_exemplo)] (nome_aba_planilha ((parametros_do_script ''/d'')\<lparr>nome_aba_planilha := ''X''\<rparr>)) = None \<and>
   desfecho (renomear_arquivos_por_planilha Posix (\<lambda>_. False) (sistema_com linhas_exemplo ''/d'' [])
               ((parametros_do_script ''/d'')\<lparr>nome_aba_planilha := ''X''\<rparr>)) =
     FatalLeitura (msg_leitura (AbaNaoEncontrada ''X'')) True"
  using aba_ausente [of "sistema_com linhas_exemplo ''/d'' []" "(parametros_do_script ''/d'')\<lparr>nome_aba_planilha := ''X''\<rparr>"
                        "[(NOME_DA_ABA_PLANILHA, aba_com linhas_exemplo)]" Posix "\<lambda>_. False"]
  by (simp add: modelo_defs del: msg_leitura.simps)

text \<open>
  C17. An entirely empty sheet does not raise \<open>EmptyDataError\<close>: \<open>read_excel\<close> returns
  an empty frame, \<open>dropna\<close> raises \<open>KeyError\<close> for the key column, and the run ends in
  the handler for a missing column (line 193).
\<close>

theorem aba_vazia:
  assumes "map_of fs (caminho_planilha p) = Some (ObjXlsx wb)" and "map_of wb (nome_aba_planilha p) = Some a"
    and "cabecalho a = []" and "linhas_lidas a = []"
  shows "renomear_arquivos_por_planilha pl falha fs p =
         \<lparr>sistema = fs, eventos = [], desfecho = FatalColuna (py_repr_lista [coluna_processo_planilha p])\<rparr>"
  using assms
  by (simp add: renomear_arquivos_por_planilha_def ler_planilha_def os_path_exists_def read_excel_def
                montar_tabela_def dropna_def abortar_def)

theorem aba_vazia_witness:
  "map_of [(CAMINHO_PARA_MINHA_PLANILHA, ObjXlsx [(NOME_DA_ABA_PLANILHA, \<lparr>cabecalho = [], linhas = [[Vazia]]\<rparr>)])]
     (caminho_planilha (parametros_do_script ''/d'')) =
     Some (ObjXlsx [(NOME_DA_ABA_PLANILHA, \<lparr>cabecalho = [], linhas = [[Vazia]]\<rparr>)]) \<and>
   map_of [(NOME_DA_ABA_PLANILHA, \<lparr>cabecalho = [], linhas = [[Vazia]]\<rparr>)] (nome_aba_planilha (parametros_do_script ''/d'')) =
     Some \<lparr>cabecalho = [], linhas = [[Vazia]]\<rparr> \<and>
   linhas_lidas \<lparr>cabecalho = [], linhas = [[Vazia]]\<rparr> = [] \<and>
   desfecho (renomear_arquivos_por_planilha Posix (\<lambda>_. False)
     [(CAMINHO_PARA_MINHA_PLANILHA, ObjXlsx [(NOME_DA_ABA_PLANILHA, \<lparr>cabecalho = [], linhas = [[Vazia]]\<rparr>)])]
     (parametros_do_script ''/d'')) = FatalColuna (py_repr_lista [COLUNA_NUMERO_PROCESSO])"
  using aba_vazia [of "[(CAMINHO_PARA_MINHA_PLANILHA, ObjXlsx [(NOME_DA_ABA_PLANILHA, \<lparr>cabecalho = [], linhas = [[Vazia]]\<rparr>)])]"
                      "parametros_do_script ''/d''" "[(NOME_DA_ABA_PLANILHA, \<lparr>cabecalho = [], linhas = [[Vazia]]\<rparr>)]"
                      "\<lparr>cabecalho = [], linhas = [[Vazia]]\<rparr>" Posix "\<lambda>_. False"]
  by (simp add: modelo_defs del: py_repr_lista_def)

text \<open>
  C18. A sheet without any key returns at line 86 with the warning of line 85, before
  the folder is looked at: the run ends this way even when the folder does not exist.
\<close>

theorem sem_linhas_validas:
  assumes "ler_planilha pl fs p = Inr df" and "coluna_processo_planilha p \<in> set (colunas df)"
    and "\<forall>r \<in> set (registros df). valor_em r (coluna_processo_planilha p) = PyNaN"
  shows "renomear_arquivos_por_planilha pl falha fs p = \<lparr>sistema = fs, eventos = [], desfecho = SemLinhasValidas\<rparr>"
proof -
  have "filter (\<lambda>r. valor_em r (coluna_processo_planilha p) \<noteq> PyNaN) (registros df) = []"
    using assms(3) by (simp add: filter_empty_conv)
  with assms(1,2) show ?thesis
    by (simp add: renomear_arquivos_por_planilha_def montar_tabela_def dropna_def)
qed

theorem sem_linhas_validas_witness:
  "ler_planilha Posix [(CAMINHO_PARA_MINHA_PLANILHA, ObjXlsx [(NOME_DA_ABA_PLANILHA, aba_com [[Vazia, Texto ''C'', Texto ''D'', Texto ''E'']])])]
     (parametros_do_script ''/nao/existe'') =
     Inr (projr (ler_planilha Posix [(CAMINHO_PARA_MINHA_PLANILHA, ObjXlsx [(NOME_DA_ABA_PLANILHA, aba_com [[Vazia, Texto ''C'', Texto ''D'', Texto ''E'']])])]
     (parametros_do_script ''/nao/existe''))) \<and>
   renomear_arquivos_por_planilha Posix (\<lambda>_. False)
     [(CAMINHO_PARA_MINHA_PLANILHA, ObjXlsx [(NOME_DA_ABA_PLANILHA, aba_com [[Vazia, Texto ''C'', Texto ''D'', Texto ''E'']])])]
     (parametros_do_script ''/nao/existe'') =
   \<lparr>sistema = [(CAMINHO_PARA_MINHA_PLANILHA, ObjXlsx [(NOME_DA_ABA_PLANILHA, aba_com [[Vazia, Texto ''C'', Texto ''D'', Texto ''E'']])])],
    eventos = [], desfecho = SemLinhasValidas\<rparr>"
  using sem_linhas_validas [of Posix "[(CAMINHO_PARA_MINHA_PLANILHA, ObjXlsx [(NOME_DA_ABA_PLANILHA, aba_com [[Vazia, Texto ''C'', Texto ''D'', Texto ''E'']])])]"
          "parametros_do_script ''/nao/existe''"
          "projr (ler_planilha Posix [(CAMINHO_PARA_MINHA_PLANILHA, ObjXlsx [(NOME_DA_ABA_PLANILHA, aba_com [[Vazia, Texto ''C'', Texto ''D'', Texto ''E'']])])]
             (parametros_do_script ''/nao/existe''))" "\<lambda>_. False"]
  by (simp add: modelo_defs)


lemma desfecho_com_pasta:
  assumes "os_path_isdir fs (pasta_arquivos p)"
  shows "desfecho (renomear_arquivos_por_planilha pl falha fs p) \<noteq> FatalNaoDiretorio m \<and>
         desfecho (renomear_arquivos_por_planilha pl falha fs p) \<noteq> FatalNaoEncontrado (msg_pasta_ausente c)"
proof -
  from assms obtain d where d: "map_of fs (pasta_arquivos p) = Some (ObjPasta d)"
    by (auto simp: os_path_isdir_def split: option.splits objeto.splits)
  show ?thesis
  proof (cases "ler_planilha pl fs p")
    case (Inl e)
    with ler_planilha_Inl_casos [OF Inl] show ?thesis
      by (auto simp: renomear_arquivos_por_planilha_def abortar_def msg_planilha_pasta)
  next
    case (Inr df)
    show ?thesis
    proof (cases "montar_tabela (coluna_processo_planilha p) df")
      case (Inl ks)
      with Inr show ?thesis by (simp add: renomear_arquivos_por_planilha_def abortar_def)
    next
      case (Inr tt)
      note df = \<open>ler_planilha pl fs p = Inr df\<close>
      show ?thesis
      proof (cases tt)
        case None
        with df Inr show ?thesis by (simp add: renomear_arquivos_por_planilha_def)
      next
        case (Some t)
        show ?thesis
        proof (cases "processar_todos p pl falha t (arquivos_na_pasta d) (estado_inicial d)")
          case (Inl x)
          obtain e st where x: "x = (e, st)" by (cases x)
          from processar_todos_Inl [OF Inl [unfolded x]] obtain n st0 where
            "processar_arquivo p pl falha t n st0 = Inl (e, st)" by blast
          then have "e = ExcValueError ''sleep length must be non-negative''" by (rule processar_arquivo_Inl)
          with df Inr Some d Inl x show ?thesis
            by (simp add: renomear_arquivos_por_planilha_def abortar_def os_path_exists_def Let_def)
        next
          case (Inr st)
          with df \<open>montar_tabela (coluna_processo_planilha p) df = Inr tt\<close> Some d show ?thesis
            by (simp add: renomear_arquivos_por_planilha_def os_path_exists_def Let_def)
        qed
      qed
    qed
  qed
qed

subsection \<open>The folder\<close>

text \<open>
  C19. A folder that does not exist ends the run in the \<open>FileNotFoundError\<close> handler
  (line 104), once the table is built, with nothing renamed.
\<close>

theorem pasta_ausente:
  assumes "ler_planilha pl fs p = Inr df" and "montar_tabela (coluna_processo_planilha p) df = Inr (Some t)"
    and "\<not> os_path_exists fs (pasta_arquivos p)"
  shows "renomear_arquivos_por_planilha pl falha fs p =
         \<lparr>sistema = fs, eventos = [], desfecho = FatalNaoEncontrado (msg_pasta_ausente (pasta_arquivos p))\<rparr>"
  using assms by (simp add: renomear_arquivos_por_planilha_def abortar_def)

theorem pasta_ausente_witness:
  "ler_planilha Posix (sistema_com linhas_exemplo ''/d'' [(''12345.pdf'', Arquivo 1), (''99999.pdf'', Arquivo 2)]) (parametros_do_script ''/e'') =
     Inr (projr (ler_planilha Posix (sistema_com linhas_exemplo ''/d'' [(''12345.pdf'', Arquivo 1), (''99999.pdf'', Arquivo 2)]) (parametros_do_script ''/e''))) \<and>
   montar_tabela COLUNA_NUMERO_PROCESSO (projr (ler_planilha Posix (sistema_com linhas_exemplo ''/d'' [(''12345.pdf'', Arquivo 1), (''99999.pdf'', Arquivo 2)]) (parametros_do_script ''/e''))) =
     Inr (Some (the (projr (montar_tabela COLUNA_NUMERO_PROCESSO (projr (ler_planilha Posix (sistema_com linhas_exemplo ''/d'' [(''12345.pdf'', Arquivo 1), (''99999.pdf'', Arquivo 2)]) (parametros_do_script ''/e''))))))) \<and>
   \<not> os_path_exists (sistema_com linhas_exemplo ''/d'' [(''12345.pdf'', Arquivo 1), (''99999.pdf'', Arquivo 2)]) ''/e'' \<and>
   desfecho (renomear_arquivos_por_planilha Posix (\<lambda>_. False) (sistema_com linhas_exemplo ''/d'' [(''12345.pdf'', Arquivo 1), (''99999.pdf'', Arquivo 2)]) (parametros_do_script ''/e'')) =
     FatalNaoEncontrado (msg_pasta_ausente ''/e'')"
  using pasta_ausente [of Posix "sistema_com linhas_exemplo ''/d'' [(''12345.pdf'', Arquivo 1), (''99999.pdf'', Arquivo 2)]" "parametros_do_script ''/e''"
          "projr (ler_planilha Posix (sistema_com linhas_exemplo ''/d'' [(''12345.pdf'', Arquivo 1), (''99999.pdf'', Arquivo 2)]) (parametros_do_script ''/e''))"
          "the (projr (montar_tabela COLUNA_NUMERO_PROCESSO (projr (ler_planilha Posix (sistema_com linhas_exemplo ''/d'' [(''12345.pdf'', Arquivo 1), (''99999.pdf'', Arquivo 2)]) (parametros_do_script ''/e'')))))"
          "\<lambda>_. False"]
  by (simp add: modelo_defs del: msg_pasta_ausente_def)

text \<open>
  C20. A folder path that exists but is not a directory ends the run in the
  \<open>NotADirectoryError\<close> handler (lines 107 and 190), with nothing renamed.
\<close>

theorem pasta_nao_diretorio:
  assumes "ler_planilha pl fs p = Inr df" and "montar_tabela (coluna_processo_planilha p) df = Inr (Some t)"
    and "os_path_exists fs (pasta_arquivos p)" and "\<not> os_path_isdir fs (pasta_arquivos p)"
  shows "renomear_arquivos_por_planilha pl falha fs p =
         \<lparr>sistema = fs, eventos = [], desfecho = FatalNaoDiretorio (msg_nao_e_pasta (pasta_arquivos p))\<rparr>"
  using assms
  by (auto simp: renomear_arquivos_por_planilha_def abortar_def os_path_exists_def os_path_isdir_def
           split: objeto.splits)

theorem pasta_nao_diretorio_witness:
  "ler_planilha Posix ((''/f'', ObjArquivo) # sistema_com linhas_exemplo ''/d'' [(''12345.pdf'', Arquivo 1), (''99999.pdf'', Arquivo 2)]) (parametros_do_script ''/f'') =
     Inr (projr (ler_planilha Posix ((''/f'', ObjArquivo) # sistema_com linhas_exemplo ''/d'' [(''12345.pdf'', Arquivo 1), (''99999.pdf'', Arquivo 2)]) (parametros_do_script ''/f''))) \<and>
   montar_tabela COLUNA_NUMERO_PROCESSO (projr (ler_planilha Posix ((''/f'', ObjArquivo) # sistema_com linhas_exemplo ''/d'' [(''12345.pdf'', Arquivo 1), (''99999.pdf'', Arquivo 2)]) (parametros_do_script ''/f''))) =
     Inr (Some (the (projr (montar_tabela COLUNA_NUMERO_PROCESSO
        (projr (ler_planilha Posix ((''/f'', ObjArquivo) # sistema_com linhas_exemplo ''/d'' [(''12345.pdf'', Arquivo 1), (''99999.pdf'', Arquivo 2)]) (parametros_do_script ''/f''))))))) \<and>
   os_path_exists ((''/f'', ObjArquivo) # sistema_com linhas_exemplo ''/d'' [(''12345.pdf'', Arquivo 1), (''99999.pdf'', Arquivo 2)]) ''/f'' \<and> \<not> os_path_isdir ((''/f'', ObjArquivo) # sistema_com linhas_exemplo ''/d'' [(''12345.pdf'', Arquivo 1), (''99999.pdf'', Arquivo 2)]) ''/f'' \<and>
   desfecho (renomear_arquivos_por_planilha Posix (\<lambda>_. False) ((''/f'', ObjArquivo) # sistema_com linhas_exemplo ''/d'' [(''12345.pdf'', Arquivo 1), (''99999.pdf'', Arquivo 2)]) (parametros_do_script ''/f'')) =
     FatalNaoDiretorio (msg_nao_e_pasta ''/f'')"
  using pasta_nao_diretorio [of Posix "(''/f'', ObjArquivo) # sistema_com linhas_exemplo ''/d'' [(''12345.pdf'', Arquivo 1), (''99999.pdf'', Arquivo 2)]" "parametros_do_script ''/f''"
          "projr (ler_planilha Posix ((''/f'', ObjArquivo) # sistema_com linhas_exemplo ''/d'' [(''12345.pdf'', Arquivo 1), (''99999.pdf'', Arquivo 2)]) (parametros_do_script ''/f''))"
          "the (projr (montar_tabela COLUNA_NUMERO_PROCESSO
             (projr (ler_planilha Posix ((''/f'', ObjArquivo) # sistema_com linhas_exemplo ''/d'' [(''12345.pdf'', Arquivo 1), (''99999.pdf'', Arquivo 2)]) (parametros_do_script ''/f'')))))"
          "\<lambda>_. False"]
  by (simp add: modelo_defs del: msg_nao_e_pasta_def)

text \<open>
  C11. On Windows a file whose stem is not a key keeps its name and contents through
  the whole run: no rename starts from it, and no rename may land on it.
\<close>

theorem windows_sem_chave_intocado:
  assumes "map_of fs (pasta_arquivos p) = Some (ObjPasta d)" and "ler_planilha Windows fs p = Inr df"
    and "montar_tabela (coluna_processo_planilha p) df = Inr (Some t)"
    and "buscar t (py_strip (fst (splitext Windows n))) = None" and "map_of d n = Some e"
  shows "\<exists>d'. map_of (sistema (renomear_arquivos_por_planilha Windows falha fs p)) (pasta_arquivos p) =
               Some (ObjPasta d') \<and> map_of d' n = Some e"
proof (rule renomear_pasta_final [where Q = "\<lambda>d'. map_of d' n = Some e", OF assms(5) assms(1)])
  fix df' t' and st :: estado
  assume "ler_planilha Windows fs p = Inr df'" and "montar_tabela (coluna_processo_planilha p) df' = Inr (Some t')"
    and q: "map_of (pasta st) n = Some e"
  with assms(2,3) have t': "t' = t" by simp
  show "map_of (pasta (estado_de (processar_todos p Windows falha t' (arquivos_na_pasta d) st))) n = Some e"
  proof (rule processar_todos_preserva [where Q = "\<lambda>d'. map_of d' n = Some e", OF q])
    fix d0 src dst d'
    assume "map_of d0 n = Some e" and "buscar t' (py_strip (fst (splitext Windows src))) \<noteq> None"
      and "os_rename Windows False d0 src dst = Inr d'"
    moreover from this(2) assms(4) t' have "n \<noteq> src" by auto
    ultimately show "map_of d' n = Some e" using os_rename_Windows_outros by fastforce
  qed
qed

theorem windows_sem_chave_intocado_witness:
  "map_of (sistema_com linhas_exemplo ''/d'' [(''12345.pdf'', Arquivo 1), (''99999.pdf'', Arquivo 2)]) ''/d'' = Some (ObjPasta [(''12345.pdf'', Arquivo 1), (''99999.pdf'', Arquivo 2)]) \<and>
   ler_planilha Windows (sistema_com linhas_exemplo ''/d'' [(''12345.pdf'', Arquivo 1), (''99999.pdf'', Arquivo 2)]) (parametros_do_script ''/d'') =
     Inr (projr (ler_planilha Windows (sistema_com linhas_exemplo ''/d'' [(''12345.pdf'', Arquivo 1), (''99999.pdf'', Arquivo 2)]) (parametros_do_script ''/d''))) \<and>
   montar_tabela COLUNA_NUMERO_PROCESSO (projr (ler_planilha Windows (sistema_com linhas_exemplo ''/d'' [(''12345.pdf'', Arquivo 1), (''99999.pdf'', Arquivo 2)]) (parametros_do_script ''/d''))) =
     Inr (Some (the (projr (montar_tabela COLUNA_NUMERO_PROCESSO (projr (ler_planilha Windows (sistema_com linhas_exemplo ''/d'' [(''12345.pdf'', Arquivo 1), (''99999.pdf'', Arquivo 2)]) (parametros_do_script ''/d''))))))) \<and>
   buscar (the (projr (montar_tabela COLUNA_NUMERO_PROCESSO (projr (ler_planilha Windows (sistema_com linhas_exemplo ''/d'' [(''12345.pdf'', Arquivo 1), (''99999.pdf'', Arquivo 2)]) (parametros_do_script ''/d''))))))
     (py_strip (fst (splitext Windows ''99999.pdf''))) = None \<and>
   map_of [(''12345.pdf'', Arquivo 1), (''99999.pdf'', Arquivo 2)] ''99999.pdf'' = Some (Arquivo 2) \<and>
   (\<exists>d'. map_of (sistema (renomear_arquivos_por_planilha Windows (\<lambda>_. False) (sistema_com linhas_exemplo ''/d'' [(''12345.pdf'', Arquivo 1), (''99999.pdf'', Arquivo 2)]) (parametros_do_script ''/d''))) ''/d'' =
          Some (ObjPasta d') \<and> map_of d' ''99999.pdf'' = Some (Arquivo 2))"
  using windows_sem_chave_intocado [of "sistema_com linhas_exemplo ''/d'' [(''12345.pdf'', Arquivo 1), (''99999.pdf'', Arquivo 2)]" "parametros_do_script ''/d''"
          "[(''12345.pdf'', Arquivo 1), (''99999.pdf'', Arquivo 2)]"
          "projr (ler_planilha Windows (sistema_com linhas_exemplo ''/d'' [(''12345.pdf'', Arquivo 1), (''99999.pdf'', Arquivo 2)]) (parametros_do_script ''/d''))"
          "the (projr (montar_tabela COLUNA_NUMERO_PROCESSO (projr (ler_planilha Windows (sistema_com linhas_exemplo ''/d'' [(''12345.pdf'', Arquivo 1), (''99999.pdf'', Arquivo 2)]) (parametros_do_script ''/d'')))))"
          "''99999.pdf''" "Arquivo 2" "\<lambda>_. False"]
  by (simp add: modelo_defs)


subsection \<open>The main block\<close>

text \<open>
  C23. The prompt loop accepts the first line that names a directory: it returns that
  line, the number of lines rejected before it (one error message each), and the lines
  not read yet.
\<close>

theorem pedir_pasta_correto:
  "pedir_pasta fs xs = Some (c, n, r) \<longleftrightarrow>
   n < length xs \<and> xs ! n = c \<and> os_path_isdir fs c \<and> list_all (\<lambda>x. \<not> os_path_isdir fs x) (take n xs) \<and>
   r = drop (Suc n) xs"
proof (induction xs arbitrary: n)
  case Nil
  show ?case by simp
next
  case (Cons x xs)
  show ?case
  proof (cases n)
    case 0
    then show ?thesis by auto
  next
    case (Suc k)
    then show ?thesis using Cons.IH [of k] by (auto split: option.splits)
  qed
qed

theorem pedir_pasta_correto_witness:
  "pedir_pasta [(''/d'', ObjPasta []), (''/f'', ObjArquivo)] [''/x'', ''/f'', ''/d'', ''fim''] = Some (''/d'', 2, [''fim'']) \<and>
   2 < length [''/x'', ''/f'', ''/d'', ''fim''] \<and> [''/x'', ''/f'', ''/d'', ''fim''] ! 2 = ''/d''"
  using pedir_pasta_correto [of "[(''/d'', ObjPasta []), (''/f'', ObjArquivo)]" "[''/x'', ''/f'', ''/d'', ''fim'']"
                                "''/d''" 2 "[''fim'']"]
  by (simp add: modelo_defs numeral_2_eq_2)

text \<open>
  C24. The run the main block starts never ends in the handlers for a missing folder
  or a path that is not a folder (lines 103--107 and 189): the prompt loop has already
  checked that the folder is a directory.
\<close>

theorem main_pasta_valida:
  assumes "main pl falha fs xs = Some s"
  shows "desfecho (rodada s) \<noteq> FatalNaoDiretorio m \<and> desfecho (rodada s) \<noteq> FatalNaoEncontrado (msg_pasta_ausente c)"
proof -
  from assms obtain c0 n r where pp: "pedir_pasta fs xs = Some (c0, n, r)"
    and s: "rodada s = renomear_arquivos_por_planilha pl falha fs (parametros_do_script c0)"
    by (auto simp: main_def split: option.splits)
  from pedir_pasta_Some [OF pp] have "os_path_isdir fs (pasta_arquivos (parametros_do_script c0))"
    by (simp add: parametros_do_script_def)
  from desfecho_com_pasta [OF this, of pl falha m c] s show ?thesis by simp
qed

theorem main_pasta_valida_witness:
  "main Posix (\<lambda>_. False) (sistema_com linhas_exemplo ''/d'' [(''12345.pdf'', Arquivo 1), (''99999.pdf'', Arquivo 2)]) [''/x'', ''/d''] = Some (the (main Posix (\<lambda>_. False) (sistema_com linhas_exemplo ''/d'' [(''12345.pdf'', Arquivo 1), (''99999.pdf'', Arquivo 2)]) [''/x'', ''/d''])) \<and>
   desfecho (rodada (the (main Posix (\<lambda>_. False) (sistema_com linhas_exemplo ''/d'' [(''12345.pdf'', Arquivo 1), (''99999.pdf'', Arquivo 2)]) [''/x'', ''/d'']))) \<noteq> FatalNaoDiretorio ''/x'' \<and>
   desfecho (rodada (the (main Posix (\<lambda>_. False) (sistema_com linhas_exemplo ''/d'' [(''12345.pdf'', Arquivo 1), (''99999.pdf'', Arquivo 2)]) [''/x'', ''/d'']))) \<noteq> FatalNaoEncontrado (msg_pasta_ausente ''/x'')"
  using main_pasta_valida [of Posix "\<lambda>_. False" "sistema_com linhas_exemplo ''/d'' [(''12345.pdf'', Arquivo 1), (''99999.pdf'', Arquivo 2)]" "[''/x'', ''/d'']"
          "the (main Posix (\<lambda>_. False) (sistema_com linhas_exemplo ''/d'' [(''12345.pdf'', Arquivo 1), (''99999.pdf'', Arquivo 2)]) [''/x'', ''/d''])" "''/x''" "''/x''"]
  by (simp add: main_def os_path_isdir_def sistema_com_def CAMINHO_PARA_MINHA_PLANILHA_def)

end
